(* ===== verification/Prelude.thy ===== *)
theory Prelude
  imports Main "HOL-Library.Sublist"
begin

text \<open>
  Shared vocabulary of the development: the undefined behaviours and ill-formed uses that a
  statement of the program can run into (as values of type \<open>error\<close>), results as
  \<open>error + 'a\<close> with their sequencing operator \<open>bind_res\<close>, and the collections of facts
  the component theories fill and the program proofs unfold.
\<close>

section \<open>Collections\<close>

named_theorems stmt_defs
named_theorems put_defs
named_theorems slot_defs

section \<open>Errors and results\<close>

text \<open>
  The program has no run-time error handling of its own. What can go wrong in a C++ block of
  this shape is undefined behaviour (reading an indeterminate value, signed overflow) or an
  ill-formed use of a name (use before its declaration, a second declaration in the same
  scope, assignment to a \<open>const\<close> object); a library function that is handed a character
  array without a terminating null character reads past its end; an operand of a type for
  which an operator or a conversion is not defined is a type error. Each is a value here,
  so that their absence in \<open>main\<close> is a theorem and not an assumption.
\<close>

datatype error =
    NotDeclared
  | Redeclared
  | IndeterminateRead
  | AssignToConst
  | SignedOverflow
  | Unterminated
  | IllTyped

type_synonym 'a result = "error + 'a"

fun bind_res :: "'e + 'a \<Rightarrow> ('a \<Rightarrow> 'e + 'b) \<Rightarrow> 'e + 'b" where
  "bind_res (Inl e) f = Inl e"
| "bind_res (Inr v) f = f v"

definition is_ok :: "'e + 'a \<Rightarrow> bool" where
  "is_ok r = (case r of Inl _ \<Rightarrow> False | Inr _ \<Rightarrow> True)"

lemma is_ok_simps [simp]: "is_ok (Inr v)" "\<not> is_ok (Inl e)"
  by (simp_all add: is_ok_def)

lemma is_ok_iff: "is_ok r \<longleftrightarrow> (\<exists>v. r = Inr v)"
  by (cases r) simp_all

lemma bind_res_Inr_iff:
  "bind_res m f = Inr b \<longleftrightarrow> (\<exists>a. m = Inr a \<and> f a = Inr b)"
  by (cases m) simp_all

lemma bind_res_Inl_iff:
  "bind_res m f = Inl e \<longleftrightarrow> m = Inl e \<or> (\<exists>a. m = Inr a \<and> f a = Inl e)"
  by (cases m) simp_all

lemma bind_res_right_unit [simp]: "bind_res m Inr = m"
  by (cases m) simp_all

lemma bind_res_assoc:
  "bind_res (bind_res m f) g = bind_res m (\<lambda>v. bind_res (f v) g)"
  by (cases m) simp_all

lemma is_ok_bind_res: "is_ok (bind_res m f) \<longleftrightarrow> (\<exists>a. m = Inr a \<and> is_ok (f a))"
  by (cases m) simp_all

lemma bind_res_cong [fundef_cong]:
  "m = m' \<Longrightarrow> (\<And>v. m' = Inr v \<Longrightarrow> f v = f' v) \<Longrightarrow> bind_res m f = bind_res m' f'"
  by (cases m') simp_all

section \<open>Results that fail only in allowed ways\<close>

text \<open>
  \<open>outcome X r P\<close>: the result \<open>r\<close> is a value with \<open>P\<close>, or an error with \<open>X\<close>. The soundness of
  a check on program text is a statement of this form about every run of a checked text,
  and \<open>outcome_bind\<close> carries it through a sequence of computations.
\<close>

definition outcome :: "('e \<Rightarrow> bool) \<Rightarrow> 'e + 'a \<Rightarrow> ('a \<Rightarrow> bool) \<Rightarrow> bool" where
  "outcome X r P = (case r of Inl e \<Rightarrow> X e | Inr a \<Rightarrow> P a)"

lemma outcome_simps [simp]: "outcome X (Inr a) P = P a" "outcome X (Inl e) P = X e"
  by (simp_all add: outcome_def)

lemma outcome_bind:
  "outcome X m P \<Longrightarrow> (\<And>a. P a \<Longrightarrow> outcome X (f a) Q) \<Longrightarrow> outcome X (bind_res m f) Q"
  by (cases m) simp_all

lemma outcome_bind2:
  "outcome X m (\<lambda>(a, b). P a b) \<Longrightarrow> (\<And>a b. P a b \<Longrightarrow> outcome X (f a b) Q) \<Longrightarrow>
   outcome X (bind_res m (\<lambda>(a, b). f a b)) Q"
  by (cases m) auto

lemma outcome_mono: "outcome X r P \<Longrightarrow> (\<And>a. P a \<Longrightarrow> Q a) \<Longrightarrow> outcome X r Q"
  by (cases r) simp_all

lemma outcome_conj:
  "outcome X r P \<Longrightarrow> outcome Y r Q \<Longrightarrow> outcome (\<lambda>e. X e \<and> Y e) r (\<lambda>a. P a \<and> Q a)"
  by (cases r) simp_all

lemma outcome_binop:
  assumes m1: "outcome X m1 (\<lambda>(a, s). Pa a \<and> P s)"
    and m2: "\<And>s. P s \<Longrightarrow> outcome X (m2 s) (\<lambda>(b, s). Pb b \<and> Q s)"
    and op: "\<And>a b. Pa a \<Longrightarrow> Pb b \<Longrightarrow> outcome X (f a b) R"
  shows "outcome X
    (bind_res m1 (\<lambda>(a, s1).
     bind_res (m2 s1) (\<lambda>(b, s2).
     bind_res (f a b) (\<lambda>c. Inr (c, s2)))))
    (\<lambda>(c, s). R c \<and> Q s)"
proof (rule outcome_bind2 [OF m1])
  fix a s1 assume a: "Pa a \<and> P s1"
  then have "outcome X (m2 s1) (\<lambda>(b, s). Pb b \<and> Q s)"
    by (simp add: m2)
  then show "outcome X (bind_res (m2 s1) (\<lambda>(b, s2). bind_res (f a b) (\<lambda>c. Inr (c, s2))))
      (\<lambda>(c, s). R c \<and> Q s)"
  proof (rule outcome_bind2)
    fix b s2 assume "Pb b \<and> Q s2"
    with a show "outcome X (bind_res (f a b) (\<lambda>c. Inr (c, s2))) (\<lambda>(c, s). R c \<and> Q s)"
      by (intro outcome_bind [OF op]) simp_all
  qed
qed

abbreviation returning :: "'e + 'a \<Rightarrow> ('a \<Rightarrow> bool) \<Rightarrow> bool" where
  "returning \<equiv> outcome (\<lambda>e. True)"

lemma returning_True [simp]: "returning r (\<lambda>a. True)"
  by (cases r) simp_all

lemma returningD: "returning r P \<Longrightarrow> r = Inr a \<Longrightarrow> P a"
  by simp

lemma outcome_cases:
  "outcome X r P \<Longrightarrow> (\<exists>a. r = Inr a \<and> P a) \<or> (\<exists>e. r = Inl e \<and> X e)"
  by (cases r) simp_all

section \<open>Text\<close>

text \<open>The one-character string \<open>"\n"\<close> of the source.\<close>

definition newline :: string where
  "newline = [CHR 0x0A]"

lemma length_newline [simp]: "length newline = 1"
  by (simp add: newline_def)

lemma newline_neq_Nil [simp]: "newline \<noteq> []"
  by (simp add: newline_def)

section \<open>Lists\<close>

lemma prefix_append_same [simp]: "prefix xs (xs @ ys)"
  by (simp add: prefix_def)

lemma prefix_trans_append: "prefix xs ys \<Longrightarrow> prefix xs (ys @ zs)"
  by (auto simp: prefix_def)

lemma replicate_append_same_eq: "replicate k a @ [a] = a # replicate k a"
  by (induction k) simp_all

section \<open>Subsequences\<close>

lemma subseq_set_subset: "subseq xs ys \<Longrightarrow> set xs \<subseteq> set ys"
  by (auto elim: list_emb_set)

lemma subseq_distinct: "subseq xs ys \<Longrightarrow> distinct ys \<Longrightarrow> distinct xs"
  by (induction rule: list_emb.induct) (auto dest: subseq_set_subset)

lemma subseq_list_all: "subseq xs ys \<Longrightarrow> list_all P ys \<Longrightarrow> list_all P xs"
  by (auto simp: list_all_iff dest: subseq_set_subset)

section \<open>What every run of a step relation comes to\<close>

text \<open>
  \<open>inevitable r P x\<close>: every run of the step relation \<open>r\<close> from \<open>x\<close> meets a state with \<open>P\<close>.
  Either \<open>P\<close> holds at \<open>x\<close>, or \<open>x\<close> has a successor and \<open>P\<close> is inevitable from each of its
  successors. A state without a successor and without \<open>P\<close> is therefore excluded, and so is
  a run that goes on forever without \<open>P\<close>. The usual way to establish it is a measure that
  every step lowers (\<open>inevitable_measure\<close>).
\<close>

inductive inevitable :: "('a \<Rightarrow> 'a \<Rightarrow> bool) \<Rightarrow> ('a \<Rightarrow> bool) \<Rightarrow> 'a \<Rightarrow> bool"
  for r :: "'a \<Rightarrow> 'a \<Rightarrow> bool" and P :: "'a \<Rightarrow> bool" where
  inevitable_now: "P x \<Longrightarrow> inevitable r P x"
| inevitable_later: "r x y \<Longrightarrow> (\<And>z. r x z \<Longrightarrow> inevitable r P z) \<Longrightarrow> inevitable r P x"

lemma inevitable_mono:
  "inevitable r P x \<Longrightarrow> (\<And>y. P y \<Longrightarrow> Q y) \<Longrightarrow> inevitable r Q x"
  by (induction rule: inevitable.induct) (auto intro: inevitable.intros)

lemma inevitable_reachable: "inevitable r P x \<Longrightarrow> \<exists>y. rtranclp r x y \<and> P y"
proof (induction rule: inevitable.induct)
  case (inevitable_now x)
  then show ?case by blast
next
  case (inevitable_later x y)
  then obtain u where "rtranclp r y u" and "P u" by blast
  with \<open>r x y\<close> show ?case
    by (blast intro: converse_rtranclp_into_rtranclp)
qed

lemma inevitable_on_run:
  assumes "inevitable r P x" and "s 0 = x" and "\<And>i. r (s i) (s (Suc i))"
  shows "\<exists>i. P (s i)"
  using assms
proof (induction arbitrary: s rule: inevitable.induct)
  case (inevitable_now x)
  then show ?case by blast
next
  case (inevitable_later x y)
  have "r x (s 1)"
    using inevitable_later.prems(2) [of 0] inevitable_later.prems(1) by simp
  then have "\<exists>i. P ((\<lambda>i. s (Suc i)) i)"
    using inevitable_later.prems(2) by (intro inevitable_later.IH) simp_all
  then show ?case by blast
qed

lemma inevitable_not_stuck:
  "inevitable r P x \<Longrightarrow> \<not> P x \<Longrightarrow> \<exists>y. r x y"
  by (auto elim: inevitable.cases)

lemma inevitable_step:
  "inevitable r P x \<Longrightarrow> \<not> P x \<Longrightarrow> r x y \<Longrightarrow> inevitable r P y"
  by (auto elim: inevitable.cases)

lemma inevitable_measure:
  fixes f :: "'a \<Rightarrow> nat"
  assumes "I x"
    and next_step: "\<And>x. I x \<Longrightarrow> \<not> P x \<Longrightarrow> \<exists>y. r x y"
    and lower: "\<And>x y. I x \<Longrightarrow> \<not> P x \<Longrightarrow> r x y \<Longrightarrow> I y \<and> f y < f x"
  shows "inevitable r P x"
  using \<open>I x\<close>
proof (induction x rule: measure_induct_rule [of f])
  case (less x)
  show ?case
  proof (cases "P x")
    case True
    then show ?thesis by (rule inevitable_now)
  next
    case False
    with less.prems obtain y where "r x y"
      using next_step by blast
    moreover have "inevitable r P z" if "r x z" for z
      using lower [OF less.prems False that] by (auto intro: less.IH)
    ultimately show ?thesis by (rule inevitable_later)
  qed
qed

end
