(* ===== verification/CInt.thy ===== *)
theory CInt
  imports Prelude "HOL-Library.Word"
begin

text \<open>
  The type \<open>int\<close> of the program and the two arithmetic operators the program applies to
  it: \<open>+\<close> in \<open>x+y+z\<close> and \<open>*\<close> in \<open>length * width\<close>.
  An \<open>int\<close> is a 32-bit two's complement word (the width every mainstream ABI gives it),
  read with \<open>sint\<close>. Signed overflow is undefined behaviour in C++, so the operators
  are checked: they return \<open>Inl SignedOverflow\<close> when the mathematical result is not
  representable, and the wrapped word is never produced. The lemmas give the exact
  condition for each result and the value in the success case.
\<close>

section \<open>The type and its range\<close>

type_synonym cint = "32 word"

definition INT_MIN :: int where
  "INT_MIN = - (2 ^ 31)"

definition INT_MAX :: int where
  "INT_MAX = 2 ^ 31 - 1"

definition in_int_range :: "int \<Rightarrow> bool" where
  "in_int_range i \<longleftrightarrow> INT_MIN \<le> i \<and> i \<le> INT_MAX"

lemmas int_range_defs = in_int_range_def INT_MIN_def INT_MAX_def

section \<open>Checked arithmetic\<close>

definition add_int :: "cint \<Rightarrow> cint \<Rightarrow> error + cint" where
  "add_int a b =
     (if in_int_range (sint a + sint b) then Inr (a + b) else Inl SignedOverflow)"

definition mul_int :: "cint \<Rightarrow> cint \<Rightarrow> error + cint" where
  "mul_int a b =
     (if in_int_range (sint a * sint b) then Inr (a * b) else Inl SignedOverflow)"

section \<open>Range lemmas\<close>

lemma in_int_range_sint [simp]: "in_int_range (sint (w :: cint))"
  using sint_ge [of w] sint_lt [of w] by (simp add: int_range_defs)

lemma signed_take_bit_in_range:
  "in_int_range i \<Longrightarrow> signed_take_bit 31 i = i"
  by (simp add: int_range_defs signed_take_bit_int_eq_self)

lemma sint_word_of_int_in_range:
  "in_int_range i \<Longrightarrow> sint (word_of_int i :: cint) = i"
  by (simp add: sint_sbintrunc' signed_take_bit_in_range)

lemma sint_plus_in_range:
  "in_int_range (sint a + sint b) \<Longrightarrow> sint (a + b :: cint) = sint a + sint b"
  by (simp add: sint_word_ariths signed_take_bit_in_range)

lemma sint_times_in_range:
  "in_int_range (sint a * sint b) \<Longrightarrow> sint (a * b :: cint) = sint a * sint b"
  by (simp add: sint_word_ariths signed_take_bit_in_range)

lemma sint_inject_cint: "sint (a :: cint) = sint b \<longleftrightarrow> a = b"
  by (auto intro: signed_word_eqI)

section \<open>Addition\<close>

lemma add_int_Inr_iff:
  "add_int a b = Inr c \<longleftrightarrow> in_int_range (sint a + sint b) \<and> c = a + b"
  by (auto simp: add_int_def)

lemma add_int_Inl_iff:
  "add_int a b = Inl e \<longleftrightarrow> \<not> in_int_range (sint a + sint b) \<and> e = SignedOverflow"
  by (auto simp: add_int_def)

lemma sint_add_int:
  "add_int a b = Inr c \<Longrightarrow> sint c = sint a + sint b"
  by (auto simp: add_int_Inr_iff sint_plus_in_range)

lemma add_int_value_iff:
  "add_int a b = Inr c \<longleftrightarrow> in_int_range (sint a + sint b) \<and> sint c = sint a + sint b"
  by (auto simp: add_int_Inr_iff sint_plus_in_range simp flip: sint_inject_cint)

lemma add_int_commute: "add_int a b = add_int b a"
  by (simp add: add_int_def add.commute)

lemma add_int_zero [simp]: "add_int a 0 = Inr a" "add_int 0 a = Inr a"
  by (simp_all add: add_int_def)

lemma is_ok_add_int: "is_ok (add_int a b) \<longleftrightarrow> in_int_range (sint a + sint b)"
  by (simp add: add_int_def)

section \<open>Multiplication\<close>

lemma mul_int_Inr_iff:
  "mul_int a b = Inr c \<longleftrightarrow> in_int_range (sint a * sint b) \<and> c = a * b"
  by (auto simp: mul_int_def)

lemma mul_int_Inl_iff:
  "mul_int a b = Inl e \<longleftrightarrow> \<not> in_int_range (sint a * sint b) \<and> e = SignedOverflow"
  by (auto simp: mul_int_def)

lemma sint_mul_int:
  "mul_int a b = Inr c \<Longrightarrow> sint c = sint a * sint b"
  by (auto simp: mul_int_Inr_iff sint_times_in_range)

lemma mul_int_value_iff:
  "mul_int a b = Inr c \<longleftrightarrow> in_int_range (sint a * sint b) \<and> sint c = sint a * sint b"
  by (auto simp: mul_int_Inr_iff sint_times_in_range simp flip: sint_inject_cint)

lemma mul_int_commute: "mul_int a b = mul_int b a"
  by (simp add: mul_int_def mult.commute)

lemma mul_int_one [simp]: "mul_int a 1 = Inr a" "mul_int 1 a = Inr a"
  by (simp_all add: mul_int_def)

lemma mul_int_zero [simp]: "mul_int a 0 = Inr 0" "mul_int 0 a = Inr 0"
  by (simp_all add: mul_int_def int_range_defs)

lemma is_ok_mul_int: "is_ok (mul_int a b) \<longleftrightarrow> in_int_range (sint a * sint b)"
  by (simp add: mul_int_def)

section \<open>Where the checked operators differ from wrap-around\<close>

lemma add_int_overflow_example: "add_int 2147483647 1 = Inl SignedOverflow"
  by (simp add: add_int_def int_range_defs)

lemma mul_int_overflow_example: "mul_int 65536 32768 = Inl SignedOverflow"
  by (simp add: mul_int_def int_range_defs)

text \<open>
  Checked addition is not associative as far as the error is concerned: the grouping
  decides whether an intermediate sum leaves the range. The source writes \<open>x+y+z\<close>, which
  C++ parses as \<open>(x+y)+z\<close>, and the model keeps that grouping.
\<close>

lemma add_int_not_associative:
  "bind_res (add_int 2147483647 1) (\<lambda>s. add_int s (- 1)) = Inl SignedOverflow"
  "bind_res (add_int 1 (- 1)) (\<lambda>s. add_int 2147483647 s) = Inr 2147483647"
  by (simp_all add: add_int_def int_range_defs)

section \<open>Other widths\<close>

text \<open>
  The standard fixes the width of \<open>int\<close> only from below, at sixteen bits. \<open>in_width w\<close> is
  the range of a two's complement integer of \<open>w\<close> bits; at 32 it is the range above.
\<close>

definition in_width :: "nat \<Rightarrow> int \<Rightarrow> bool" where
  "in_width w i \<longleftrightarrow> - (2 ^ (w - 1)) \<le> i \<and> i < 2 ^ (w - 1)"

lemma in_width_32: "in_width 32 i = in_int_range i"
  by (auto simp: in_width_def int_range_defs)

lemma in_width_sint [simp]: "in_width 32 (sint (a :: cint))"
  by (simp add: in_width_32)

lemma in_width_mono:
  assumes "v \<le> w" and "in_width v i"
  shows "in_width w i"
proof -
  have "(2 :: int) ^ (v - 1) \<le> 2 ^ (w - 1)"
    using assms(1) by (intro power_increasing) simp_all
  moreover from assms(2) have "- (2 ^ (v - 1)) \<le> i" and "i < 2 ^ (v - 1)"
    by (simp_all add: in_width_def)
  ultimately show ?thesis
    unfolding in_width_def by linarith
qed

lemma in_width_16: "in_width 16 i \<longleftrightarrow> - 32768 \<le> i \<and> i \<le> 32767"
  by (auto simp: in_width_def)

lemma in_width_small: "16 \<le> w \<Longrightarrow> - 32768 \<le> i \<Longrightarrow> i \<le> 32767 \<Longrightarrow> in_width w i"
  by (rule in_width_mono [of 16]) (simp_all add: in_width_16)

lemma in_width_9: "in_width 9 i \<longleftrightarrow> - 256 \<le> i \<and> i \<le> 255"
  by (auto simp: in_width_def)

lemma in_width_from_9: "9 \<le> w \<Longrightarrow> - 256 \<le> i \<Longrightarrow> i \<le> 255 \<Longrightarrow> in_width w i"
  by (rule in_width_mono [of 9]) (simp_all add: in_width_9)

lemma in_width_8: "in_width 8 i \<longleftrightarrow> - 128 \<le> i \<and> i \<le> 127"
  by (auto simp: in_width_def)

end
