(* ===== verification/Storage.thy ===== *)
theory Storage
  imports Prelude
begin

text \<open>
  The life of one local variable of \<open>main\<close>. A name is not in scope before its
  declaration runs; \<open>int n;\<close> brings it into scope with an indeterminate value;
  a declaration with an initialiser or an assignment gives it a value; a \<open>const\<close>
  declaration gives it a value that no assignment may replace. The operations are the
  four things the program does with a variable (declare, declare \<open>const\<close>, assign, read);
  each returns the error of an ill-formed or undefined use instead of a value.
\<close>

section \<open>Slots\<close>

datatype 'a slot =
    Undeclared
  | Indeterminate
  | Holds 'a
  | Const 'a

definition declare_uninit :: "'a slot \<Rightarrow> error + 'a slot" where
  "declare_uninit s = (case s of Undeclared \<Rightarrow> Inr Indeterminate | _ \<Rightarrow> Inl Redeclared)"

definition declare_init :: "'a \<Rightarrow> 'a slot \<Rightarrow> error + 'a slot" where
  "declare_init v s = (case s of Undeclared \<Rightarrow> Inr (Holds v) | _ \<Rightarrow> Inl Redeclared)"

definition declare_const :: "'a \<Rightarrow> 'a slot \<Rightarrow> error + 'a slot" where
  "declare_const v s = (case s of Undeclared \<Rightarrow> Inr (Const v) | _ \<Rightarrow> Inl Redeclared)"

definition assign :: "'a \<Rightarrow> 'a slot \<Rightarrow> error + 'a slot" where
  "assign v s =
     (case s of
        Undeclared \<Rightarrow> Inl NotDeclared
      | Indeterminate \<Rightarrow> Inr (Holds v)
      | Holds _ \<Rightarrow> Inr (Holds v)
      | Const _ \<Rightarrow> Inl AssignToConst)"

definition rd :: "'a slot \<Rightarrow> error + 'a" where
  "rd s =
     (case s of
        Undeclared \<Rightarrow> Inl NotDeclared
      | Indeterminate \<Rightarrow> Inl IndeterminateRead
      | Holds v \<Rightarrow> Inr v
      | Const v \<Rightarrow> Inr v)"

declare declare_uninit_def [slot_defs] declare_init_def [slot_defs]
  declare_const_def [slot_defs] assign_def [slot_defs] rd_def [slot_defs]

section \<open>Predicates on slots\<close>

definition in_scope :: "'a slot \<Rightarrow> bool" where
  "in_scope s \<longleftrightarrow> s \<noteq> Undeclared"

definition readable :: "'a slot \<Rightarrow> bool" where
  "readable s = (case s of Holds _ \<Rightarrow> True | Const _ \<Rightarrow> True | _ \<Rightarrow> False)"

definition is_const :: "'a slot \<Rightarrow> bool" where
  "is_const s = (case s of Const _ \<Rightarrow> True | _ \<Rightarrow> False)"

lemma in_scope_simps [simp]:
  "\<not> in_scope Undeclared" "in_scope Indeterminate" "in_scope (Holds v)" "in_scope (Const v)"
  by (simp_all add: in_scope_def)

lemma readable_simps [simp]:
  "\<not> readable Undeclared" "\<not> readable Indeterminate" "readable (Holds v)" "readable (Const v)"
  by (simp_all add: readable_def)

lemma is_const_simps [simp]:
  "\<not> is_const Undeclared" "\<not> is_const Indeterminate" "\<not> is_const (Holds v)" "is_const (Const v)"
  by (simp_all add: is_const_def)

lemma readable_in_scope: "readable s \<Longrightarrow> in_scope s"
  by (cases s) simp_all

section \<open>Evaluation on each constructor\<close>

lemma declare_uninit_simps [simp]:
  "declare_uninit Undeclared = Inr Indeterminate"
  "declare_uninit Indeterminate = Inl Redeclared"
  "declare_uninit (Holds v) = Inl Redeclared"
  "declare_uninit (Const v) = Inl Redeclared"
  by (simp_all add: declare_uninit_def)

lemma declare_init_simps [simp]:
  "declare_init v Undeclared = Inr (Holds v)"
  "declare_init v Indeterminate = Inl Redeclared"
  "declare_init v (Holds u) = Inl Redeclared"
  "declare_init v (Const u) = Inl Redeclared"
  by (simp_all add: declare_init_def)

lemma declare_const_simps [simp]:
  "declare_const v Undeclared = Inr (Const v)"
  "declare_const v Indeterminate = Inl Redeclared"
  "declare_const v (Holds u) = Inl Redeclared"
  "declare_const v (Const u) = Inl Redeclared"
  by (simp_all add: declare_const_def)

lemma assign_simps [simp]:
  "assign v Undeclared = Inl NotDeclared"
  "assign v Indeterminate = Inr (Holds v)"
  "assign v (Holds u) = Inr (Holds v)"
  "assign v (Const u) = Inl AssignToConst"
  by (simp_all add: assign_def)

lemma rd_simps [simp]:
  "rd Undeclared = Inl NotDeclared"
  "rd Indeterminate = Inl IndeterminateRead"
  "rd (Holds v) = Inr v"
  "rd (Const v) = Inr v"
  by (simp_all add: rd_def)

section \<open>Characterisation of success\<close>

lemma rd_Inr_iff: "rd s = Inr v \<longleftrightarrow> s = Holds v \<or> s = Const v"
  by (cases s) auto

lemma is_ok_rd: "is_ok (rd s) \<longleftrightarrow> readable s"
  by (cases s) simp_all

lemma assign_Inr_iff:
  "assign v s = Inr t \<longleftrightarrow> in_scope s \<and> \<not> is_const s \<and> t = Holds v"
  by (cases s) auto

lemma declare_init_Inr_iff: "declare_init v s = Inr t \<longleftrightarrow> s = Undeclared \<and> t = Holds v"
  by (cases s) auto

lemma declare_const_Inr_iff: "declare_const v s = Inr t \<longleftrightarrow> s = Undeclared \<and> t = Const v"
  by (cases s) auto

lemma declare_uninit_Inr_iff: "declare_uninit s = Inr t \<longleftrightarrow> s = Undeclared \<and> t = Indeterminate"
  by (cases s) auto

section \<open>Write, then read\<close>

lemma rd_after_assign: "assign v s = Inr t \<Longrightarrow> rd t = Inr v"
  by (auto simp: assign_Inr_iff)

lemma rd_after_declare_init: "declare_init v s = Inr t \<Longrightarrow> rd t = Inr v"
  by (auto simp: declare_init_Inr_iff)

lemma rd_after_declare_const: "declare_const v s = Inr t \<Longrightarrow> rd t = Inr v"
  by (auto simp: declare_const_Inr_iff)

lemma rd_after_declare_uninit:
  "declare_uninit s = Inr t \<Longrightarrow> rd t = Inl IndeterminateRead"
  by (auto simp: declare_uninit_Inr_iff)

lemma assign_after_declare_const:
  "declare_const v s = Inr t \<Longrightarrow> assign u t = Inl AssignToConst"
  by (auto simp: declare_const_Inr_iff)

lemma assign_twice: "assign v s = Inr t \<Longrightarrow> assign u t = Inr (Holds u)"
  by (auto simp: assign_Inr_iff)

lemma assign_keeps_scope: "assign v s = Inr t \<Longrightarrow> in_scope t \<and> in_scope s"
  by (auto simp: assign_Inr_iff)

section \<open>The life cycle as a preorder\<close>

text \<open>
  \<open>s \<le> t\<close>: within one scope, a variable in state \<open>s\<close> can later be in state \<open>t\<close>. A name
  comes into scope once and stays; a value, once given, may be replaced but not taken
  away; a \<open>const\<close> keeps its value.
\<close>

instantiation slot :: (type) preorder
begin

definition less_eq_slot :: "'a slot \<Rightarrow> 'a slot \<Rightarrow> bool" where
  "less_eq_slot s t =
     (case s of
        Undeclared \<Rightarrow> True
      | Indeterminate \<Rightarrow> (case t of Indeterminate \<Rightarrow> True | Holds _ \<Rightarrow> True | _ \<Rightarrow> False)
      | Holds _ \<Rightarrow> (case t of Holds _ \<Rightarrow> True | _ \<Rightarrow> False)
      | Const v \<Rightarrow> t = Const v)"

definition less_slot :: "'a slot \<Rightarrow> 'a slot \<Rightarrow> bool" where
  "less_slot s t \<longleftrightarrow> s \<le> t \<and> \<not> t \<le> s"

instance
  by standard (auto simp: less_eq_slot_def less_slot_def split: slot.splits)

end

lemma slot_le_simps [simp]:
  "Undeclared \<le> t"
  "Indeterminate \<le> t \<longleftrightarrow> t = Indeterminate \<or> (\<exists>v. t = Holds v)"
  "Holds u \<le> t \<longleftrightarrow> (\<exists>v. t = Holds v)"
  "Const u \<le> t \<longleftrightarrow> t = Const u"
  by (auto simp: less_eq_slot_def split: slot.splits)

lemma slot_le_in_scope: "s \<le> t \<Longrightarrow> in_scope s \<Longrightarrow> in_scope t"
  by (cases s) auto

lemma slot_le_readable: "s \<le> t \<Longrightarrow> readable s \<Longrightarrow> readable t"
  by (cases s) auto

lemma slot_le_const: "s \<le> t \<Longrightarrow> s = Const v \<Longrightarrow> t = Const v"
  by simp

lemma declare_uninit_le: "declare_uninit s = Inr t \<Longrightarrow> s \<le> t"
  by (simp add: declare_uninit_Inr_iff)

lemma declare_init_le: "declare_init v s = Inr t \<Longrightarrow> s \<le> t"
  by (simp add: declare_init_Inr_iff)

lemma declare_const_le: "declare_const v s = Inr t \<Longrightarrow> s \<le> t"
  by (simp add: declare_const_Inr_iff)

lemma assign_le: "assign v s = Inr t \<Longrightarrow> s \<le> t"
  by (cases s) (auto simp: assign_Inr_iff)

section \<open>Slots under a change of the type of values\<close>

text \<open>
  The operations do not look at the value: on a slot whose value is wrapped by a function
  they do what they do on the slot itself, wrapped.
\<close>

lemma rd_map_slot: "rd (map_slot g s) = bind_res (rd s) (\<lambda>v. Inr (g v))"
  by (cases s) simp_all

lemma assign_map_slot:
  "assign (g v) (map_slot g s) = bind_res (assign v s) (\<lambda>t. Inr (map_slot g t))"
  by (cases s) simp_all

lemma declare_init_map_slot:
  "declare_init (g v) (map_slot g s) = bind_res (declare_init v s) (\<lambda>t. Inr (map_slot g t))"
  by (cases s) simp_all

lemma declare_const_map_slot:
  "declare_const (g v) (map_slot g s) =
     bind_res (declare_const v s) (\<lambda>t. Inr (map_slot g t))"
  by (cases s) simp_all

lemma declare_uninit_map_slot:
  "declare_uninit (map_slot g s) = bind_res (declare_uninit s) (\<lambda>t. Inr (map_slot g t))"
  by (cases s) simp_all

lemma map_slot_eq_Undeclared [simp]: "map_slot g s = Undeclared \<longleftrightarrow> s = Undeclared"
  by (cases s) simp_all

end
