(* ===== verification/Strings.thy ===== *)
theory Strings
  imports Prelude
begin

text \<open>
  Characters and strings as the program has them. A \<open>char\<close> is one byte, HOL's \<open>char\<close>. A
  string literal such as \<open>"Hello"\<close> is an array of \<open>char\<close> that ends with the null character
  (\<open>literal\<close>). The constructor of \<open>std::string\<close> and the inserter for \<open>const char*\<close> both
  find the end of the array by walking to the first null character (\<open>strlen\<close>); an array
  without one is read past its end, which is undefined. A \<open>std::string\<close> is the list of
  its characters, of any length and with any content, and its size is the length of the
  list. The theory shows that for a literal the walk always ends, that it ends at the end of
  the text exactly when the text has no null character in it, and what is lost otherwise.
\<close>

section \<open>Character arrays\<close>

abbreviation NUL :: char where
  "NUL \<equiv> CHR 0x00"

type_synonym char_array = "char list"

definition literal :: "string \<Rightarrow> char_array" where
  "literal s = s @ [NUL]"

fun strlen :: "char_array \<Rightarrow> error + nat" where
  "strlen [] = Inl Unterminated"
| "strlen (c # cs) = (if c = NUL then Inr 0 else bind_res (strlen cs) (\<lambda>n. Inr (Suc n)))"

definition string_of_cstr :: "char_array \<Rightarrow> error + string" where
  "string_of_cstr a = bind_res (strlen a) (\<lambda>n. Inr (take n a))"

definition terminated :: "char_array \<Rightarrow> bool" where
  "terminated a \<longleftrightarrow> NUL \<in> set a"

definition text_of :: "char_array \<Rightarrow> string" where
  "text_of a = takeWhile (\<lambda>c. c \<noteq> NUL) a"

section \<open>Length of a character array\<close>

lemma strlen_terminated: "terminated a \<Longrightarrow> strlen a = Inr (length (text_of a))"
  by (induction a) (auto simp: terminated_def text_of_def)

lemma strlen_unterminated: "\<not> terminated a \<Longrightarrow> strlen a = Inl Unterminated"
  by (induction a) (auto simp: terminated_def)

lemma strlen_eq:
  "strlen a = (if terminated a then Inr (length (text_of a)) else Inl Unterminated)"
  by (simp add: strlen_terminated strlen_unterminated)

lemma strlen_Inl_iff: "strlen a = Inl e \<longleftrightarrow> e = Unterminated \<and> \<not> terminated a"
  by (auto simp: strlen_eq)

lemma length_text_of_less: "terminated a \<Longrightarrow> length (text_of a) < length a"
  unfolding terminated_def text_of_def
  by (induction a) auto

lemma nth_text_of_end: "terminated a \<Longrightarrow> a ! length (text_of a) = NUL"
  unfolding terminated_def text_of_def
  by (induction a) auto

lemma NUL_notin_text_of [simp]: "NUL \<notin> set (text_of a)"
  unfolding text_of_def by (auto dest: set_takeWhileD)

lemma text_of_eq_take: "text_of a = take (length (text_of a)) a"
  unfolding text_of_def by (induction a) auto

lemma first_NUL_unique:
  assumes "n < length a" and "a ! n = NUL" and "\<forall>i<n. a ! i \<noteq> NUL"
  shows "length (text_of a) = n"
  using assms unfolding text_of_def
proof (induction a arbitrary: n)
  case Nil
  then show ?case by simp
next
  case (Cons c cs)
  show ?case
  proof (cases n)
    case 0
    with Cons.prems show ?thesis by simp
  next
    case (Suc m)
    with Cons.prems have "c \<noteq> NUL" by auto
    moreover from Suc Cons.prems have "length (takeWhile (\<lambda>c. c \<noteq> NUL) cs) = m"
      by (intro Cons.IH) auto
    ultimately show ?thesis using Suc by simp
  qed
qed

lemma strlen_Inr_iff:
  "strlen a = Inr n \<longleftrightarrow> n < length a \<and> a ! n = NUL \<and> (\<forall>i<n. a ! i \<noteq> NUL)"
proof
  assume "strlen a = Inr n"
  then have t: "terminated a" and n: "n = length (text_of a)"
    by (auto simp: strlen_eq split: if_splits)
  have "\<forall>i<n. a ! i \<noteq> NUL"
  proof (intro allI impI)
    fix i assume "i < n"
    then have "a ! i = text_of a ! i"
      using text_of_eq_take [of a] n by (metis nth_take)
    moreover have "text_of a ! i \<in> set (text_of a)"
      using \<open>i < n\<close> n by simp
    ultimately show "a ! i \<noteq> NUL"
      using NUL_notin_text_of [of a] by metis
  qed
  with t n show "n < length a \<and> a ! n = NUL \<and> (\<forall>i<n. a ! i \<noteq> NUL)"
    by (simp add: length_text_of_less nth_text_of_end)
next
  assume r: "n < length a \<and> a ! n = NUL \<and> (\<forall>i<n. a ! i \<noteq> NUL)"
  then have "terminated a"
    unfolding terminated_def by (metis nth_mem)
  with r show "strlen a = Inr n"
    by (simp add: strlen_eq first_NUL_unique)
qed

section \<open>String literals\<close>

lemma terminated_literal [simp]: "terminated (literal s)"
  by (simp add: terminated_def literal_def)

lemma length_literal [simp]: "length (literal s) = Suc (length s)"
  by (simp add: literal_def)

lemma text_of_literal: "text_of (literal s) = text_of s"
  unfolding text_of_def literal_def by (induction s) auto

lemma text_of_id [simp]: "NUL \<notin> set s \<Longrightarrow> text_of s = s"
  unfolding text_of_def by (induction s) auto

lemma text_of_eq_self_iff: "text_of s = s \<longleftrightarrow> NUL \<notin> set s"
  using NUL_notin_text_of [of s] by (auto simp del: NUL_notin_text_of)

lemma text_of_prefix: "prefix (text_of s) s"
  unfolding text_of_def by (metis prefixI takeWhile_dropWhile_id)

lemma strlen_literal: "strlen (literal s) = Inr (length (text_of s))"
  by (simp add: strlen_terminated text_of_literal)

lemma strlen_literal_plain [simp]: "NUL \<notin> set s \<Longrightarrow> strlen (literal s) = Inr (length s)"
  by (simp add: strlen_literal)

section \<open>Construction of a string from a character array\<close>

lemma string_of_cstr_eq:
  "string_of_cstr a = (if terminated a then Inr (text_of a) else Inl Unterminated)"
  using text_of_eq_take [of a] by (simp add: string_of_cstr_def strlen_eq)

lemma string_of_cstr_literal: "string_of_cstr (literal s) = Inr (text_of s)"
  by (simp add: string_of_cstr_eq text_of_literal)

lemma string_of_cstr_literal_plain [simp]:
  "NUL \<notin> set s \<Longrightarrow> string_of_cstr (literal s) = Inr s"
  by (simp add: string_of_cstr_literal)

lemma string_of_cstr_literal_iff: "string_of_cstr (literal s) = Inr s \<longleftrightarrow> NUL \<notin> set s"
  by (simp add: string_of_cstr_literal text_of_eq_self_iff)

lemma string_of_cstr_Inr_iff:
  "string_of_cstr a = Inr s \<longleftrightarrow> terminated a \<and> s = text_of a"
  by (auto simp: string_of_cstr_eq)

lemma string_of_cstr_idem:
  "string_of_cstr a = Inr s \<Longrightarrow> string_of_cstr (literal s) = Inr s"
  by (simp add: string_of_cstr_Inr_iff)

lemma NUL_notin_newline [simp]: "NUL \<notin> set newline"
  by (simp add: newline_def)

text \<open>
  C39. The string constructed from a literal, as on line 12: the construction always succeeds,
  the string is the part of the literal's text before its first null character, and it is
  the whole text exactly when the text has no null character in it.
\<close>

theorem string_from_literal:
  "string_of_cstr (literal s) = Inr (text_of s) \<and> prefix (text_of s) s \<and>
   NUL \<notin> set (text_of s) \<and> (text_of s = s \<longleftrightarrow> NUL \<notin> set s)"
  by (simp add: string_of_cstr_literal text_of_prefix text_of_eq_self_iff)

end
