(* ===== verification/Decimal.thy ===== *)
theory Decimal
  imports Prelude "HOL-Library.Log_Nat"
begin

text \<open>
  Decimal rendering of integers, as the stream inserter for \<open>int\<close> produces it with the
  default flags (base ten, no forced sign, no padding): the digits of the magnitude, most
  significant first, after a minus sign for a negative number. \<open>nat_of_dec\<close> and
  \<open>read_int\<close> read such a text back; they are the specification against which the
  rendering is judged (round trip, injectivity), not part of the program.
\<close>

section \<open>Digits\<close>

definition digit_char :: "nat \<Rightarrow> char" where
  "digit_char d = ''0123456789'' ! d"

definition digit_val :: "char \<Rightarrow> nat" where
  "digit_val c = of_char c - 48"

definition is_digit :: "char \<Rightarrow> bool" where
  "is_digit c \<longleftrightarrow> (48 :: nat) \<le> of_char c \<and> of_char c \<le> (57 :: nat)"

lemma lt10_cases: "d < 10 \<Longrightarrow> d \<in> {0, 1, 2, 3, 4, 5, 6, 7, 8, 9 :: nat}"
  by auto

lemma digit_char_simps [simp]:
  "digit_char 0 = CHR ''0''" "digit_char (Suc 0) = CHR ''1''" "digit_char 2 = CHR ''2''"
  "digit_char 3 = CHR ''3''" "digit_char 4 = CHR ''4''" "digit_char 5 = CHR ''5''"
  "digit_char 6 = CHR ''6''" "digit_char 7 = CHR ''7''" "digit_char 8 = CHR ''8''"
  "digit_char 9 = CHR ''9''"
  by (simp_all add: digit_char_def)

lemma of_char_digit_char: "d < 10 \<Longrightarrow> of_char (digit_char d) = 48 + d"
  by (drule lt10_cases) auto

lemma digit_val_digit_char [simp]: "d < 10 \<Longrightarrow> digit_val (digit_char d) = d"
  by (simp add: digit_val_def of_char_digit_char)

lemma is_digit_digit_char [simp]: "d < 10 \<Longrightarrow> is_digit (digit_char d)"
  by (simp add: is_digit_def of_char_digit_char)

lemma digit_char_inj: "d < 10 \<Longrightarrow> e < 10 \<Longrightarrow> digit_char d = digit_char e \<Longrightarrow> d = e"
  by (metis digit_val_digit_char)

lemma digit_char_eq_zero_iff: "d < 10 \<Longrightarrow> digit_char d = CHR ''0'' \<longleftrightarrow> d = 0"
  using digit_char_inj [of d 0] by auto

lemma not_is_digit_minus [simp]: "\<not> is_digit CHR ''-''"
  by (simp add: is_digit_def)

lemma not_is_digit_point [simp]: "\<not> is_digit CHR ''.''"
  by (simp add: is_digit_def)

section \<open>Natural numbers\<close>

fun dec_nat :: "nat \<Rightarrow> string" where
  "dec_nat n =
     (if n < 10 then [digit_char n] else dec_nat (n div 10) @ [digit_char (n mod 10)])"

declare dec_nat.simps [simp del]

definition nat_of_dec :: "string \<Rightarrow> nat" where
  "nat_of_dec s = foldl (\<lambda>a c. 10 * a + digit_val c) 0 s"

lemma dec_nat_small: "n < 10 \<Longrightarrow> dec_nat n = [digit_char n]"
  by (subst dec_nat.simps) simp

lemma dec_nat_large:
  "\<not> n < 10 \<Longrightarrow> dec_nat n = dec_nat (n div 10) @ [digit_char (n mod 10)]"
  by (subst dec_nat.simps) simp

lemma dec_nat_0 [simp]: "dec_nat 0 = ''0''"
  by (simp add: dec_nat_small)

lemma dec_nat_Suc_0 [simp]: "dec_nat (Suc 0) = ''1''"
  by (simp add: dec_nat_small)

lemma dec_nat_numeral [simp]:
  "dec_nat (numeral k) =
     (if numeral k < (10 :: nat) then [digit_char (numeral k)]
      else dec_nat (numeral k div 10) @ [digit_char (numeral k mod 10)])"
  by (rule dec_nat.simps)

lemma dec_nat_neq_Nil [simp]: "dec_nat n \<noteq> []"
  by (subst dec_nat.simps) simp

lemma length_dec_nat_pos [simp]: "0 < length (dec_nat n)"
  by simp

lemma dec_nat_digits: "c \<in> set (dec_nat n) \<Longrightarrow> is_digit c"
proof (induction n rule: dec_nat.induct)
  case (1 n)
  show ?case
  proof (cases "n < 10")
    case True
    with "1.prems" show ?thesis by (simp add: dec_nat_small)
  next
    case False
    with "1.prems" "1.IH" show ?thesis by (auto simp: dec_nat_large)
  qed
qed

lemma list_all_is_digit_dec_nat: "list_all is_digit (dec_nat n)"
  by (simp add: list_all_iff dec_nat_digits)

lemma nat_of_dec_Nil [simp]: "nat_of_dec [] = 0"
  by (simp add: nat_of_dec_def)

lemma nat_of_dec_snoc [simp]: "nat_of_dec (s @ [c]) = 10 * nat_of_dec s + digit_val c"
  by (simp add: nat_of_dec_def)

lemma nat_of_dec_single [simp]: "nat_of_dec [c] = digit_val c"
  by (simp add: nat_of_dec_def)

lemma nat_of_dec_dec_nat [simp]: "nat_of_dec (dec_nat n) = n"
proof (induction n rule: dec_nat.induct)
  case (1 n)
  show ?case
  proof (cases "n < 10")
    case True
    then show ?thesis by (simp add: dec_nat_small)
  next
    case False
    with "1.IH" show ?thesis by (simp add: dec_nat_large)
  qed
qed

lemma dec_nat_inj: "dec_nat m = dec_nat n \<longleftrightarrow> m = n"
  by (metis nat_of_dec_dec_nat)

lemma hd_dec_nat_is_digit: "is_digit (hd (dec_nat n))"
  by (rule dec_nat_digits [of _ n]) simp

lemma hd_dec_nat_nonzero: "0 < n \<Longrightarrow> hd (dec_nat n) \<noteq> CHR ''0''"
proof (induction n rule: dec_nat.induct)
  case (1 n)
  show ?case
  proof (cases "n < 10")
    case True
    with "1.prems" show ?thesis by (simp add: dec_nat_small digit_char_eq_zero_iff)
  next
    case False
    then have "0 < n div 10" by simp
    with False "1.IH" show ?thesis by (simp add: dec_nat_large)
  qed
qed

section \<open>Length of the rendering\<close>

lemma length_dec_nat_floorlog: "0 < n \<Longrightarrow> length (dec_nat n) = floorlog 10 n"
proof (induction n rule: dec_nat.induct)
  case (1 n)
  show ?case
  proof (cases "n < 10")
    case True
    with "1.prems" show ?thesis
      by (simp add: dec_nat_small compute_floorlog [of 10 n] compute_floorlog [of 10 0])
  next
    case False
    then have "0 < n div 10" by simp
    with False "1.IH" show ?thesis
      by (simp add: dec_nat_large compute_floorlog [of 10 n])
  qed
qed

lemma dec_nat_upper: "n < 10 ^ length (dec_nat n)"
proof (induction n rule: dec_nat.induct)
  case (1 n)
  show ?case
  proof (cases "n < 10")
    case True
    then show ?thesis by (simp add: dec_nat_small)
  next
    case False
    with "1.IH" have "n div 10 < 10 ^ length (dec_nat (n div 10))" by simp
    then have "n < 10 * 10 ^ length (dec_nat (n div 10))" by simp
    with False show ?thesis by (simp add: dec_nat_large)
  qed
qed

lemma dec_nat_lower: "0 < n \<Longrightarrow> 10 ^ (length (dec_nat n) - 1) \<le> n"
proof (induction n rule: dec_nat.induct)
  case (1 n)
  show ?case
  proof (cases "n < 10")
    case True
    with "1.prems" show ?thesis by (simp add: dec_nat_small)
  next
    case False
    then have pos: "0 < n div 10" by simp
    with False "1.IH" have "10 ^ (length (dec_nat (n div 10)) - 1) \<le> n div 10" by simp
    then have "10 * 10 ^ (length (dec_nat (n div 10)) - 1) \<le> n" by simp
    moreover have "10 * 10 ^ (length (dec_nat (n div 10)) - 1)
        = (10 :: nat) ^ length (dec_nat (n div 10))"
      by (cases "length (dec_nat (n div 10))") simp_all
    ultimately show ?thesis using False by (simp add: dec_nat_large)
  qed
qed

lemma length_dec_nat_le: "0 < k \<Longrightarrow> n < 10 ^ k \<Longrightarrow> length (dec_nat n) \<le> k"
proof (cases "n = 0")
  case True
  assume "0 < k"
  with True show ?thesis by simp
next
  case False
  assume "n < 10 ^ k"
  moreover from False have "10 ^ (length (dec_nat n) - 1) \<le> n"
    by (intro dec_nat_lower) simp
  ultimately have "(10 :: nat) ^ (length (dec_nat n) - 1) < 10 ^ k"
    by (rule le_less_trans [rotated])
  then have "length (dec_nat n) - 1 < k"
    by (simp only: power_strict_increasing_iff one_less_numeral_iff semiring_norm)
  then show ?thesis by simp
qed

section \<open>Integers\<close>

definition show_int :: "int \<Rightarrow> string" where
  "show_int i = (if i < 0 then CHR ''-'' # dec_nat (nat (- i)) else dec_nat (nat i))"

definition read_int :: "string \<Rightarrow> int" where
  "read_int s =
     (if s \<noteq> [] \<and> hd s = CHR ''-'' then - int (nat_of_dec (tl s)) else int (nat_of_dec s))"

lemma show_int_nonneg: "0 \<le> i \<Longrightarrow> show_int i = dec_nat (nat i)"
  by (simp add: show_int_def)

lemma show_int_neg: "i < 0 \<Longrightarrow> show_int i = CHR ''-'' # dec_nat (nat (- i))"
  by (simp add: show_int_def)

lemma show_int_of_nat [simp]: "show_int (int n) = dec_nat n"
  by (simp add: show_int_def)

lemma show_int_numeral [simp]: "show_int (numeral k) = dec_nat (numeral k)"
  by (simp add: show_int_def)

lemma show_int_neg_numeral [simp]:
  "show_int (- numeral k) = CHR ''-'' # dec_nat (numeral k)"
  by (simp add: show_int_def)

lemma show_int_0 [simp]: "show_int 0 = ''0''"
  by (simp add: show_int_def)

lemma show_int_1 [simp]: "show_int 1 = ''1''"
  by (simp add: show_int_def)

lemma show_int_neq_Nil [simp]: "show_int i \<noteq> []"
  by (simp add: show_int_def)

lemma hd_dec_nat_not_minus: "hd (dec_nat n) \<noteq> CHR ''-''"
  using hd_dec_nat_is_digit [of n] by auto

lemma read_int_show_int [simp]: "read_int (show_int i) = i"
  by (simp add: show_int_def read_int_def hd_dec_nat_not_minus)

lemma show_int_inj: "show_int i = show_int j \<longleftrightarrow> i = j"
  by (metis read_int_show_int)

lemma show_int_chars: "c \<in> set (show_int i) \<Longrightarrow> is_digit c \<or> c = CHR ''-''"
  by (auto simp: show_int_def dec_nat_digits split: if_splits)

lemma length_show_int_le:
  assumes "0 < k" and "\<bar>i\<bar> < 10 ^ k"
  shows "length (show_int i) \<le> Suc k"
proof -
  from assms(2) have "nat \<bar>i\<bar> < 10 ^ k"
    by (metis nat_less_iff abs_ge_zero of_nat_numeral of_nat_power)
  with assms(1) have "length (dec_nat (nat \<bar>i\<bar>)) \<le> k" by (rule length_dec_nat_le)
  then show ?thesis by (simp add: show_int_def abs_if split: if_splits)
qed

end
