(* ===== verification/Double.thy ===== *)
theory Double
  imports Complex_Main Prelude "HOL-Library.Word"
begin

text \<open>
  The type \<open>double\<close> of the program: an IEEE 754 binary64 value, kept as its 64-bit
  pattern (1 sign bit, 11 exponent bits, 52 fraction bits). The program does two things
  with a double: it converts the decimal literal \<open>5.99\<close> to one and it prints it.
  \<open>double_of_rat\<close> is the conversion of a literal, given as the exact rational it denotes,
  by rounding to nearest with ties to even, with gradual underflow and overflow to
  infinity; \<open>dbl_mag\<close> and \<open>dbl_val\<close> read a finite pattern back as the rational it stands
  for. All arithmetic is on \<open>int\<close> and \<open>rat\<close>, so that closed instances evaluate in the
  kernel.
\<close>

section \<open>Integer logarithm and rounding\<close>

text \<open>\<open>ilen b a\<close> is the number of base-\<open>b\<close> digits of a positive integer \<open>a\<close>.\<close>

function ilen :: "int \<Rightarrow> int \<Rightarrow> int" where
  "ilen b a = (if 1 < b \<and> 0 < a then 1 + ilen b (a div b) else 0)"
  by pat_completeness auto
termination
  by (relation "measure (\<lambda>(b, a). nat a)") (auto intro: int_div_less_self)

declare ilen.simps [simp del]

text \<open>
  \<open>ilog b q\<close> is the floor of the base-\<open>b\<close> logarithm of a positive rational: the digit
  counts of numerator and denominator fix it up to one, and one comparison decides.
\<close>

definition ilog :: "int \<Rightarrow> rat \<Rightarrow> int" where
  "ilog b q =
     (let (p, d) = quotient_of q; k = ilen b p - ilen b d
      in if power_int (of_int b) k \<le> q then k else k - 1)"

definition round_half_even :: "rat \<Rightarrow> int" where
  "round_half_even q =
     (let f = \<lfloor>q\<rfloor>; r = q - of_int f
      in if r < 1 / 2 then f else if 1 / 2 < r then f + 1 else if even f then f else f + 1)"

section \<open>Fields of a double\<close>

type_synonym double = "64 word"

definition dbl_sign :: "double \<Rightarrow> bool" where
  "dbl_sign d = bit d 63"

definition dbl_exp :: "double \<Rightarrow> int" where
  "dbl_exp d = uint (take_bit 11 (drop_bit 52 d))"

definition dbl_frac :: "double \<Rightarrow> int" where
  "dbl_frac d = uint (take_bit 52 d)"

datatype fp_class = FP_Zero | FP_Subnormal | FP_Normal | FP_Infinite | FP_NaN

definition fpclassify :: "double \<Rightarrow> fp_class" where
  "fpclassify d =
     (if dbl_exp d = 2047 then (if dbl_frac d = 0 then FP_Infinite else FP_NaN)
      else if dbl_exp d = 0 then (if dbl_frac d = 0 then FP_Zero else FP_Subnormal)
      else FP_Normal)"

definition dbl_mag :: "double \<Rightarrow> rat" where
  "dbl_mag d =
     (if dbl_exp d = 0 then of_int (dbl_frac d) * power_int 2 (- 1074)
      else of_int (2 ^ 52 + dbl_frac d) * power_int 2 (dbl_exp d - 1075))"

definition dbl_val :: "double \<Rightarrow> rat" where
  "dbl_val d = (if dbl_sign d then - dbl_mag d else dbl_mag d)"

section \<open>Conversion of a literal\<close>

definition double_of_rat :: "rat \<Rightarrow> double" where
  "double_of_rat q =
     (if q = 0 then 0
      else let a = \<bar>q\<bar>;
               e = max (ilog 2 a) (- 1022);
               m = round_half_even (a * power_int 2 (52 - e));
               bits = min ((e + 1022) * 2 ^ 52 + m) 0x7FF0000000000000
           in word_of_int bits + (if q < 0 then 2 ^ 63 else 0))"

section \<open>Digit counts\<close>

lemma ilen_nonpos [simp]: "a \<le> 0 \<Longrightarrow> ilen b a = 0"
  by (subst ilen.simps) simp

lemma ilen_small_base [simp]: "b \<le> 1 \<Longrightarrow> ilen b a = 0"
  by (subst ilen.simps) simp

lemma ilen_pos: "1 < b \<Longrightarrow> 0 < a \<Longrightarrow> ilen b a = 1 + ilen b (a div b)"
  by (subst ilen.simps) simp

lemma ilen_numeral [simp]:
  "ilen (numeral b) (numeral a) =
     (if 1 < (numeral b :: int) then 1 + ilen (numeral b) (numeral a div numeral b) else 0)"
  by (subst ilen.simps) simp

lemma ilen_one [simp]: "1 < b \<Longrightarrow> ilen b 1 = 1"
  using ilen_pos [of b 1] by (simp add: div_pos_pos_trivial)

lemma div_mult_bounds:
  fixes a b :: int
  assumes "0 < b"
  shows "b * (a div b) \<le> a" and "a < b * (a div b) + b"
proof -
  have "b * (a div b) + a mod b = a" by simp
  moreover from assms have "0 \<le> a mod b" and "a mod b < b" by simp_all
  ultimately show "b * (a div b) \<le> a" and "a < b * (a div b) + b" by linarith+
qed

lemma ilen_nonneg: "0 \<le> ilen b a"
  by (induction b a rule: ilen.induct) (subst ilen.simps, simp)

lemma ilen_upper: "1 < b \<Longrightarrow> 0 \<le> a \<Longrightarrow> a < b ^ nat (ilen b a)"
proof (induction b a rule: ilen.induct)
  case (1 b a)
  show ?case
  proof (cases "0 < a")
    case False
    with "1.prems" show ?thesis by simp
  next
    case True
    with "1.prems" "1.IH" have IH: "a div b < b ^ nat (ilen b (a div b))"
      by (simp add: pos_imp_zdiv_nonneg_iff)
    have "a < b * (a div b + 1)"
      using "1.prems"(1) div_mult_bounds(2) [of b a] by (simp add: distrib_left)
    also from IH "1.prems"(1) have "\<dots> \<le> b * b ^ nat (ilen b (a div b))"
      by simp
    finally show ?thesis
      using True "1.prems"(1) by (simp add: ilen_pos nat_add_distrib ilen_nonneg)
  qed
qed

lemma ilen_lower: "1 < b \<Longrightarrow> 0 < a \<Longrightarrow> b ^ nat (ilen b a - 1) \<le> a"
proof (induction b a rule: ilen.induct)
  case (1 b a)
  show ?case
  proof (cases "a < b")
    case True
    with "1.prems" show ?thesis by (simp add: ilen_pos div_pos_pos_trivial)
  next
    case False
    with "1.prems" have pos: "0 < a div b"
      by (simp add: pos_imp_zdiv_pos_iff)
    with "1.prems" "1.IH" have "b ^ nat (ilen b (a div b) - 1) \<le> a div b" by simp
    with "1.prems"(1) have "b * b ^ nat (ilen b (a div b) - 1) \<le> b * (a div b)"
      by simp
    also have "\<dots> \<le> a"
      using "1.prems"(1) by (intro div_mult_bounds(1)) simp
    finally have "b ^ Suc (nat (ilen b (a div b) - 1)) \<le> a" by simp
    moreover from pos "1.prems"(1) have "0 < ilen b (a div b)"
      using ilen_nonneg [of b "a div b div b"] by (simp add: ilen_pos)
    then have "Suc (nat (ilen b (a div b) - 1)) = nat (ilen b (a div b))" by simp
    ultimately show ?thesis using "1.prems" by (simp add: ilen_pos)
  qed
qed

section \<open>Rounding\<close>

lemma round_half_even_of_int [simp]: "round_half_even (of_int k) = k"
  by (simp add: round_half_even_def)

lemma round_half_even_numeral [simp]: "round_half_even (numeral k) = numeral k"
  using round_half_even_of_int [of "numeral k"] by simp

lemma round_half_even_zero [simp]: "round_half_even 0 = 0"
  using round_half_even_of_int [of 0] by simp

lemma round_half_even_error: "\<bar>of_int (round_half_even q) - q\<bar> \<le> 1 / 2"
proof -
  define f where "f = \<lfloor>q\<rfloor>"
  have "of_int f \<le> q" and "q < of_int f + 1"
    unfolding f_def by linarith+
  then show ?thesis
    by (auto simp: round_half_even_def Let_def abs_if simp flip: f_def)
qed

lemma round_half_even_floor_or_ceiling:
  "round_half_even q = \<lfloor>q\<rfloor> \<or> round_half_even q = \<lfloor>q\<rfloor> + 1"
  by (simp add: round_half_even_def Let_def)

lemma round_half_even_nonneg: "0 \<le> q \<Longrightarrow> 0 \<le> round_half_even q"
  using round_half_even_floor_or_ceiling [of q] by (auto simp: zero_le_floor)

lemma round_half_even_mono: "p \<le> q \<Longrightarrow> round_half_even p \<le> round_half_even q"
proof -
  assume le: "p \<le> q"
  then have fl: "\<lfloor>p\<rfloor> \<le> \<lfloor>q\<rfloor>" by (rule floor_mono)
  show ?thesis
  proof (cases "\<lfloor>p\<rfloor> = \<lfloor>q\<rfloor>")
    case True
    with le show ?thesis by (auto simp: round_half_even_def Let_def)
  next
    case False
    with fl have "\<lfloor>p\<rfloor> + 1 \<le> \<lfloor>q\<rfloor>" by simp
    then show ?thesis
      using round_half_even_floor_or_ceiling [of p] round_half_even_floor_or_ceiling [of q]
      by auto
  qed
qed

section \<open>Ranges of the fields\<close>

lemma dbl_exp_range: "0 \<le> dbl_exp d \<and> dbl_exp d < 2048"
  using take_bit_int_less_exp [of 11 "uint (drop_bit 52 d)"]
  by (simp add: dbl_exp_def unsigned_take_bit_eq)

lemma dbl_frac_range: "0 \<le> dbl_frac d \<and> dbl_frac d < 2 ^ 52"
  using take_bit_int_less_exp [of 52 "uint d"]
  by (simp add: dbl_frac_def unsigned_take_bit_eq)

lemma dbl_mag_nonneg: "0 \<le> dbl_mag d"
  using dbl_frac_range [of d] by (simp add: dbl_mag_def)

lemma dbl_val_abs: "\<bar>dbl_val d\<bar> = dbl_mag d"
  using dbl_mag_nonneg [of d] by (simp add: dbl_val_def)

lemma fpclassify_cases:
  "fpclassify d = FP_NaN \<longleftrightarrow> dbl_exp d = 2047 \<and> dbl_frac d \<noteq> 0"
  "fpclassify d = FP_Infinite \<longleftrightarrow> dbl_exp d = 2047 \<and> dbl_frac d = 0"
  "fpclassify d = FP_Zero \<longleftrightarrow> dbl_exp d = 0 \<and> dbl_frac d = 0"
  by (auto simp: fpclassify_def)

section \<open>Zero and sign\<close>

lemma double_of_rat_zero [simp]: "double_of_rat 0 = 0"
  by (simp add: double_of_rat_def)

lemma dbl_fields_zero [simp]: "dbl_exp 0 = 0" "dbl_frac 0 = 0" "\<not> dbl_sign 0"
  by (simp_all add: dbl_exp_def dbl_frac_def dbl_sign_def)

lemma dbl_val_zero [simp]: "dbl_val 0 = 0"
  by (simp add: dbl_val_def dbl_mag_def)

lemma fpclassify_zero [simp]: "fpclassify 0 = FP_Zero"
  by (simp add: fpclassify_def)

section \<open>The literal of the program\<close>

text \<open>
  \<open>5.99\<close> has no finite binary expansion. The nearest double is
  \<open>0x4017F5C28F5C28F6\<close>, slightly above \<open>5.99\<close>.
\<close>

lemma double_of_rat_5_99: "double_of_rat (599 / 100) = 0x4017F5C28F5C28F6"
  by code_simp

lemma fields_5_99:
  "dbl_exp 0x4017F5C28F5C28F6 = 1025"
  "dbl_frac 0x4017F5C28F5C28F6 = 2240540814616822"
  "\<not> dbl_sign 0x4017F5C28F5C28F6"
  by (simp_all add: dbl_exp_def dbl_frac_def dbl_sign_def)

lemma fpclassify_5_99: "fpclassify 0x4017F5C28F5C28F6 = FP_Normal"
  by (simp add: fpclassify_def fields_5_99)

lemma dbl_mag_5_99:
  "dbl_mag 0x4017F5C28F5C28F6 = 3372070220993659 / 562949953421312"
  by (simp add: dbl_mag_def fields_5_99)

lemma dbl_val_5_99_inexact:
  "dbl_val (double_of_rat (599 / 100)) \<noteq> 599 / 100"
  "\<bar>dbl_val (double_of_rat (599 / 100)) - 599 / 100\<bar> < 1 / 10 ^ 15"
  by (simp_all add: double_of_rat_5_99 dbl_val_def fields_5_99 dbl_mag_5_99)

end
