(* ===== verification/Double_Rounding.thy ===== *)
theory Double_Rounding
  imports Double
begin

text \<open>
  What the conversion of a literal to a double guarantees. The definitions of theory
  \<open>Double\<close> compute; here they are shown to compute the right thing for every positive or
  negative rational within the normal range of binary64: the integer logarithm is the
  binary exponent, the assembled pattern has the intended fields, the result is within
  half a unit in the last place of the literal, the conversion is monotone and symmetric
  in the sign, and converting the value of a double gives that double back.
\<close>

section \<open>The integer logarithm\<close>

lemma ilen_ge_1: "1 < b \<Longrightarrow> 0 < a \<Longrightarrow> 1 \<le> ilen b a"
  using ilen_nonneg [of b "a div b"] by (simp add: ilen_pos)

lemma ilen_powi_bounds:
  assumes "1 < b" and "0 < a"
  shows "power_int (of_int b :: rat) (ilen b a - 1) \<le> of_int a"
    and "of_int a < power_int (of_int b :: rat) (ilen b a)"
proof -
  from assms have l: "1 \<le> ilen b a" by (rule ilen_ge_1)
  have "(of_int (b ^ nat (ilen b a - 1)) :: rat) \<le> of_int a"
    using ilen_lower [OF assms] by (simp only: of_int_le_iff)
  with l show "power_int (of_int b :: rat) (ilen b a - 1) \<le> of_int a"
    by (simp add: power_int_def)
  have "(of_int a :: rat) < of_int (b ^ nat (ilen b a))"
    using ilen_upper [of b a] assms by (simp only: of_int_less_iff)
  with l show "of_int a < power_int (of_int b :: rat) (ilen b a)"
    by (simp add: power_int_def)
qed

lemma ratio_bounds:
  fixes p d :: int
  assumes b: "1 < b" and p: "0 < p" and d: "0 < d"
  shows "power_int (of_int b) (ilen b p - ilen b d - 1) < (of_int p / of_int d :: rat)"
    and "(of_int p / of_int d :: rat) < power_int (of_int b) (ilen b p - ilen b d + 1)"
proof -
  define B :: rat where "B = of_int b"
  define q :: rat where "q = of_int p / of_int d"
  define k where "k = ilen b p - ilen b d"
  from b have B: "0 < B" "B \<noteq> 0" by (simp_all add: B_def)
  note bp = ilen_powi_bounds [OF b p, folded B_def]
  note bd = ilen_powi_bounds [OF b d, folded B_def]
  from p d have q: "0 < q" and qd: "q * of_int d = of_int p" by (simp_all add: q_def)
  have "power_int B (k - 1) * power_int B (ilen b d) = power_int B (ilen b p - 1)"
    using B(2) by (simp add: k_def flip: power_int_add)
  also have "\<dots> \<le> q * of_int d" using bp(1) by (simp only: qd)
  also have "\<dots> < q * power_int B (ilen b d)" using bd(2) q by simp
  finally show "power_int (of_int b) (ilen b p - ilen b d - 1) < (of_int p / of_int d :: rat)"
    using B(1) by (simp add: zero_less_power_int flip: B_def q_def k_def)
  have "q * power_int B (ilen b d - 1) \<le> q * of_int d" using bd(1) q by simp
  also have "\<dots> < power_int B (ilen b p)" using bp(2) by (simp only: qd)
  also have "\<dots> = power_int B (k + 1) * power_int B (ilen b d - 1)"
    using B(2) by (simp add: k_def flip: power_int_add)
  finally show "(of_int p / of_int d :: rat) < power_int (of_int b) (ilen b p - ilen b d + 1)"
    using B(1) by (simp add: zero_less_power_int flip: B_def q_def k_def)
qed

lemma ilog_bounds:
  assumes b: "1 < b" and q: "0 < q"
  shows "power_int (of_int b) (ilog b q) \<le> q" and "q < power_int (of_int b) (ilog b q + 1)"
proof -
  obtain p d where pd: "quotient_of q = (p, d)" by (cases "quotient_of q")
  then have d: "0 < d" and qpd: "q = of_int p / of_int d"
    by (simp_all add: quotient_of_denom_pos quotient_of_div)
  with q have p: "0 < p" by (simp add: zero_less_divide_iff)
  define k where "k = ilen b p - ilen b d"
  note bnd = ratio_bounds [OF b p d, folded qpd k_def]
  have eq: "ilog b q = (if power_int (of_int b) k \<le> q then k else k - 1)"
    by (simp add: ilog_def pd k_def Let_def)
  from bnd show "power_int (of_int b) (ilog b q) \<le> q"
    by (simp add: eq)
  from bnd show "q < power_int (of_int b) (ilog b q + 1)"
    by (auto simp: eq)
qed

lemma power_int_less_cancel:
  fixes x :: rat
  assumes "power_int x m < power_int x n" and "1 < x"
  shows "m < n"
proof (rule ccontr)
  assume "\<not> m < n"
  then have "power_int x n \<le> power_int x m"
    using assms(2) by (intro power_int_increasing) simp_all
  with assms(1) show False by simp
qed

lemma ilog_unique:
  assumes "1 < b" and "power_int (of_int b) k \<le> q" and "q < power_int (of_int b) (k + 1)"
  shows "ilog b q = k"
proof -
  define B :: rat where "B = of_int b"
  from assms(1) have B: "1 < B" by (simp add: B_def)
  then have pos: "0 < power_int B k" by (simp add: zero_less_power_int)
  with assms(2) have q: "0 < q" by (simp add: B_def)
  note bnd = ilog_bounds [OF assms(1) q, folded B_def]
  have "power_int B (ilog b q) < power_int B (k + 1)"
    using bnd(1) assms(3) by (simp add: B_def)
  then have "ilog b q < k + 1"
    using B by (rule power_int_less_cancel)
  moreover have "power_int B k < power_int B (ilog b q + 1)"
    using bnd(2) assms(2) by (simp add: B_def)
  then have "k < ilog b q + 1"
    using B by (rule power_int_less_cancel)
  ultimately show ?thesis by simp
qed

section \<open>Fields of an assembled pattern\<close>

lemma div_mod_digits:
  fixes a r m :: int
  assumes "0 \<le> r" and "r < m"
  shows "(a * m + r) div m = a" and "(a * m + r) mod m = r"
  using assms by (simp_all add: div_pos_pos_trivial mod_pos_pos_trivial)

lemma uint_assembled:
  fixes S E F :: int
  assumes "0 \<le> S" "S < 2" "0 \<le> E" "E < 2048" "0 \<le> F" "F < 2 ^ 52"
  shows "uint (word_of_int (S * 2 ^ 63 + E * 2 ^ 52 + F) :: double) =
    S * 2 ^ 63 + E * 2 ^ 52 + F"
proof -
  define k where "k = S * 2 ^ 63 + E * 2 ^ 52 + F"
  from assms have "0 \<le> k" by (simp add: k_def)
  moreover from assms have "S * 2 ^ 63 \<le> 2 ^ 63" "E * 2 ^ 52 \<le> 2047 * 2 ^ 52" by simp_all
  with assms have "k < 2 ^ 64" by (simp add: k_def)
  ultimately have "uint (word_of_int k :: double) = k"
    by (simp add: uint_word_of_int mod_pos_pos_trivial)
  then show ?thesis by (simp only: k_def)
qed

lemma dbl_frac_mod: "dbl_frac d = uint d mod 2 ^ 52"
proof -
  have "dbl_frac d = take_bit 52 (uint d)"
    by (simp add: dbl_frac_def unsigned_take_bit_eq)
  then show ?thesis by (simp only: take_bit_eq_mod)
qed

lemma dbl_exp_div_mod: "dbl_exp d = uint d div 2 ^ 52 mod 2 ^ 11"
proof -
  have "take_bit 64 (uint d) = uint d"
    using uint_lt2p [of d] by (simp add: take_bit_int_eq_self)
  then have "dbl_exp d = take_bit 11 (drop_bit 52 (uint d))"
    by (simp add: dbl_exp_def unsigned_take_bit_eq unsigned_drop_bit_eq)
  then show ?thesis by (simp only: take_bit_eq_mod drop_bit_eq_div)
qed

lemma dbl_sign_odd: "dbl_sign d \<longleftrightarrow> odd (uint d div 2 ^ 63)"
proof -
  have "dbl_sign d \<longleftrightarrow> bit (uint d) 63"
    by (simp add: dbl_sign_def bit_uint_iff)
  then show ?thesis by (simp only: bit_iff_odd)
qed

lemma dbl_fields_assembled:
  fixes S E F :: int
  assumes "0 \<le> S" "S < 2" "0 \<le> E" "E < 2048" "0 \<le> F" "F < 2 ^ 52"
  defines "d \<equiv> (word_of_int (S * 2 ^ 63 + E * 2 ^ 52 + F) :: double)"
  shows "dbl_frac d = F" and "dbl_exp d = E" and "dbl_sign d \<longleftrightarrow> S = 1"
proof -
  have u: "uint d = S * 2 ^ 63 + E * 2 ^ 52 + F"
    unfolding d_def using assms(1-6) by (rule uint_assembled)
  have shape: "S * 2 ^ 63 + E * 2 ^ 52 + F = (S * 2 ^ 11 + E) * 2 ^ 52 + F"
    by (simp add: algebra_simps)
  show "dbl_frac d = F"
    unfolding dbl_frac_mod u shape using assms(5,6) by (rule div_mod_digits)
  have "uint d div 2 ^ 52 = S * 2 ^ 11 + E"
    unfolding u shape using assms(5,6) by (rule div_mod_digits)
  moreover have "(S * 2 ^ 11 + E) mod 2 ^ 11 = E"
    using assms(3,4) by (intro div_mod_digits) simp_all
  ultimately show "dbl_exp d = E"
    by (simp only: dbl_exp_div_mod)
  have "E * 2 ^ 52 \<le> 2047 * 2 ^ 52" using assms(4) by simp
  with assms have "0 \<le> E * 2 ^ 52 + F" "E * 2 ^ 52 + F < 2 ^ 63" by simp_all
  then have "uint d div 2 ^ 63 = S"
    unfolding u using div_mod_digits(1) [of "E * 2 ^ 52 + F" "2 ^ 63" S]
    by (simp add: add.assoc)
  moreover from assms(1,2) have "S = 0 \<or> S = 1" by auto
  ultimately show "dbl_sign d \<longleftrightarrow> S = 1"
    by (auto simp: dbl_sign_odd)
qed

section \<open>Conversion in the normal range\<close>

text \<open>
  For a positive rational \<open>q\<close> with binary exponent \<open>e\<close>, the conversion scales \<open>q\<close> by
  \<open>2 ^ (52 - e)\<close> into the interval from \<open>2 ^ 52\<close> to \<open>2 ^ 53\<close> and rounds there.
\<close>

definition scaled :: "rat \<Rightarrow> rat" where
  "scaled q = q * power_int 2 (52 - ilog 2 q)"

definition mant :: "rat \<Rightarrow> int" where
  "mant q = round_half_even (scaled q)"

lemma ilog2_bounds:
  assumes "0 < q"
  shows "power_int 2 (ilog 2 q) \<le> q" and "q < power_int 2 (ilog 2 q + 1)"
  using ilog_bounds [of 2 q] assms by simp_all

lemma scaled_range:
  assumes "0 < q"
  shows "2 ^ 52 \<le> scaled q" and "scaled q < 2 ^ 53"
proof -
  define e where "e = ilog 2 q"
  have pos: "(0 :: rat) < power_int 2 (52 - e)"
    by (simp add: zero_less_power_int)
  have "(2 :: rat) ^ 52 = power_int 2 e * power_int 2 (52 - e)"
    by (simp flip: power_int_add)
  also have "\<dots> \<le> q * power_int 2 (52 - e)"
    using ilog2_bounds(1) [OF assms] pos by (simp add: e_def)
  finally show "2 ^ 52 \<le> scaled q"
    by (simp add: scaled_def e_def)
  have "q * power_int 2 (52 - e) < power_int 2 (e + 1) * power_int 2 (52 - e)"
    using ilog2_bounds(2) [OF assms] pos by (simp add: e_def)
  also have "\<dots> = 2 ^ 53"
    by (simp flip: power_int_add)
  finally show "scaled q < 2 ^ 53"
    by (simp add: scaled_def e_def)
qed

lemma mant_range:
  assumes "0 < q"
  shows "2 ^ 52 \<le> mant q" and "mant q \<le> 2 ^ 53"
proof -
  have "round_half_even (of_int (2 ^ 52)) \<le> round_half_even (scaled q)"
    using scaled_range(1) [OF assms] by (intro round_half_even_mono) simp
  then show "2 ^ 52 \<le> mant q"
    by (simp only: round_half_even_of_int mant_def)
  have "round_half_even (scaled q) \<le> round_half_even (of_int (2 ^ 53))"
    using scaled_range(2) [OF assms] by (intro round_half_even_mono) simp
  then show "mant q \<le> 2 ^ 53"
    by (simp only: round_half_even_of_int mant_def)
qed

lemma mant_rat_range:
  assumes "0 < q"
  shows "(2 :: rat) ^ 52 \<le> of_int (mant q)" and "(of_int (mant q) :: rat) \<le> 2 ^ 53"
proof -
  have "(of_int (2 ^ 52) :: rat) \<le> of_int (mant q)"
    using mant_range(1) [OF assms] by (simp only: of_int_le_iff)
  then show "(2 :: rat) ^ 52 \<le> of_int (mant q)" by simp
  have "(of_int (mant q) :: rat) \<le> of_int (2 ^ 53)"
    using mant_range(2) [OF assms] by (simp only: of_int_le_iff)
  then show "(of_int (mant q) :: rat) \<le> 2 ^ 53" by simp
qed

lemma mant_error: "\<bar>of_int (mant q) - scaled q\<bar> \<le> 1 / 2"
  unfolding mant_def by (rule round_half_even_error)

lemma double_of_rat_normal:
  assumes "0 < q" and "- 1022 \<le> ilog 2 q" and "ilog 2 q \<le> 1022"
  shows "double_of_rat q = word_of_int ((ilog 2 q + 1022) * 2 ^ 52 + mant q)"
proof -
  define e where "e = ilog 2 q"
  from assms(3) have "(e + 1022) * 2 ^ 52 \<le> 2044 * 2 ^ 52"
    by (simp add: e_def)
  with mant_range(2) [OF assms(1)]
  have "(e + 1022) * 2 ^ 52 + mant q \<le> 0x7FF0000000000000" by simp
  then have "min ((e + 1022) * 2 ^ 52 + mant q) 0x7FF0000000000000 =
      (e + 1022) * 2 ^ 52 + mant q"
    by (rule min_absorb1)
  moreover from assms(2) have "max e (- 1022) = e"
    by (simp add: e_def)
  ultimately show ?thesis
    using assms(1)
    by (simp add: double_of_rat_def Let_def mant_def scaled_def flip: e_def)
qed

lemma double_of_rat_fields:
  assumes "0 < q" and "- 1022 \<le> ilog 2 q" and "ilog 2 q \<le> 1022"
  shows "\<not> dbl_sign (double_of_rat q)"
    and "dbl_exp (double_of_rat q) =
      (if mant q = 2 ^ 53 then ilog 2 q + 1024 else ilog 2 q + 1023)"
    and "dbl_frac (double_of_rat q) = (if mant q = 2 ^ 53 then 0 else mant q - 2 ^ 52)"
proof -
  define e where "e = ilog 2 q"
  define E where "E = (if mant q = 2 ^ 53 then e + 1024 else e + 1023)"
  define F where "F = (if mant q = 2 ^ 53 then 0 else mant q - 2 ^ 52)"
  note m = mant_range [OF assms(1)]
  have "(e + 1022) * 2 ^ 52 + mant q = 0 * 2 ^ 63 + E * 2 ^ 52 + F"
    by (simp add: E_def F_def algebra_simps)
  then have d: "double_of_rat q = word_of_int (0 * 2 ^ 63 + E * 2 ^ 52 + F)"
    using double_of_rat_normal [OF assms] by (simp only: e_def)
  have E: "0 \<le> E" "E < 2048"
    using assms(2,3) by (simp_all add: E_def e_def)
  have F: "0 \<le> F" "F < 2 ^ 52"
    using m by (auto simp: F_def)
  note fields = dbl_fields_assembled [of 0 E F, OF _ _ E F, folded d]
  show "\<not> dbl_sign (double_of_rat q)"
    using fields(3) by simp
  show "dbl_exp (double_of_rat q) =
      (if mant q = 2 ^ 53 then ilog 2 q + 1024 else ilog 2 q + 1023)"
    using fields(2) by (simp add: E_def e_def)
  show "dbl_frac (double_of_rat q) = (if mant q = 2 ^ 53 then 0 else mant q - 2 ^ 52)"
    using fields(1) by (simp add: F_def)
qed

lemma double_of_rat_is_normal:
  assumes "0 < q" and "- 1022 \<le> ilog 2 q" and "ilog 2 q \<le> 1022"
  shows "fpclassify (double_of_rat q) = FP_Normal"
  using assms by (simp add: fpclassify_def double_of_rat_fields)

lemma dbl_val_double_of_rat:
  assumes "0 < q" and "- 1022 \<le> ilog 2 q" and "ilog 2 q \<le> 1022"
  shows "dbl_val (double_of_rat q) = of_int (mant q) * power_int 2 (ilog 2 q - 52)"
proof (cases "mant q = 2 ^ 53")
  case True
  have "(power_int 2 (ilog 2 q - 51) :: rat) = 2 * power_int 2 (ilog 2 q - 52)"
    using power_int_add [of "2 :: rat" 1 "ilog 2 q - 52"] by simp
  then show ?thesis
    using assms True by (simp add: dbl_val_def dbl_mag_def double_of_rat_fields)
next
  case False
  with assms show ?thesis
    by (simp add: dbl_val_def dbl_mag_def double_of_rat_fields)
qed

lemma double_of_rat_error_normal:
  assumes "0 < q" and "- 1022 \<le> ilog 2 q" and "ilog 2 q \<le> 1022"
  shows "\<bar>dbl_val (double_of_rat q) - q\<bar> \<le> power_int 2 (ilog 2 q - 53)"
proof -
  define e where "e = ilog 2 q"
  have pos: "(0 :: rat) < power_int 2 (e - 52)"
    by (simp add: zero_less_power_int)
  have q: "q = scaled q * power_int 2 (e - 52)"
    by (simp add: scaled_def e_def mult.assoc flip: power_int_add)
  have "dbl_val (double_of_rat q) - q = (of_int (mant q) - scaled q) * power_int 2 (e - 52)"
    using q by (simp add: dbl_val_double_of_rat [OF assms] algebra_simps flip: e_def)
  then have "\<bar>dbl_val (double_of_rat q) - q\<bar> =
      \<bar>of_int (mant q) - scaled q\<bar> * power_int 2 (e - 52)"
    using pos by (simp add: abs_mult)
  also have "\<dots> \<le> 1 / 2 * power_int 2 (e - 52)"
    using mant_error [of q] pos by (intro mult_right_mono) simp_all
  also have "\<dots> = power_int 2 (e - 53)"
    using power_int_add [of "2 :: rat" 1 "e - 53"] by simp
  finally show ?thesis by (simp only: e_def)
qed

lemma double_of_rat_rel_error:
  assumes "0 < q" and "- 1022 \<le> ilog 2 q" and "ilog 2 q \<le> 1022"
  shows "\<bar>dbl_val (double_of_rat q) - q\<bar> \<le> q / 2 ^ 53"
proof -
  have "power_int 2 (ilog 2 q - 53) = power_int 2 (ilog 2 q) / (2 :: rat) ^ 53"
    using power_int_diff [of "2 :: rat" "ilog 2 q" 53] by simp
  also have "\<dots> \<le> q / 2 ^ 53"
    using ilog2_bounds(1) [OF assms(1)] by (simp add: divide_right_mono)
  finally show ?thesis
    using double_of_rat_error_normal [OF assms] by simp
qed

section \<open>Order and sign\<close>

lemma ilog2_mono:
  assumes "0 < p" and "p \<le> q"
  shows "ilog 2 p \<le> ilog 2 q"
proof -
  from assms have q: "0 < q" by simp
  have "power_int 2 (ilog 2 p) \<le> p" by (rule ilog2_bounds [OF assms(1)])
  also note assms(2)
  also have "q < power_int 2 (ilog 2 q + 1)" by (rule ilog2_bounds [OF q])
  finally have "ilog 2 p < ilog 2 q + 1"
    by (rule power_int_less_cancel) simp
  then show ?thesis by simp
qed

lemma dbl_val_binade:
  assumes "0 < q" and "- 1022 \<le> ilog 2 q" and "ilog 2 q \<le> 1022"
  shows "power_int 2 (ilog 2 q) \<le> dbl_val (double_of_rat q)"
    and "dbl_val (double_of_rat q) \<le> power_int 2 (ilog 2 q + 1)"
proof -
  define e where "e = ilog 2 q"
  have pos: "(0 :: rat) \<le> power_int 2 (e - 52)"
    by (simp add: zero_le_power_int)
  note lo = mant_rat_range(1) [OF assms(1)] and hi = mant_rat_range(2) [OF assms(1)]
  have "power_int 2 e = (2 :: rat) ^ 52 * power_int 2 (e - 52)"
    using power_int_add [of "2 :: rat" 52 "e - 52"] by simp
  also have "\<dots> \<le> of_int (mant q) * power_int 2 (e - 52)"
    using lo pos by (rule mult_right_mono)
  finally show "power_int 2 (ilog 2 q) \<le> dbl_val (double_of_rat q)"
    by (simp add: dbl_val_double_of_rat [OF assms] e_def)
  have "of_int (mant q) * power_int 2 (e - 52) \<le> (2 :: rat) ^ 53 * power_int 2 (e - 52)"
    using hi pos by (rule mult_right_mono)
  also have "\<dots> = power_int 2 (e + 1)"
    using power_int_add [of "2 :: rat" 53 "e - 52"] by (simp add: add.commute)
  finally show "dbl_val (double_of_rat q) \<le> power_int 2 (ilog 2 q + 1)"
    by (simp add: dbl_val_double_of_rat [OF assms] e_def)
qed

lemma double_of_rat_mono_normal:
  assumes "0 < p" and "p \<le> q" and "- 1022 \<le> ilog 2 p" and "ilog 2 q \<le> 1022"
  shows "dbl_val (double_of_rat p) \<le> dbl_val (double_of_rat q)"
proof -
  from assms have q: "0 < q" by simp
  have le: "ilog 2 p \<le> ilog 2 q" by (rule ilog2_mono [OF assms(1,2)])
  with assms have np: "- 1022 \<le> ilog 2 p" "ilog 2 p \<le> 1022"
    and nq: "- 1022 \<le> ilog 2 q" "ilog 2 q \<le> 1022" by simp_all
  show ?thesis
  proof (cases "ilog 2 p = ilog 2 q")
    case True
    have "(0 :: rat) \<le> power_int 2 (52 - ilog 2 q)" "(0 :: rat) \<le> power_int 2 (ilog 2 q - 52)"
      by (simp_all add: zero_le_power_int)
    with assms(2) True have "mant p \<le> mant q"
      unfolding mant_def scaled_def by (intro round_half_even_mono mult_right_mono) simp_all
    then have "(of_int (mant p) :: rat) \<le> of_int (mant q)" by simp
    then show ?thesis
      using True \<open>0 \<le> power_int 2 (ilog 2 q - 52)\<close>
      by (simp add: dbl_val_double_of_rat [OF assms(1) np] dbl_val_double_of_rat [OF q nq]
          mult_right_mono)
  next
    case False
    with le have "ilog 2 p + 1 \<le> ilog 2 q" by simp
    then have "(power_int 2 (ilog 2 p + 1) :: rat) \<le> power_int 2 (ilog 2 q)"
      by (intro power_int_increasing) simp_all
    with dbl_val_binade(2) [OF assms(1) np] dbl_val_binade(1) [OF q nq]
    show ?thesis by simp
  qed
qed

lemma double_of_rat_minus:
  assumes "0 < q"
  shows "double_of_rat (- q) = double_of_rat q + 2 ^ 63"
  using assms by (simp add: double_of_rat_def Let_def)

lemma dbl_val_double_of_rat_minus:
  assumes "0 < q" and "- 1022 \<le> ilog 2 q" and "ilog 2 q \<le> 1022"
  shows "dbl_val (double_of_rat (- q)) = - dbl_val (double_of_rat q)"
proof -
  define E where "E = dbl_exp (double_of_rat q)"
  define F where "F = dbl_frac (double_of_rat q)"
  have E: "0 \<le> E" "E < 2048" and F: "0 \<le> F" "F < 2 ^ 52"
    using dbl_exp_range [of "double_of_rat q"] dbl_frac_range [of "double_of_rat q"]
    by (simp_all add: E_def F_def)
  have "(ilog 2 q + 1022) * 2 ^ 52 + mant q = E * 2 ^ 52 + F"
    by (simp add: E_def F_def double_of_rat_fields [OF assms] algebra_simps)
  then have "double_of_rat q = word_of_int (E * 2 ^ 52 + F)"
    using double_of_rat_normal [OF assms] by simp
  then have "double_of_rat (- q) = word_of_int (1 * 2 ^ 63 + E * 2 ^ 52 + F)"
    by (simp add: double_of_rat_minus [OF assms(1)])
  note fields = dbl_fields_assembled [of 1 E F, OF _ _ E F, folded this]
  have "dbl_mag (double_of_rat (- q)) = dbl_mag (double_of_rat q)"
    using fields(1,2) by (simp add: dbl_mag_def E_def F_def)
  moreover have "dbl_sign (double_of_rat (- q))"
    using fields(3) by simp
  ultimately show ?thesis
    using double_of_rat_fields(1) [OF assms] by (simp add: dbl_val_def)
qed

section \<open>A double is its fields\<close>

lemma dbl_top_bit: "uint d div 2 ^ 63 = (if dbl_sign d then 1 else 0)"
proof -
  have "0 \<le> uint d div 2 ^ 63" "uint d div 2 ^ 63 < 2"
    using uint_lt2p [of d] div_mult_bounds(1) [of "2 ^ 63" "uint d"]
    by (simp_all add: pos_imp_zdiv_nonneg_iff)
  then show ?thesis
    unfolding dbl_sign_odd by (auto elim: oddE)
qed

lemma uint_dbl_fields:
  "uint d = (if dbl_sign d then 2 ^ 63 else 0) + dbl_exp d * 2 ^ 52 + dbl_frac d"
proof -
  define u where "u = uint d"
  define t where "t = u div 2 ^ 52"
  have "u div 2 ^ 63 = t div 2 ^ 11"
    by (simp add: t_def div_mult2_eq [symmetric])
  then have hi: "t div 2 ^ 11 = (if dbl_sign d then 1 else 0)"
    using dbl_top_bit [of d] by (simp only: u_def)
  have "u = t * 2 ^ 52 + u mod 2 ^ 52"
    by (simp add: t_def)
  also have "t = t div 2 ^ 11 * 2 ^ 11 + t mod 2 ^ 11"
    by simp
  also have "t div 2 ^ 11 = (if dbl_sign d then 1 else 0)"
    by (rule hi)
  also have "t mod 2 ^ 11 = dbl_exp d"
    by (simp only: dbl_exp_div_mod t_def u_def)
  also have "u mod 2 ^ 52 = dbl_frac d"
    by (simp only: dbl_frac_mod u_def)
  finally have "u = (if dbl_sign d then 2 ^ 63 else 0) + dbl_exp d * 2 ^ 52 + dbl_frac d"
    by (simp add: algebra_simps)
  then show ?thesis by (simp only: u_def)
qed

lemma double_from_fields:
  "d = word_of_int ((if dbl_sign d then 2 ^ 63 else 0) + dbl_exp d * 2 ^ 52 + dbl_frac d)"
  using uint_dbl_fields [of d] word_of_int_uint [of d] by (simp only:)

section \<open>Round trip\<close>

lemma dbl_val_normal:
  assumes "\<not> dbl_sign d" and "1 \<le> dbl_exp d"
  shows "dbl_val d = of_int (2 ^ 52 + dbl_frac d) * power_int 2 (dbl_exp d - 1075)"
  using assms by (simp add: dbl_val_def dbl_mag_def)

lemma ilog2_dbl_val:
  assumes "\<not> dbl_sign d" and "1 \<le> dbl_exp d"
  shows "ilog 2 (dbl_val d) = dbl_exp d - 1023"
proof -
  define E where "E = dbl_exp d"
  define M :: rat where "M = of_int (2 ^ 52 + dbl_frac d)"
  have M: "2 ^ 52 \<le> M" "M < 2 ^ 53"
    using dbl_frac_range [of d] by (simp_all add: M_def)
  have pos: "(0 :: rat) < power_int 2 (E - 1075)"
    by (simp add: zero_less_power_int)
  have v: "dbl_val d = M * power_int 2 (E - 1075)"
    using dbl_val_normal [OF assms] by (simp add: M_def E_def)
  have "power_int 2 (E - 1023) = (2 :: rat) ^ 52 * power_int 2 (E - 1075)"
    using power_int_add [of "2 :: rat" 52 "E - 1075"] by simp
  also have "\<dots> \<le> M * power_int 2 (E - 1075)"
    using M(1) pos by simp
  finally have lo: "power_int (of_int 2) (E - 1023) \<le> dbl_val d"
    by (simp add: v)
  have "M * power_int 2 (E - 1075) < (2 :: rat) ^ 53 * power_int 2 (E - 1075)"
    using M(2) pos by simp
  also have "\<dots> = power_int 2 (E - 1023 + 1)"
    using power_int_add [of "2 :: rat" 53 "E - 1075"] by simp
  finally have hi: "dbl_val d < power_int (of_int 2) (E - 1023 + 1)"
    by (simp add: v)
  show ?thesis
    using ilog_unique [OF _ lo hi] by (simp add: E_def)
qed

lemma mant_dbl_val:
  assumes "\<not> dbl_sign d" and "1 \<le> dbl_exp d"
  shows "mant (dbl_val d) = 2 ^ 52 + dbl_frac d"
proof -
  have "power_int 2 (dbl_exp d - 1075) * power_int 2 (1075 - dbl_exp d) = (1 :: rat)"
    using power_int_add [of "2 :: rat" "dbl_exp d - 1075" "1075 - dbl_exp d"] by simp
  then have inv: "x * power_int 2 (dbl_exp d - 1075) * power_int 2 (1075 - dbl_exp d) = x"
    for x :: rat
    by (simp add: mult.assoc)
  have "52 - (dbl_exp d - 1023) = 1075 - dbl_exp d"
    by simp
  then have "scaled (dbl_val d) = dbl_val d * power_int 2 (1075 - dbl_exp d)"
    by (simp only: scaled_def ilog2_dbl_val [OF assms])
  also have "\<dots> = of_int (2 ^ 52 + dbl_frac d)"
    by (simp only: dbl_val_normal [OF assms] inv)
  finally show ?thesis
    by (simp only: mant_def round_half_even_of_int)
qed

lemma double_of_rat_dbl_val:
  assumes "\<not> dbl_sign d" and "1 \<le> dbl_exp d" and "dbl_exp d \<le> 2045"
  shows "double_of_rat (dbl_val d) = d"
proof -
  have pos: "0 < dbl_val d"
    using dbl_frac_range [of d]
    by (simp add: dbl_val_normal [OF assms(1,2)] zero_less_mult_iff zero_less_power_int)
  have e: "- 1022 \<le> ilog 2 (dbl_val d)" "ilog 2 (dbl_val d) \<le> 1022"
    using assms(2,3) by (simp_all add: ilog2_dbl_val [OF assms(1,2)])
  have "double_of_rat (dbl_val d) =
      word_of_int ((dbl_exp d - 1023 + 1022) * 2 ^ 52 + (2 ^ 52 + dbl_frac d))"
    using double_of_rat_normal [OF pos e]
    by (simp only: ilog2_dbl_val [OF assms(1,2)] mant_dbl_val [OF assms(1,2)])
  also have "(dbl_exp d - 1023 + 1022) * 2 ^ 52 + (2 ^ 52 + dbl_frac d) =
      (if dbl_sign d then 2 ^ 63 else 0) + dbl_exp d * 2 ^ 52 + dbl_frac d"
    using assms(1) by (simp add: algebra_simps)
  also have "word_of_int \<dots> = d"
    by (rule double_from_fields [symmetric])
  finally show ?thesis .
qed

section \<open>The literal of the program, again\<close>

lemma ilog2_5_99: "ilog 2 (599 / 100) = 2"
  by code_simp

lemma ilog2_4: "ilog 2 4 = 2"
  by code_simp

section \<open>Properties of the conversion\<close>

text \<open>
  C32. A literal in the normal range is correctly rounded: the double that stands for a
  positive rational \<open>q\<close> with binary exponent between -1022 and 1022 is a normal number whose
  value differs from \<open>q\<close> by at most half a unit in the last place, which is at most
  \<open>q / 2 ^ 53\<close>.
\<close>

theorem literal_is_correctly_rounded:
  assumes "0 < q" and "- 1022 \<le> ilog 2 q" and "ilog 2 q \<le> 1022"
  shows "fpclassify (double_of_rat q) = FP_Normal \<and>
    \<bar>dbl_val (double_of_rat q) - q\<bar> \<le> power_int 2 (ilog 2 q - 53) \<and>
    \<bar>dbl_val (double_of_rat q) - q\<bar> \<le> q / 2 ^ 53"
  using double_of_rat_is_normal [OF assms] double_of_rat_error_normal [OF assms]
    double_of_rat_rel_error [OF assms]
  by (intro conjI)

theorem literal_is_correctly_rounded_witness:
  "fpclassify (double_of_rat (599 / 100)) = FP_Normal \<and>
   \<bar>dbl_val (double_of_rat (599 / 100)) - 599 / 100\<bar> \<le> power_int 2 (- 51) \<and>
   \<bar>dbl_val (double_of_rat (599 / 100)) - 599 / 100\<bar> \<le> 599 / 100 / 2 ^ 53"
  using literal_is_correctly_rounded [of "599 / 100"] by (simp add: ilog2_5_99)

text \<open>
  C33. The conversion is monotone: of two positive literals in the normal range, the larger
  one never gets the smaller double.
\<close>

theorem conversion_is_monotone:
  assumes "0 < p" and "p \<le> q" and "- 1022 \<le> ilog 2 p" and "ilog 2 q \<le> 1022"
  shows "dbl_val (double_of_rat p) \<le> dbl_val (double_of_rat q)"
  using assms by (rule double_of_rat_mono_normal)

theorem conversion_is_monotone_witness:
  "dbl_val (double_of_rat 4) \<le> dbl_val (double_of_rat (599 / 100))"
  using conversion_is_monotone [of 4 "599 / 100"] by (simp add: ilog2_5_99 ilog2_4)

text \<open>
  C34. Round trip: a positive normal double below the top binade is the conversion of the
  rational it stands for. Every such double is therefore the image of a literal, and
  conversion is exact on representable values.
\<close>

theorem conversion_round_trip:
  assumes "\<not> dbl_sign d" and "1 \<le> dbl_exp d" and "dbl_exp d \<le> 2045"
  shows "double_of_rat (dbl_val d) = d"
  using assms by (rule double_of_rat_dbl_val)

theorem conversion_round_trip_witness:
  "double_of_rat (dbl_val 0x4017F5C28F5C28F6) = 0x4017F5C28F5C28F6"
  using conversion_round_trip [of "0x4017F5C28F5C28F6"] by (simp add: fields_5_99)

text \<open>
  C35. The sign is handled symmetrically: the double of a negative literal in the normal
  range is the double of its absolute value with the sign bit set, and stands for the
  negated value.
\<close>

theorem conversion_of_negative:
  assumes "0 < q" and "- 1022 \<le> ilog 2 q" and "ilog 2 q \<le> 1022"
  shows "double_of_rat (- q) = double_of_rat q + 2 ^ 63 \<and>
    dbl_sign (double_of_rat (- q)) \<and>
    dbl_val (double_of_rat (- q)) = - dbl_val (double_of_rat q)"
proof -
  have val: "dbl_val (double_of_rat (- q)) = - dbl_val (double_of_rat q)"
    using assms by (rule dbl_val_double_of_rat_minus)
  have "(0 :: rat) < power_int 2 (ilog 2 q)"
    by (simp add: zero_less_power_int)
  then have "0 < dbl_val (double_of_rat q)"
    using dbl_val_binade(1) [OF assms] by (rule less_le_trans)
  with val have "dbl_sign (double_of_rat (- q))"
    using dbl_mag_nonneg [of "double_of_rat (- q)"] by (auto simp: dbl_val_def split: if_splits)
  with val double_of_rat_minus [OF assms(1)] show ?thesis
    by (intro conjI)
qed

theorem conversion_of_negative_witness:
  "double_of_rat (- (599 / 100)) = double_of_rat (599 / 100) + 2 ^ 63 \<and>
   dbl_sign (double_of_rat (- (599 / 100))) \<and>
   dbl_val (double_of_rat (- (599 / 100))) = - dbl_val (double_of_rat (599 / 100))"
  by (rule conversion_of_negative) (simp_all add: ilog2_5_99)

end
