(* ===== verification/Float_Text.thy ===== *)
theory Float_Text
  imports Double Decimal
begin

text \<open>
  The text of a double as the stream inserter produces it when the float-field flags are
  unset: the \<open>%g\<close> conversion of C with the stream's precision. With \<open>P\<close> the precision
  (1 if it is 0) and \<open>X\<close> the decimal exponent the value has once rounded to \<open>P\<close>
  significant digits, the value is written in fixed notation with \<open>P - 1 - X\<close> decimals
  when \<open>-4 \<le> X < P\<close> and in scientific notation with \<open>P - 1\<close> decimals otherwise; then
  trailing zeros of the fraction, and a decimal point left bare, are removed. Rounding is
  to nearest, ties to even, on the exact value of the double. \<open>fmt_fixed\<close> and \<open>fmt_exp\<close>
  are the \<open>%f\<close> and \<open>%e\<close> conversions of a non-negative value; \<open>show_double\<close> adds the
  sign and the texts of infinities and NaNs.
\<close>

section \<open>Padding and stripping\<close>

definition pad_left :: "nat \<Rightarrow> char \<Rightarrow> string \<Rightarrow> string" where
  "pad_left k c s = replicate (k - length s) c @ s"

definition strip_zeros :: "string \<Rightarrow> string" where
  "strip_zeros s =
     (if CHR ''.'' \<in> set s
      then (let t = rev (dropWhile (\<lambda>c. c = CHR ''0'') (rev s))
            in if last t = CHR ''.'' then butlast t else t)
      else s)"

section \<open>Fixed and scientific notation\<close>

definition fmt_fixed :: "nat \<Rightarrow> rat \<Rightarrow> string" where
  "fmt_fixed prec a =
     (let N = round_half_even (a * 10 ^ prec); ip = N div 10 ^ prec; fp = N mod 10 ^ prec
      in dec_nat (nat ip) @
         (if prec = 0 then [] else CHR ''.'' # pad_left prec CHR ''0'' (dec_nat (nat fp))))"

text \<open>
  \<open>exp_digits prec a\<close> is the integer made of the \<open>prec + 1\<close> significant digits of \<open>a\<close>
  and the decimal exponent of the first of them, after rounding: a carry out of the top
  digit (\<open>9.9996\<close> to four digits) moves the exponent up by one.
\<close>

definition exp_digits :: "nat \<Rightarrow> rat \<Rightarrow> int \<times> int" where
  "exp_digits prec a =
     (if a = 0 then (0, 0)
      else let e = ilog 10 a; D = round_half_even (a * power_int 10 (int prec - e))
           in if D = 10 ^ (prec + 1) then (10 ^ prec, e + 1) else (D, e))"

definition fmt_exp_mant :: "nat \<Rightarrow> rat \<Rightarrow> string" where
  "fmt_exp_mant prec a =
     (let ds = pad_left (prec + 1) CHR ''0'' (dec_nat (nat (fst (exp_digits prec a))))
      in hd ds # (if prec = 0 then [] else CHR ''.'' # tl ds))"

definition fmt_exp_suffix :: "int \<Rightarrow> string" where
  "fmt_exp_suffix X =
     CHR ''e'' # (if X < 0 then CHR ''-'' else CHR ''+'') #
     pad_left 2 CHR ''0'' (dec_nat (nat \<bar>X\<bar>))"

definition fmt_exp :: "nat \<Rightarrow> rat \<Rightarrow> string" where
  "fmt_exp prec a = fmt_exp_mant prec a @ fmt_exp_suffix (snd (exp_digits prec a))"

section \<open>General notation and the text of a double\<close>

definition fmt_g :: "nat \<Rightarrow> rat \<Rightarrow> string" where
  "fmt_g p a =
     (let P = (if p = 0 then 1 else p); X = snd (exp_digits (P - 1) a)
      in if - 4 \<le> X \<and> X < int P then strip_zeros (fmt_fixed (nat (int P - 1 - X)) a)
         else strip_zeros (fmt_exp_mant (P - 1) a) @ fmt_exp_suffix X)"

definition show_double :: "nat \<Rightarrow> double \<Rightarrow> string" where
  "show_double p d =
     (if dbl_sign d then ''-'' else []) @
     (case fpclassify d of
        FP_NaN \<Rightarrow> ''nan''
      | FP_Infinite \<Rightarrow> ''inf''
      | _ \<Rightarrow> fmt_g p (dbl_mag d))"

section \<open>Padding and stripping: lemmas\<close>

lemma length_pad_left [simp]: "length (pad_left k c s) = max k (length s)"
  by (simp add: pad_left_def)

lemma pad_left_long [simp]: "k \<le> length s \<Longrightarrow> pad_left k c s = s"
  by (simp add: pad_left_def)

lemma pad_left_neq_Nil [simp]: "s \<noteq> [] \<Longrightarrow> pad_left k c s \<noteq> []"
  by (simp add: pad_left_def)

lemma pad_left_Cons_numeral [simp]:
  "pad_left (numeral k) c s =
     (if length s < numeral k then c # pad_left (pred_numeral k) c s else s)"
  by (auto simp: pad_left_def numeral_eq_Suc Suc_diff_le)

lemma pad_left_Suc_0 [simp]: "pad_left (Suc 0) c s = (if s = [] then [c] else s)"
  by (cases s) (simp_all add: pad_left_def)

lemma strip_zeros_no_point [simp]: "CHR ''.'' \<notin> set s \<Longrightarrow> strip_zeros s = s"
  by (simp add: strip_zeros_def)

lemma rev_dropWhile_rev_prefix: "prefix (rev (dropWhile P (rev s))) s"
proof -
  have "s = rev (dropWhile P (rev s)) @ rev (takeWhile P (rev s))"
    by (metis rev_append rev_rev_ident takeWhile_dropWhile_id)
  then show ?thesis by (metis prefixI)
qed

lemma prefix_strip_zeros: "prefix (strip_zeros s) s"
proof -
  define t where "t = rev (dropWhile (\<lambda>c. c = CHR ''0'') (rev s))"
  have t: "prefix t s"
    unfolding t_def by (rule rev_dropWhile_rev_prefix)
  have "prefix (butlast t) t"
    by (simp add: prefixeq_butlast)
  then have "prefix (butlast t) s"
    using t by (rule prefix_order.trans)
  with t show ?thesis
    unfolding strip_zeros_def Let_def t_def [symmetric] by simp
qed

lemma length_strip_zeros_le: "length (strip_zeros s) \<le> length s"
  using prefix_strip_zeros [of s] by (rule prefix_length_le)

section \<open>Zero, infinities, NaN\<close>

lemma exp_digits_zero [simp]: "exp_digits prec 0 = (0, 0)"
  by (simp add: exp_digits_def)

lemma fmt_fixed_zero_0 [simp]: "fmt_fixed 0 0 = ''0''"
  by (simp add: fmt_fixed_def)

lemma strip_zeros_zero_point: "strip_zeros (''0.'' @ replicate k CHR ''0'') = ''0''"
proof -
  have "dropWhile (\<lambda>c. c = CHR ''0'') (replicate k CHR ''0'' @ ''.0'') = ''.0''"
    by (induction k) simp_all
  then show ?thesis
    by (simp add: strip_zeros_def)
qed

lemma fmt_fixed_zero: "fmt_fixed (Suc k) 0 = ''0.'' @ replicate (Suc k) CHR ''0''"
  by (simp add: fmt_fixed_def pad_left_def replicate_append_same_eq)

lemma fmt_g_zero [simp]: "fmt_g p 0 = ''0''"
proof (cases "(if p = 0 then 1 else p) - 1")
  case 0
  then show ?thesis by (auto simp: fmt_g_def Let_def split: if_splits)
next
  case (Suc k)
  then have "fmt_g p 0 = strip_zeros (fmt_fixed (Suc k) 0)"
    by (auto simp: fmt_g_def Let_def nat_diff_distrib split: if_splits)
  then show ?thesis
    using strip_zeros_zero_point [of "Suc k"] by (simp add: fmt_fixed_zero)
qed

lemma show_double_plus_zero [simp]: "show_double p 0 = ''0''"
  by (simp add: show_double_def dbl_mag_def)

lemma show_double_special:
  "fpclassify d = FP_NaN \<Longrightarrow> show_double p d = (if dbl_sign d then ''-nan'' else ''nan'')"
  "fpclassify d = FP_Infinite \<Longrightarrow> show_double p d = (if dbl_sign d then ''-inf'' else ''inf'')"
  by (simp_all add: show_double_def)

section \<open>Evaluation rules\<close>

text \<open>
  The integer parts of a conversion (the rounded digits, the exponent) evaluate by
  \<open>code_simp\<close>; these rules turn them into the text, which \<open>simp\<close> then computes.
\<close>

lemma fmt_fixed_from_digits:
  "round_half_even (a * 10 ^ prec) = N \<Longrightarrow>
   fmt_fixed prec a =
     dec_nat (nat (N div 10 ^ prec)) @
     (if prec = 0 then []
      else CHR ''.'' # pad_left prec CHR ''0'' (dec_nat (nat (N mod 10 ^ prec))))"
  by (simp add: fmt_fixed_def Let_def)

lemma fmt_g_fixed_case:
  assumes "exp_digits ((if p = 0 then 1 else p) - 1) a = (D, X)"
    and "- 4 \<le> X" and "X < int (if p = 0 then 1 else p)"
  shows "fmt_g p a = strip_zeros (fmt_fixed (nat (int (if p = 0 then 1 else p) - 1 - X)) a)"
  using assms by (simp add: fmt_g_def Let_def)

lemma fmt_g_exp_case:
  assumes "exp_digits ((if p = 0 then 1 else p) - 1) a = (D, X)"
    and "X < - 4 \<or> int (if p = 0 then 1 else p) \<le> X"
  shows "fmt_g p a =
    strip_zeros (fmt_exp_mant ((if p = 0 then 1 else p) - 1) a) @ fmt_exp_suffix X"
  using assms by (auto simp: fmt_g_def Let_def)

lemma show_double_finite_pos:
  "\<not> dbl_sign d \<Longrightarrow> fpclassify d = FP_Normal \<Longrightarrow> show_double p d = fmt_g p (dbl_mag d)"
  by (simp add: show_double_def)

section \<open>The literal of the program\<close>

lemma exp_digits_5_99:
  "exp_digits 5 (3372070220993659 / 562949953421312) = (599000, 0)"
  by code_simp

lemma round_5_99_at_5:
  "round_half_even (3372070220993659 / 562949953421312 * 10 ^ 5) = 599000"
  by code_simp

lemma fmt_fixed_5_99: "fmt_fixed 5 (3372070220993659 / 562949953421312) = ''5.99000''"
  by (simp add: fmt_fixed_from_digits [OF round_5_99_at_5])

lemma fmt_g_5_99: "fmt_g 6 (3372070220993659 / 562949953421312) = ''5.99''"
  by (simp add: fmt_g_fixed_case [OF _ _ _, where D = 599000 and X = 0]
      exp_digits_5_99 fmt_fixed_5_99 strip_zeros_def)

lemma show_double_5_99: "show_double 6 (double_of_rat (599 / 100)) = ''5.99''"
  by (simp add: double_of_rat_5_99 show_double_finite_pos fields_5_99 fpclassify_5_99
      dbl_mag_5_99 fmt_g_5_99)

text \<open>
  With seventeen significant digits the rounding error of the literal becomes visible.
\<close>

lemma exp_digits_5_99_at_17:
  "exp_digits 16 (3372070220993659 / 562949953421312) = (59900000000000002, 0)"
  by code_simp

lemma round_5_99_at_16:
  "round_half_even (3372070220993659 / 562949953421312 * 10 ^ 16) = 59900000000000002"
  by code_simp

lemma show_double_5_99_at_17:
  "show_double 17 (double_of_rat (599 / 100)) = ''5.9900000000000002''"
proof -
  have "fmt_fixed 16 (3372070220993659 / 562949953421312) = ''5.9900000000000002''"
    by (simp add: fmt_fixed_from_digits [OF round_5_99_at_16])
  then have "fmt_g 17 (3372070220993659 / 562949953421312) = ''5.9900000000000002''"
    by (simp add: fmt_g_fixed_case [OF _ _ _, where D = 59900000000000002 and X = 0]
        exp_digits_5_99_at_17 strip_zeros_def)
  then show ?thesis
    by (simp add: double_of_rat_5_99 show_double_finite_pos fields_5_99 fpclassify_5_99
        dbl_mag_5_99)
qed

end
