(* ===== verification/Literal_Printing.thy ===== *)
theory Literal_Printing
  imports Float_Text Double_Rounding
begin

text \<open>
  Why a short decimal literal prints as it was written. A literal with at most fifteen
  significant digits, once converted to a double, is off by less than half a unit of its
  last digit; rounding the double to that many digits for output therefore finds the
  digits of the literal again.
\<close>

section \<open>Rounding near an integer\<close>

lemma round_half_even_near:
  assumes "\<bar>x - of_int N\<bar> < 1 / 2"
  shows "round_half_even x = N"
proof -
  have "\<bar>(of_int (round_half_even x) :: rat) - of_int N\<bar> \<le>
      \<bar>of_int (round_half_even x) - x\<bar> + \<bar>x - of_int N\<bar>"
    by simp
  also have "\<dots> < 1 / 2 + 1 / 2"
    using round_half_even_error [of x] assms by (rule add_le_less_mono)
  finally have "\<bar>(of_int (round_half_even x - N) :: rat)\<bar> < of_int 1"
    by simp
  then have "\<bar>round_half_even x - N\<bar> < 1"
    by (simp only: of_int_abs [symmetric] of_int_less_iff)
  then show ?thesis by simp
qed

lemma pow10_fit: "P \<le> 15 \<Longrightarrow> (10 :: rat) ^ P / 2 ^ 53 < 1 / 2"
proof -
  assume "P \<le> 15"
  then have "(10 :: rat) ^ P \<le> 10 ^ 15"
    by (intro power_increasing) simp_all
  then show ?thesis by simp
qed

lemma fifteen_digits_fit:
  fixes N :: int
  assumes "0 \<le> N" and "N < 10 ^ P" and "P \<le> 15"
  shows "(of_int N :: rat) / 2 ^ 53 < 1 / 2"
proof -
  have "(10 :: int) ^ P \<le> 10 ^ 15"
    using assms(3) by (intro power_increasing) simp_all
  with assms(2) have "N < 2 ^ 52" by simp
  then have "(of_int N :: rat) < of_int (2 ^ 52)"
    by (simp only: of_int_less_iff)
  then show ?thesis by simp
qed

section \<open>The digits of a value close to a short decimal\<close>

lemma ilog10_unique:
  "power_int 10 j \<le> v \<Longrightarrow> v < power_int 10 (j + 1) \<Longrightarrow> ilog 10 v = j"
  using ilog_unique [of 10 j v] by simp

lemma power_int_10_split:
  "power_int (10 :: rat) (int n + k) = 10 ^ n * power_int 10 k"
  using power_int_add [of "10 :: rat" "int n" k] by simp

lemma exp_digits_scaled:
  fixes x :: rat
  assumes "10 ^ Q \<le> x" and "x < 10 ^ Suc Q"
  shows "exp_digits Q (x * power_int 10 k) =
    (if round_half_even x = 10 ^ Suc Q then (10 ^ Q, int Q + k + 1)
     else (round_half_even x, int Q + k))"
proof -
  define v where "v = x * power_int 10 k"
  have pk: "(0 :: rat) < power_int 10 k" by (simp add: zero_less_power_int)
  have "(0 :: rat) < 10 ^ Q" by simp
  then have "0 < x" using assms(1) by (rule less_le_trans)
  with pk have vne: "v \<noteq> 0" by (simp add: v_def)
  have inv: "power_int (10 :: rat) k * power_int 10 (- k) = 1"
    using power_int_add [of "10 :: rat" k "- k"] by simp
  have "power_int 10 (int Q + k) \<le> v"
    using assms(1) pk by (simp add: power_int_10_split v_def)
  moreover have "int Q + k + 1 = int (Suc Q) + k" by simp
  then have "power_int (10 :: rat) (int Q + k + 1) = 10 ^ Suc Q * power_int 10 k"
    by (simp only: power_int_10_split)
  then have "v < power_int 10 (int Q + k + 1)"
    using assms(2) pk by (simp add: v_def)
  ultimately have e: "ilog 10 v = int Q + k" by (rule ilog10_unique)
  have "v * power_int 10 (int Q - ilog 10 v) = v * power_int 10 (- k)"
    by (simp add: e)
  also have "\<dots> = x * (power_int 10 k * power_int 10 (- k))"
    by (simp add: v_def mult.assoc)
  also have "\<dots> = x"
    by (simp only: inv mult_1_right)
  finally show ?thesis
    using vne e by (simp add: exp_digits_def Let_def flip: v_def)
qed

lemma near_short_decimal:
  fixes N :: int and x :: rat
  assumes "P \<le> 15" and "10 ^ (P - 1) \<le> N" and "N < 10 ^ P"
    and "\<bar>x - of_int N\<bar> \<le> of_int N / 2 ^ 53"
  shows "\<bar>x - of_int N\<bar> < 1 / 2" and "round_half_even x = N"
    and "10 ^ (P - 1) - 1 / 2 < x" and "x < 10 ^ P - 1 / 2"
proof -
  have "0 \<le> N"
    using assms(2) zero_less_power [of "10 :: int" "P - 1"] by linarith
  then have "(of_int N :: rat) / 2 ^ 53 < 1 / 2"
    using assms(3,1) by (rule fifteen_digits_fit)
  with assms(4) show near: "\<bar>x - of_int N\<bar> < 1 / 2" by simp
  then show "round_half_even x = N" by (rule round_half_even_near)
  have "(of_int (10 ^ (P - 1)) :: rat) \<le> of_int N"
    using assms(2) by (simp only: of_int_le_iff)
  then have "(10 :: rat) ^ (P - 1) \<le> of_int N" by simp
  with near show "10 ^ (P - 1) - 1 / 2 < x" by linarith
  have "(of_int N :: rat) \<le> of_int (10 ^ P - 1)"
    using assms(3) by (subst of_int_le_iff) simp
  then have "(of_int N :: rat) \<le> 10 ^ P - 1" by simp
  with near show "x < 10 ^ P - 1 / 2" by linarith
qed

lemma exp_digits_below_power:
  fixes x :: rat and Q :: nat and k :: int
  assumes Q: "Suc Q \<le> 15" and x: "\<bar>x - 10 ^ Q\<bar> \<le> 10 ^ Q / 2 ^ 53"
    and low: "10 ^ Q - 1 / 2 < x" and below: "x < 10 ^ Q"
  shows "exp_digits Q (x * power_int 10 k) = (10 ^ Q, k + int Q)"
proof -
  have "10 * \<bar>x - 10 ^ Q\<bar> \<le> 10 ^ Suc Q / 2 ^ 53"
    using x by simp
  moreover have "x * 10 - of_int (10 ^ Suc Q) = 10 * (x - 10 ^ Q)"
    by simp
  then have "\<bar>x * 10 - of_int (10 ^ Suc Q)\<bar> = 10 * \<bar>x - 10 ^ Q\<bar>"
    by (simp only: abs_mult abs_numeral)
  ultimately have "\<bar>x * 10 - of_int (10 ^ Suc Q)\<bar> < 1 / 2"
    using pow10_fit [OF Q] by linarith
  then have carry: "round_half_even (x * 10) = 10 ^ Suc Q"
    by (rule round_half_even_near)
  have "(1 :: rat) \<le> 10 ^ Q" by simp
  with low have "10 ^ Q \<le> x * 10" by linarith
  moreover from below have "x * 10 < 10 ^ Suc Q" by simp
  ultimately have "exp_digits Q (x * 10 * power_int 10 (k - 1)) = (10 ^ Q, int Q + k)"
    using exp_digits_scaled [of Q "x * 10" "k - 1"] carry by simp
  moreover have "x * 10 * power_int 10 (k - 1) = x * power_int 10 k"
    using power_int_add [of "10 :: rat" 1 "k - 1"] by simp
  ultimately show ?thesis by simp
qed

lemma exp_digits_near:
  fixes N k :: int and P :: nat and x :: rat
  assumes P: "1 \<le> P" "P \<le> 15" and N: "10 ^ (P - 1) \<le> N" "N < 10 ^ P"
    and x: "\<bar>x - of_int N\<bar> \<le> of_int N / 2 ^ 53"
  shows "exp_digits (P - 1) (x * power_int 10 k) = (N, k + int P - 1)"
proof -
  define Q where "Q = P - 1"
  from P have PQ: "P = Suc Q" by (simp add: Q_def)
  note near = near_short_decimal [OF P(2) N x, folded Q_def]
  show ?thesis
  proof (cases "10 ^ Q \<le> x")
    case True
    moreover from near(4) have "x < 10 ^ Suc Q" by (simp add: PQ)
    ultimately show ?thesis
      using exp_digits_scaled [of Q x k] N(2) near(2) by (simp add: PQ)
  next
    case False
    with near(1,3) have "of_int N < (10 :: rat) ^ Q + 1" by linarith
    then have "(of_int N :: rat) < of_int (10 ^ Q + 1)" by simp
    then have "N < 10 ^ Q + 1" by (simp only: of_int_less_iff)
    with N(1) have NQ: "N = 10 ^ Q" by (simp add: Q_def)
    from x have "\<bar>x - 10 ^ Q\<bar> \<le> 10 ^ Q / 2 ^ 53" by (simp add: NQ)
    with P(2) have "exp_digits Q (x * power_int 10 k) = (10 ^ Q, k + int Q)"
      using near(3) False by (intro exp_digits_below_power) (simp_all add: PQ)
    then show ?thesis by (simp add: NQ PQ)
  qed
qed

lemma exp_digits_short_decimal:
  fixes N k :: int and P :: nat
  assumes "1 \<le> P" "P \<le> 15" and "10 ^ (P - 1) \<le> N" "N < 10 ^ P"
  shows "exp_digits (P - 1) (of_int N * power_int 10 k) = (N, k + int P - 1)"
proof -
  have "0 \<le> N"
    using assms(3) zero_less_power [of "10 :: int" "P - 1"] by linarith
  then have "\<bar>(of_int N :: rat) - of_int N\<bar> \<le> of_int N / 2 ^ 53" by simp
  with assms show ?thesis by (rule exp_digits_near)
qed

section \<open>The text of a value close to a short decimal\<close>

lemma fmt_fixed_cong:
  "round_half_even (a * 10 ^ prec) = round_half_even (b * 10 ^ prec) \<Longrightarrow>
   fmt_fixed prec a = fmt_fixed prec b"
  by (simp add: fmt_fixed_def)

lemma fmt_fixed_near:
  fixes N k :: int and P nd :: nat and x :: rat
  assumes "P \<le> 15" and "10 ^ (P - 1) \<le> N" and "N < 10 ^ P"
    and "\<bar>x - of_int N\<bar> \<le> of_int N / 2 ^ 53" and nd: "int nd = - k"
  shows "fmt_fixed nd (x * power_int 10 k) = fmt_fixed nd (of_int N * power_int 10 k)"
proof -
  have "power_int (10 :: rat) k * power_int 10 (int nd) = 1"
    using power_int_add [of "10 :: rat" k "int nd"] by (simp add: nd)
  then have unit: "power_int (10 :: rat) k * 10 ^ nd = 1" by simp
  have scaled: "y * power_int 10 k * 10 ^ nd = y" for y :: rat
    using unit by (simp add: mult.assoc)
  have "round_half_even x = N"
    using assms(1-4) by (rule near_short_decimal)
  then show ?thesis
    by (intro fmt_fixed_cong) (simp only: scaled round_half_even_of_int)
qed

lemma fmt_g_same_digits:
  assumes P: "1 \<le> P"
    and ea: "exp_digits (P - 1) a = (N, X)" and eb: "exp_digits (P - 1) b = (N, X)"
    and fixed: "- 4 \<le> X \<Longrightarrow> X < int P \<Longrightarrow>
      fmt_fixed (nat (int P - 1 - X)) a = fmt_fixed (nat (int P - 1 - X)) b"
  shows "fmt_g P a = fmt_g P b"
proof -
  from P have PP: "(if P = 0 then 1 else P) = P" by simp
  have mant: "fmt_exp_mant (P - 1) a = fmt_exp_mant (P - 1) b"
    by (simp only: fmt_exp_mant_def ea eb)
  show ?thesis
  proof (cases "- 4 \<le> X \<and> X < int P")
    case True
    with fixed ea eb show ?thesis
      by (simp only: fmt_g_def Let_def PP snd_conv simp_thms if_True)
  next
    case False
    with mant ea eb show ?thesis
      by (simp only: fmt_g_def Let_def PP snd_conv simp_thms if_False)
  qed
qed

lemma fmt_g_near:
  fixes N k :: int and P :: nat and x :: rat
  assumes P: "1 \<le> P" "P \<le> 15" and N: "10 ^ (P - 1) \<le> N" "N < 10 ^ P"
    and x: "\<bar>x - of_int N\<bar> \<le> of_int N / 2 ^ 53"
  shows "fmt_g P (x * power_int 10 k) = fmt_g P (of_int N * power_int 10 k)"
proof (rule fmt_g_same_digits [OF P(1)])
  show "exp_digits (P - 1) (x * power_int 10 k) = (N, k + int P - 1)"
    using P N x by (rule exp_digits_near)
  show "exp_digits (P - 1) (of_int N * power_int 10 k) = (N, k + int P - 1)"
    using P N by (rule exp_digits_short_decimal)
  assume "- 4 \<le> k + int P - 1" and "k + int P - 1 < int P"
  then have "int (nat (int P - 1 - (k + int P - 1))) = - k" by simp
  with P(2) N x show "fmt_fixed (nat (int P - 1 - (k + int P - 1))) (x * power_int 10 k) =
      fmt_fixed (nat (int P - 1 - (k + int P - 1))) (of_int N * power_int 10 k)"
    by (rule fmt_fixed_near)
qed

section \<open>Short literals\<close>

lemma fmt_g_5_99_exact: "fmt_g 6 (599 / 100) = ''5.99''"
proof -
  have "exp_digits 5 (599 / 100) = (599000, 0)"
    by code_simp
  moreover have "round_half_even (599 / 100 * 10 ^ 5) = 599000"
    by code_simp
  then have "fmt_fixed 5 (599 / 100) = ''5.99000''"
    by (simp add: fmt_fixed_from_digits)
  ultimately show ?thesis
    by (simp add: fmt_g_fixed_case [where D = 599000 and X = 0] strip_zeros_def)
qed

section \<open>The double of a short literal\<close>

lemma show_double_of_literal:
  assumes "0 < q" and "- 1022 \<le> ilog 2 q" and "ilog 2 q \<le> 1022"
  shows "show_double P (double_of_rat q) = fmt_g P (dbl_val (double_of_rat q))"
proof -
  have "show_double P (double_of_rat q) = fmt_g P (dbl_mag (double_of_rat q))"
    using double_of_rat_fields(1) [OF assms] double_of_rat_is_normal [OF assms]
    by (rule show_double_finite_pos)
  also have "dbl_mag (double_of_rat q) = dbl_val (double_of_rat q)"
    using double_of_rat_fields(1) [OF assms] by (simp add: dbl_val_def)
  finally show ?thesis .
qed

lemma power_int_10_inverse: "power_int (10 :: rat) k * power_int 10 (- k) = 1"
  using power_int_add [of "10 :: rat" k "- k"] by simp

lemma double_of_literal_near:
  fixes N k :: int
  assumes N: "0 < N" and range: "- 1022 \<le> ilog 2 (of_int N * power_int 10 k)"
    "ilog 2 (of_int N * power_int 10 k) \<le> 1022"
  shows "\<bar>dbl_val (double_of_rat (of_int N * power_int 10 k)) * power_int 10 (- k) - of_int N\<bar>
    \<le> of_int N / 2 ^ 53"
proof -
  define q :: rat where "q = of_int N * power_int 10 k"
  define v where "v = dbl_val (double_of_rat q)"
  have pk: "(0 :: rat) < power_int 10 k" "(0 :: rat) < power_int 10 (- k)"
    by (simp_all add: zero_less_power_int)
  with N have q: "0 < q" by (simp add: q_def)
  note inv = power_int_10_inverse [of k]
  have "v * power_int 10 (- k) - of_int N = (v - q) * power_int 10 (- k)"
    using inv by (simp add: q_def algebra_simps)
  then have "\<bar>v * power_int 10 (- k) - of_int N\<bar> = \<bar>v - q\<bar> * power_int 10 (- k)"
    using pk(2) by (simp add: abs_mult)
  also have "\<dots> \<le> q / 2 ^ 53 * power_int 10 (- k)"
    using double_of_rat_rel_error [OF q range [folded q_def]] pk(2) by (simp add: v_def)
  also have "\<dots> = of_int N / 2 ^ 53"
    using inv by (simp add: q_def mult.assoc)
  finally show ?thesis by (simp only: v_def q_def)
qed

text \<open>
  C36. A short literal prints as written: for a positive decimal literal with \<open>P \<le> 15\<close>
  significant digits in the normal range of binary64, the text that a stream with
  precision \<open>P\<close> writes for the double of the literal is the text of the literal itself.
  The rounding error of the conversion never reaches the output.
\<close>

theorem short_literal_prints_as_written:
  fixes N k :: int and P :: nat
  assumes "1 \<le> P" and "P \<le> 15" and "10 ^ (P - 1) \<le> N" and "N < 10 ^ P"
    and "- 1022 \<le> ilog 2 (of_int N * power_int 10 k)"
    and "ilog 2 (of_int N * power_int 10 k) \<le> 1022"
  shows "show_double P (double_of_rat (of_int N * power_int 10 k)) =
    fmt_g P (of_int N * power_int 10 k)"
proof -
  define q :: rat where "q = of_int N * power_int 10 k"
  define x where "x = dbl_val (double_of_rat q) * power_int 10 (- k)"
  have N0: "0 < N"
    using assms(3) zero_less_power [of "10 :: int" "P - 1"] by linarith
  then have q: "0 < q" by (simp add: q_def zero_less_power_int)
  have "dbl_val (double_of_rat q) = x * power_int 10 k"
    using power_int_10_inverse [of k]
    by (simp add: x_def mult.assoc mult.commute [of "power_int 10 (- k)"])
  then have "show_double P (double_of_rat q) = fmt_g P (x * power_int 10 k)"
    using show_double_of_literal [OF q assms(5,6) [folded q_def], of P] by simp
  moreover have "\<bar>x - of_int N\<bar> \<le> of_int N / 2 ^ 53"
    unfolding x_def q_def using N0 assms(5,6) by (rule double_of_literal_near)
  with assms(1-4) have "fmt_g P (x * power_int 10 k) = fmt_g P (of_int N * power_int 10 k)"
    by (rule fmt_g_near)
  ultimately show ?thesis by (simp only: q_def)
qed

theorem short_literal_prints_as_written_witness:
  "show_double 6 (double_of_rat (599 / 100)) = ''5.99''"
  using short_literal_prints_as_written [of 6 599000 "- 5"]
  by (simp add: ilog2_5_99 fmt_g_5_99_exact)

end
