(* ===== verification/Ostream.thy ===== *)
theory Ostream
  imports CInt Float_Text Strings
begin

text \<open>
  The standard output stream as the program uses it: the characters inserted so far and
  the two formatting flags that decide the text of the values the program inserts
  (\<open>precision\<close> for the double, \<open>boolalpha\<close> for the bool). One inserter per operand type of
  \<open><<\<close> in the source: string literal (\<open>put_cstr\<close>), \<open>std::string\<close> (\<open>put_str\<close>), \<open>char\<close>,
  \<open>int\<close>, \<open>double\<close>, \<open>bool\<close>. The program never changes a flag, never sets a field width and
  never reads the stream's error state, so those are constant or absent here. \<open>buf\<close> is the
  sequence of characters handed to the stream; when they reach the standard output of the
  process is the subject of theory \<open>Process\<close>.
\<close>

section \<open>State\<close>

record ostream =
  buf :: string
  precision :: nat
  boolalpha :: bool

definition cout_init :: ostream where
  "cout_init = \<lparr>buf = [], precision = 6, boolalpha = False\<rparr>"

section \<open>Inserters\<close>

definition emit :: "ostream \<Rightarrow> string \<Rightarrow> ostream" where
  "emit os s = os\<lparr>buf := buf os @ s\<rparr>"

definition show_bool :: "bool \<Rightarrow> bool \<Rightarrow> string" where
  "show_bool alpha b =
     (if alpha then (if b then ''true'' else ''false'') else (if b then ''1'' else ''0''))"

definition put_str :: "ostream \<Rightarrow> string \<Rightarrow> ostream" where
  "put_str os s = emit os s"

definition put_cstr :: "ostream \<Rightarrow> char_array \<Rightarrow> error + ostream" where
  "put_cstr os a = bind_res (strlen a) (\<lambda>n. Inr (emit os (take n a)))"

definition put_char :: "ostream \<Rightarrow> char \<Rightarrow> ostream" where
  "put_char os c = emit os [c]"

definition put_int :: "ostream \<Rightarrow> cint \<Rightarrow> ostream" where
  "put_int os i = emit os (show_int (sint i))"

definition put_double :: "ostream \<Rightarrow> double \<Rightarrow> ostream" where
  "put_double os d = emit os (show_double (precision os) d)"

definition put_bool :: "ostream \<Rightarrow> bool \<Rightarrow> ostream" where
  "put_bool os b = emit os (show_bool (boolalpha os) b)"

declare put_str_def [put_defs] put_char_def [put_defs] put_int_def [put_defs]
  put_double_def [put_defs] put_bool_def [put_defs]

section \<open>What an inserter changes\<close>

lemma emit_simps [simp]:
  "buf (emit os s) = buf os @ s"
  "precision (emit os s) = precision os"
  "boolalpha (emit os s) = boolalpha os"
  by (simp_all add: emit_def)

lemma emit_Nil [simp]: "emit os [] = os"
  by (simp add: emit_def)

lemma emit_emit: "emit (emit os s) t = emit os (s @ t)"
  by (simp add: emit_def)

lemma buf_put [simp]:
  "buf (put_str os s) = buf os @ s"
  "buf (put_char os c) = buf os @ [c]"
  "buf (put_int os i) = buf os @ show_int (sint i)"
  "buf (put_double os d) = buf os @ show_double (precision os) d"
  "buf (put_bool os b) = buf os @ show_bool (boolalpha os) b"
  by (simp_all add: put_defs)

lemma precision_put [simp]:
  "precision (put_str os s) = precision os"
  "precision (put_char os c) = precision os"
  "precision (put_int os i) = precision os"
  "precision (put_double os d) = precision os"
  "precision (put_bool os b) = precision os"
  by (simp_all add: put_defs)

lemma boolalpha_put [simp]:
  "boolalpha (put_str os s) = boolalpha os"
  "boolalpha (put_char os c) = boolalpha os"
  "boolalpha (put_int os i) = boolalpha os"
  "boolalpha (put_double os d) = boolalpha os"
  "boolalpha (put_bool os b) = boolalpha os"
  by (simp_all add: put_defs)

lemma ostream_eqI:
  "buf a = buf b \<Longrightarrow> precision a = precision b \<Longrightarrow> boolalpha a = boolalpha b \<Longrightarrow>
   a = (b :: ostream)"
  by simp

section \<open>Insertion of a character array\<close>

lemma put_cstr_eq:
  "put_cstr os a = bind_res (string_of_cstr a) (\<lambda>s. Inr (put_str os s))"
  by (cases "strlen a") (simp_all add: put_cstr_def string_of_cstr_def put_str_def)

lemma put_cstr_Inr_iff:
  "put_cstr os a = Inr os' \<longleftrightarrow> terminated a \<and> os' = emit os (text_of a)"
  by (auto simp: put_cstr_eq bind_res_Inr_iff string_of_cstr_Inr_iff put_str_def)

lemma put_cstr_Inl_iff: "put_cstr os a = Inl e \<longleftrightarrow> e = Unterminated \<and> \<not> terminated a"
  by (auto simp: put_cstr_eq bind_res_Inl_iff string_of_cstr_eq split: if_splits)

lemma put_cstr_literal: "put_cstr os (literal s) = Inr (emit os (text_of s))"
  by (simp add: put_cstr_eq string_of_cstr_literal put_str_def)

lemma put_cstr_literal_plain [simp]:
  "NUL \<notin> set s \<Longrightarrow> put_cstr os (literal s) = Inr (put_str os s)"
  by (simp add: put_cstr_literal put_str_def)

lemma cout_init_simps [simp]:
  "buf cout_init = []" "precision cout_init = 6" "boolalpha cout_init = False"
  by (simp_all add: cout_init_def)

section \<open>Texts of the values\<close>

lemma show_bool_simps [simp]:
  "show_bool False True = ''1''" "show_bool False False = ''0''"
  "show_bool True True = ''true''" "show_bool True False = ''false''"
  by (simp_all add: show_bool_def)

lemma show_bool_inj: "show_bool alpha a = show_bool alpha b \<longleftrightarrow> a = b"
  by (auto simp: show_bool_def split: if_splits)

lemma length_show_int_cint: "length (show_int (sint (i :: cint))) \<le> 11"
proof -
  have "\<bar>sint i\<bar> < 10 ^ 10"
    using sint_ge [of i] sint_lt [of i] by simp
  then show ?thesis
    using length_show_int_le [of 10 "sint i"] by simp
qed

lemma put_int_inj: "put_int os i = put_int os j \<longleftrightarrow> i = j"
proof
  assume "put_int os i = put_int os j"
  then have "buf (put_int os i) = buf (put_int os j)" by simp
  then show "i = j" by (simp add: show_int_inj sint_inject_cint)
qed simp

lemma read_back_put_int:
  "read_int (drop (length (buf os)) (buf (put_int os i))) = sint i"
  by simp

end
