(* ===== verification/Text_Shape.thy ===== *)
theory Text_Shape
  imports Ostream
begin

text \<open>
  The characters an inserter can write, for every value and every setting of the flags.
  The text of an \<open>int\<close> consists of digits and a minus sign; the text of a \<open>double\<close> of
  digits, the decimal point, the exponent mark with its sign, and the letters of \<open>inf\<close> and
  \<open>nan\<close>; the text of a \<open>bool\<close> of a digit or the letters of \<open>true\<close> and \<open>false\<close>. All of
  them are printable characters of the basic character set, so none is the null character
  or a newline: whatever is written between two newlines of the source stays on one line.
  A text is \<open>plain\<close> when it consists of printable characters and newlines.
\<close>

section \<open>Classes of characters\<close>

definition printable :: "char \<Rightarrow> bool" where
  "printable c \<longleftrightarrow> (32 :: nat) \<le> of_char c \<and> of_char c \<le> (126 :: nat)"

definition float_char :: "char \<Rightarrow> bool" where
  "float_char c \<longleftrightarrow> is_digit c \<or> c \<in> set ''.e+-infa''"

definition plain :: "char \<Rightarrow> bool" where
  "plain c \<longleftrightarrow> printable c \<or> c = CHR 0x0A"

lemma is_digit_printable: "is_digit c \<Longrightarrow> printable c"
  by (simp add: is_digit_def printable_def)

lemma float_char_printable: "float_char c \<Longrightarrow> printable c"
  by (auto simp: float_char_def printable_def is_digit_def)

lemma printable_not_control [simp]: "\<not> printable NUL" "\<not> printable CHR 0x0A"
  by (simp_all add: printable_def)

lemma printable_neq: "printable c \<Longrightarrow> c \<noteq> NUL \<and> c \<noteq> CHR 0x0A"
  by auto

lemma list_all_printable_literal:
  "list_all printable s \<Longrightarrow> NUL \<notin> set s \<and> CHR 0x0A \<notin> set s"
  by (auto simp: list_all_iff)

section \<open>Padding and stripping keep the characters\<close>

lemma set_pad_left: "set (pad_left k c s) \<subseteq> insert c (set s)"
  by (auto simp: pad_left_def)

lemma set_strip_zeros: "set (strip_zeros s) \<subseteq> set s"
  using prefix_strip_zeros [of s] by (rule set_mono_prefix)

lemma pad_left_digits:
  "c \<in> set (pad_left k CHR ''0'' (dec_nat m)) \<Longrightarrow> is_digit c"
proof -
  assume "c \<in> set (pad_left k CHR ''0'' (dec_nat m))"
  then have "c = CHR ''0'' \<or> c \<in> set (dec_nat m)"
    using set_pad_left [of k "CHR ''0''" "dec_nat m"] by auto
  moreover have "is_digit CHR ''0''"
    by (simp add: is_digit_def)
  ultimately show ?thesis
    by (auto dest: dec_nat_digits)
qed

section \<open>Text of a double\<close>

lemma fmt_fixed_chars: "c \<in> set (fmt_fixed prec a) \<Longrightarrow> is_digit c \<or> c = CHR ''.''"
  by (auto simp: fmt_fixed_def Let_def dec_nat_digits pad_left_digits split: if_splits)

lemma hd_tl_subset:
  "ds \<noteq> [] \<Longrightarrow> set (hd ds # (if b then [] else c # tl ds)) \<subseteq> insert c (set ds)"
  by (cases ds) auto

lemma fmt_exp_mant_chars:
  assumes "c \<in> set (fmt_exp_mant prec a)"
  shows "is_digit c \<or> c = CHR ''.''"
proof -
  define ds where "ds = pad_left (prec + 1) CHR ''0'' (dec_nat (nat (fst (exp_digits prec a))))"
  have "ds \<noteq> []"
    unfolding ds_def by simp
  moreover from assms have "c \<in> set (hd ds # (if prec = 0 then [] else CHR ''.'' # tl ds))"
    unfolding fmt_exp_mant_def Let_def ds_def .
  ultimately have "c = CHR ''.'' \<or> c \<in> set ds"
    using hd_tl_subset [of ds "prec = 0" "CHR ''.''"] by blast
  then show ?thesis
    unfolding ds_def by (auto dest: pad_left_digits)
qed

lemma fmt_exp_suffix_chars:
  "c \<in> set (fmt_exp_suffix X) \<Longrightarrow> is_digit c \<or> c \<in> set ''e+-''"
  by (auto simp: fmt_exp_suffix_def simp del: pad_left_Cons_numeral dest: pad_left_digits)

lemma fmt_g_chars: "c \<in> set (fmt_g p a) \<Longrightarrow> float_char c"
  using set_strip_zeros
  by (fastforce simp: fmt_g_def Let_def float_char_def split: if_splits
      dest: fmt_fixed_chars fmt_exp_mant_chars fmt_exp_suffix_chars)

lemma show_double_chars: "list_all float_char (show_double p d)"
  unfolding list_all_iff
proof
  fix c assume "c \<in> set (show_double p d)"
  then show "float_char c"
    by (cases "fpclassify d")
      (auto simp: show_double_def float_char_def [of "CHR ''-''"] float_char_def [of "CHR ''n''"]
        float_char_def [of "CHR ''a''"] float_char_def [of "CHR ''i''"]
        float_char_def [of "CHR ''f''"] dest: fmt_g_chars split: if_splits)
qed

section \<open>What the inserters write is printable\<close>

lemma show_double_printable: "list_all printable (show_double p d)"
  using show_double_chars [of p d] by (auto simp: list_all_iff dest: float_char_printable)

lemma show_int_printable: "list_all printable (show_int i)"
  by (auto simp: list_all_iff printable_def [of "CHR ''-''"]
      dest!: show_int_chars dest: is_digit_printable)

lemma show_bool_printable: "list_all printable (show_bool alpha b)"
  by (simp add: show_bool_def printable_def)

lemma printable_no_newline: "list_all printable s \<Longrightarrow> count_list s CHR 0x0A = 0"
  by (induction s) auto

lemma count_newline [simp]: "count_list newline CHR 0x0A = 1"
  by (simp add: newline_def)

lemma count_list_append_eq: "count_list (s @ t) c = count_list s c + count_list t c"
  by (induction s) auto

lemma printable_plain: "list_all printable s \<Longrightarrow> list_all plain s"
  by (auto simp: list_all_iff plain_def)

lemma newline_plain [simp]: "list_all plain newline"
  by (simp add: newline_def plain_def)

lemma plain_not_NUL: "list_all plain s \<Longrightarrow> NUL \<notin> set s"
  by (auto simp: list_all_iff plain_def)

end
