(* ===== verification/Variables.thy ===== *)
theory Variables
  imports Storage Ostream
begin

text \<open>
  The program \<open>src/CPP/3_variables.cpp\<close>: the thirteen local variables of \<open>main\<close> as a
  record of slots, one definition per statement of the body in source order, the body as
  the list of its statements, and \<open>main\<close> as the run of that list from a frame with no
  variable in scope. A statement is a function from the state (the frame and \<open>cout\<close>) to
  an error or the next state. The field \<open>length_var\<close> is the variable \<open>length\<close> of the
  source, renamed because \<open>length\<close> is the list function of HOL. A string literal of the
  source is \<open>literal\<close> of its text, inserted with \<open>put_cstr\<close>; the \<open>std::string\<close> of line 12 is
  constructed from its literal with \<open>string_of_cstr\<close>.
\<close>

section \<open>State\<close>

record locals =
  n :: "cint slot"
  myNum :: "cint slot"
  myFloatNum :: "double slot"
  myLetter :: "char slot"
  myText :: "string slot"
  myBoolean :: "bool slot"
  x :: "cint slot"
  y :: "cint slot"
  z :: "cint slot"
  minutesPerHour :: "cint slot"
  length_var :: "cint slot"
  width :: "cint slot"
  area :: "cint slot"

record world =
  frame :: locals
  cout :: ostream

type_synonym stmt = "world \<Rightarrow> error + world"

definition no_locals :: locals where
  "no_locals =
     \<lparr>n = Undeclared, myNum = Undeclared, myFloatNum = Undeclared, myLetter = Undeclared,
      myText = Undeclared, myBoolean = Undeclared, x = Undeclared, y = Undeclared,
      z = Undeclared, minutesPerHour = Undeclared, length_var = Undeclared,
      width = Undeclared, area = Undeclared\<rparr>"

definition main_entry :: "ostream \<Rightarrow> world" where
  "main_entry os = \<lparr>frame = no_locals, cout = os\<rparr>"

section \<open>Statements, in source order\<close>

definition decl_n :: stmt where
  "decl_n w =
     bind_res (declare_uninit (n (frame w)))
       (\<lambda>s. Inr (w\<lparr>frame := (frame w)\<lparr>n := s\<rparr>\<rparr>))"

definition assign_n :: stmt where
  "assign_n w =
     bind_res (assign 10 (n (frame w)))
       (\<lambda>s. Inr (w\<lparr>frame := (frame w)\<lparr>n := s\<rparr>\<rparr>))"

definition decl_myNum :: stmt where
  "decl_myNum w =
     bind_res (declare_init 5 (myNum (frame w)))
       (\<lambda>s. Inr (w\<lparr>frame := (frame w)\<lparr>myNum := s\<rparr>\<rparr>))"

definition decl_myFloatNum :: stmt where
  "decl_myFloatNum w =
     bind_res (declare_init (double_of_rat (599 / 100)) (myFloatNum (frame w)))
       (\<lambda>s. Inr (w\<lparr>frame := (frame w)\<lparr>myFloatNum := s\<rparr>\<rparr>))"

definition decl_myLetter :: stmt where
  "decl_myLetter w =
     bind_res (declare_init CHR ''D'' (myLetter (frame w)))
       (\<lambda>s. Inr (w\<lparr>frame := (frame w)\<lparr>myLetter := s\<rparr>\<rparr>))"

definition decl_myText :: stmt where
  "decl_myText w =
     bind_res (string_of_cstr (literal ''Hello'')) (\<lambda>t.
     bind_res (declare_init t (myText (frame w)))
       (\<lambda>s. Inr (w\<lparr>frame := (frame w)\<lparr>myText := s\<rparr>\<rparr>)))"

definition decl_myBoolean :: stmt where
  "decl_myBoolean w =
     bind_res (declare_init True (myBoolean (frame w)))
       (\<lambda>s. Inr (w\<lparr>frame := (frame w)\<lparr>myBoolean := s\<rparr>\<rparr>))"

definition print_values :: stmt where
  "print_values w =
     bind_res (rd (n (frame w))) (\<lambda>v1.
     bind_res (rd (myNum (frame w))) (\<lambda>v2.
     bind_res (rd (myFloatNum (frame w))) (\<lambda>v3.
     bind_res (rd (myLetter (frame w))) (\<lambda>v4.
     bind_res (rd (myText (frame w))) (\<lambda>v5.
     bind_res (rd (myBoolean (frame w))) (\<lambda>v6.
     bind_res (put_cstr (put_bool (put_str (put_char (put_double (put_int (put_int
         (cout w) v1) v2) v3) v4) v5) v6) (literal newline))
       (\<lambda>os. Inr (w\<lparr>cout := os\<rparr>))))))))"

definition decl_x_y_z :: stmt where
  "decl_x_y_z w =
     bind_res (declare_init 4 (x (frame w))) (\<lambda>sx.
     bind_res (declare_init 6 (y (frame w))) (\<lambda>sy.
     bind_res (declare_init 9 (z (frame w))) (\<lambda>sz.
     Inr (w\<lparr>frame := (frame w)\<lparr>x := sx, y := sy, z := sz\<rparr>\<rparr>))))"

definition sum_x_y_z :: "locals \<Rightarrow> error + cint" where
  "sum_x_y_z f =
     bind_res (rd (x f)) (\<lambda>a.
     bind_res (rd (y f)) (\<lambda>b.
     bind_res (add_int a b) (\<lambda>ab.
     bind_res (rd (z f)) (\<lambda>c.
     add_int ab c))))"

definition print_sum :: stmt where
  "print_sum w =
     bind_res (sum_x_y_z (frame w)) (\<lambda>s.
     bind_res (put_cstr (cout w) (literal newline))
       (\<lambda>os. Inr (w\<lparr>cout := put_int os s\<rparr>)))"

definition assign_x_y_z :: stmt where
  "assign_x_y_z w =
     bind_res (assign 50 (z (frame w))) (\<lambda>sz.
     bind_res (rd sz) (\<lambda>vz.
     bind_res (assign vz (y (frame w))) (\<lambda>sy.
     bind_res (rd sy) (\<lambda>vy.
     bind_res (assign vy (x (frame w))) (\<lambda>sx.
     Inr (w\<lparr>frame := (frame w)\<lparr>z := sz, y := sy, x := sx\<rparr>\<rparr>))))))"

definition decl_minutesPerHour :: stmt where
  "decl_minutesPerHour w =
     bind_res (declare_const 60 (minutesPerHour (frame w)))
       (\<lambda>s. Inr (w\<lparr>frame := (frame w)\<lparr>minutesPerHour := s\<rparr>\<rparr>))"

definition print_separator :: stmt where
  "print_separator w =
     bind_res (put_cstr (cout w) (literal (''##################################'' @ newline)))
       (\<lambda>os. Inr (w\<lparr>cout := os\<rparr>))"

definition decl_length :: stmt where
  "decl_length w =
     bind_res (declare_init 4 (length_var (frame w)))
       (\<lambda>s. Inr (w\<lparr>frame := (frame w)\<lparr>length_var := s\<rparr>\<rparr>))"

definition decl_width :: stmt where
  "decl_width w =
     bind_res (declare_init 6 (width (frame w)))
       (\<lambda>s. Inr (w\<lparr>frame := (frame w)\<lparr>width := s\<rparr>\<rparr>))"

definition decl_area :: stmt where
  "decl_area w =
     bind_res (rd (length_var (frame w))) (\<lambda>l.
     bind_res (rd (width (frame w))) (\<lambda>b.
     bind_res (mul_int l b) (\<lambda>p.
     bind_res (declare_init p (area (frame w))) (\<lambda>s.
     Inr (w\<lparr>frame := (frame w)\<lparr>area := s\<rparr>\<rparr>)))))"

definition print_length :: stmt where
  "print_length w =
     bind_res (rd (length_var (frame w))) (\<lambda>v.
     bind_res (put_cstr (cout w) (literal ''Length is: '')) (\<lambda>os.
     bind_res (put_cstr (put_int os v) (literal newline))
       (\<lambda>os. Inr (w\<lparr>cout := os\<rparr>))))"

definition print_width :: stmt where
  "print_width w =
     bind_res (rd (width (frame w))) (\<lambda>v.
     bind_res (put_cstr (cout w) (literal ''Width is: '')) (\<lambda>os.
     bind_res (put_cstr (put_int os v) (literal newline))
       (\<lambda>os. Inr (w\<lparr>cout := os\<rparr>))))"

definition print_area :: stmt where
  "print_area w =
     bind_res (rd (area (frame w))) (\<lambda>v.
     bind_res (put_cstr (cout w) (literal ''Area of the rectangle is: '')) (\<lambda>os.
     bind_res (put_cstr (put_int os v) (literal newline))
       (\<lambda>os. Inr (w\<lparr>cout := os\<rparr>))))"

declare decl_n_def [stmt_defs] assign_n_def [stmt_defs] decl_myNum_def [stmt_defs]
  decl_myFloatNum_def [stmt_defs] decl_myLetter_def [stmt_defs] decl_myText_def [stmt_defs]
  decl_myBoolean_def [stmt_defs] print_values_def [stmt_defs] decl_x_y_z_def [stmt_defs]
  sum_x_y_z_def [stmt_defs] print_sum_def [stmt_defs] assign_x_y_z_def [stmt_defs]
  decl_minutesPerHour_def [stmt_defs] print_separator_def [stmt_defs]
  decl_length_def [stmt_defs] decl_width_def [stmt_defs] decl_area_def [stmt_defs]
  print_length_def [stmt_defs] print_width_def [stmt_defs] print_area_def [stmt_defs]

section \<open>The body and main\<close>

fun exec_seq :: "stmt list \<Rightarrow> stmt" where
  "exec_seq [] w = Inr w"
| "exec_seq (c # cs) w = bind_res (c w) (exec_seq cs)"

definition main_body :: "stmt list" where
  "main_body =
     [decl_n, assign_n,
      decl_myNum, decl_myFloatNum, decl_myLetter, decl_myText, decl_myBoolean,
      print_values,
      decl_x_y_z, print_sum,
      assign_x_y_z, print_sum,
      decl_minutesPerHour,
      print_separator,
      decl_length, decl_width, decl_area,
      print_length, print_width, print_area]"

definition main :: "ostream \<Rightarrow> error + (cint \<times> ostream)" where
  "main os = bind_res (exec_seq main_body (main_entry os)) (\<lambda>w. Inr (0, cout w))"

section \<open>Sequencing\<close>

lemma exec_seq_Nil_fun [simp]: "exec_seq [] = Inr"
  by (rule ext) simp

lemma exec_seq_append:
  "exec_seq (cs @ ds) w = bind_res (exec_seq cs w) (exec_seq ds)"
proof (induction cs arbitrary: w)
  case Nil
  show ?case by simp
next
  case (Cons c cs)
  show ?case by (cases "c w") (simp_all add: Cons.IH)
qed

lemma exec_seq_single [simp]: "exec_seq [c] w = c w"
  by simp

lemma exec_seq_Inr_append:
  "exec_seq (cs @ ds) w = Inr w'' \<longleftrightarrow>
     (\<exists>w'. exec_seq cs w = Inr w' \<and> exec_seq ds w' = Inr w'')"
  by (simp add: exec_seq_append bind_res_Inr_iff)

lemma exec_seq_prefix_ok:
  "is_ok (exec_seq (cs @ ds) w) \<Longrightarrow> is_ok (exec_seq cs w)"
  by (auto simp: exec_seq_append is_ok_bind_res)

lemma exec_seq_take_ok:
  "is_ok (exec_seq cs w) \<Longrightarrow> is_ok (exec_seq (take k cs) w)"
  using exec_seq_prefix_ok [of "take k cs" "drop k cs" w] by simp

lemma exec_seq_Inl_stays:
  "exec_seq cs w = Inl e \<Longrightarrow> exec_seq (cs @ ds) w = Inl e"
  by (simp add: exec_seq_append)

section \<open>Effect of each statement\<close>

text \<open>
  For each statement, the states from which it completes and the state it then leaves.
  Every other state gives an error. These equivalences are what the proofs about the
  body unfold; the definitions themselves stay folded.
\<close>

lemmas slot_Inr_iffs = rd_Inr_iff assign_Inr_iff declare_init_Inr_iff declare_const_Inr_iff
  declare_uninit_Inr_iff

lemma decl_n_Inr_iff:
  "decl_n w = Inr w' \<longleftrightarrow>
     n (frame w) = Undeclared \<and> w' = w\<lparr>frame := (frame w)\<lparr>n := Indeterminate\<rparr>\<rparr>"
  by (auto simp: decl_n_def bind_res_Inr_iff slot_Inr_iffs)

lemma assign_n_Inr_iff:
  "assign_n w = Inr w' \<longleftrightarrow>
     in_scope (n (frame w)) \<and> \<not> is_const (n (frame w)) \<and>
     w' = w\<lparr>frame := (frame w)\<lparr>n := Holds 10\<rparr>\<rparr>"
  by (auto simp: assign_n_def bind_res_Inr_iff slot_Inr_iffs)

lemma decl_myNum_Inr_iff:
  "decl_myNum w = Inr w' \<longleftrightarrow>
     myNum (frame w) = Undeclared \<and> w' = w\<lparr>frame := (frame w)\<lparr>myNum := Holds 5\<rparr>\<rparr>"
  by (auto simp: decl_myNum_def bind_res_Inr_iff slot_Inr_iffs)

lemma decl_myFloatNum_Inr_iff:
  "decl_myFloatNum w = Inr w' \<longleftrightarrow>
     myFloatNum (frame w) = Undeclared \<and>
     w' = w\<lparr>frame := (frame w)\<lparr>myFloatNum := Holds (double_of_rat (599 / 100))\<rparr>\<rparr>"
  by (auto simp: decl_myFloatNum_def bind_res_Inr_iff slot_Inr_iffs)

lemma decl_myLetter_Inr_iff:
  "decl_myLetter w = Inr w' \<longleftrightarrow>
     myLetter (frame w) = Undeclared \<and>
     w' = w\<lparr>frame := (frame w)\<lparr>myLetter := Holds CHR ''D''\<rparr>\<rparr>"
  by (auto simp: decl_myLetter_def bind_res_Inr_iff slot_Inr_iffs)

lemma decl_myText_Inr_iff:
  "decl_myText w = Inr w' \<longleftrightarrow>
     myText (frame w) = Undeclared \<and>
     w' = w\<lparr>frame := (frame w)\<lparr>myText := Holds ''Hello''\<rparr>\<rparr>"
  by (auto simp: decl_myText_def bind_res_Inr_iff slot_Inr_iffs)

lemma decl_myBoolean_Inr_iff:
  "decl_myBoolean w = Inr w' \<longleftrightarrow>
     myBoolean (frame w) = Undeclared \<and>
     w' = w\<lparr>frame := (frame w)\<lparr>myBoolean := Holds True\<rparr>\<rparr>"
  by (auto simp: decl_myBoolean_def bind_res_Inr_iff slot_Inr_iffs)

lemma print_values_Inr_iff:
  "print_values w = Inr w' \<longleftrightarrow>
     (\<exists>v1 v2 v3 v4 v5 v6.
        rd (n (frame w)) = Inr v1 \<and> rd (myNum (frame w)) = Inr v2 \<and>
        rd (myFloatNum (frame w)) = Inr v3 \<and> rd (myLetter (frame w)) = Inr v4 \<and>
        rd (myText (frame w)) = Inr v5 \<and> rd (myBoolean (frame w)) = Inr v6 \<and>
        w' = w\<lparr>cout := emit (cout w)
          (show_int (sint v1) @ show_int (sint v2) @ show_double (precision (cout w)) v3 @
           [v4] @ v5 @ show_bool (boolalpha (cout w)) v6 @ newline)\<rparr>)"
  by (simp add: print_values_def bind_res_Inr_iff put_defs emit_emit eq_commute [of "Inr w'"])
    (auto simp: emit_def)

lemma decl_x_y_z_Inr_iff:
  "decl_x_y_z w = Inr w' \<longleftrightarrow>
     x (frame w) = Undeclared \<and> y (frame w) = Undeclared \<and> z (frame w) = Undeclared \<and>
     w' = w\<lparr>frame := (frame w)\<lparr>x := Holds 4, y := Holds 6, z := Holds 9\<rparr>\<rparr>"
  by (auto simp: decl_x_y_z_def bind_res_Inr_iff slot_Inr_iffs)

lemma print_sum_Inr_iff:
  "print_sum w = Inr w' \<longleftrightarrow>
     (\<exists>s. sum_x_y_z (frame w) = Inr s \<and>
        w' = w\<lparr>cout := emit (cout w) (newline @ show_int (sint s))\<rparr>)"
  by (auto simp: print_sum_def bind_res_Inr_iff put_defs emit_emit)

lemma assign_x_y_z_Inr_iff:
  "assign_x_y_z w = Inr w' \<longleftrightarrow>
     in_scope (x (frame w)) \<and> \<not> is_const (x (frame w)) \<and>
     in_scope (y (frame w)) \<and> \<not> is_const (y (frame w)) \<and>
     in_scope (z (frame w)) \<and> \<not> is_const (z (frame w)) \<and>
     w' = w\<lparr>frame := (frame w)\<lparr>z := Holds 50, y := Holds 50, x := Holds 50\<rparr>\<rparr>"
  by (auto simp: assign_x_y_z_def bind_res_Inr_iff slot_Inr_iffs)

lemma decl_minutesPerHour_Inr_iff:
  "decl_minutesPerHour w = Inr w' \<longleftrightarrow>
     minutesPerHour (frame w) = Undeclared \<and>
     w' = w\<lparr>frame := (frame w)\<lparr>minutesPerHour := Const 60\<rparr>\<rparr>"
  by (auto simp: decl_minutesPerHour_def bind_res_Inr_iff slot_Inr_iffs)

lemma print_separator_Inr_iff:
  "print_separator w = Inr w' \<longleftrightarrow>
     w' = w\<lparr>cout := emit (cout w) (''##################################'' @ newline)\<rparr>"
  by (auto simp: print_separator_def put_defs)

lemma decl_length_Inr_iff:
  "decl_length w = Inr w' \<longleftrightarrow>
     length_var (frame w) = Undeclared \<and>
     w' = w\<lparr>frame := (frame w)\<lparr>length_var := Holds 4\<rparr>\<rparr>"
  by (auto simp: decl_length_def bind_res_Inr_iff slot_Inr_iffs)

lemma decl_width_Inr_iff:
  "decl_width w = Inr w' \<longleftrightarrow>
     width (frame w) = Undeclared \<and> w' = w\<lparr>frame := (frame w)\<lparr>width := Holds 6\<rparr>\<rparr>"
  by (auto simp: decl_width_def bind_res_Inr_iff slot_Inr_iffs)

lemma decl_area_Inr_iff:
  "decl_area w = Inr w' \<longleftrightarrow>
     (\<exists>l b. rd (length_var (frame w)) = Inr l \<and> rd (width (frame w)) = Inr b \<and>
        in_int_range (sint l * sint b) \<and> area (frame w) = Undeclared \<and>
        w' = w\<lparr>frame := (frame w)\<lparr>area := Holds (l * b)\<rparr>\<rparr>)"
  by (auto simp: decl_area_def bind_res_Inr_iff declare_init_Inr_iff mul_int_Inr_iff)

lemma print_length_Inr_iff:
  "print_length w = Inr w' \<longleftrightarrow>
     (\<exists>v. rd (length_var (frame w)) = Inr v \<and>
        w' = w\<lparr>cout := emit (cout w) (''Length is: '' @ show_int (sint v) @ newline)\<rparr>)"
  by (auto simp: print_length_def bind_res_Inr_iff put_defs emit_emit)

lemma print_width_Inr_iff:
  "print_width w = Inr w' \<longleftrightarrow>
     (\<exists>v. rd (width (frame w)) = Inr v \<and>
        w' = w\<lparr>cout := emit (cout w) (''Width is: '' @ show_int (sint v) @ newline)\<rparr>)"
  by (auto simp: print_width_def bind_res_Inr_iff put_defs emit_emit)

lemma print_area_Inr_iff:
  "print_area w = Inr w' \<longleftrightarrow>
     (\<exists>v. rd (area (frame w)) = Inr v \<and>
        w' = w\<lparr>cout := emit (cout w)
          (''Area of the rectangle is: '' @ show_int (sint v) @ newline)\<rparr>)"
  by (auto simp: print_area_def bind_res_Inr_iff put_defs emit_emit)

lemmas stmt_Inr_iffs =
  decl_n_Inr_iff assign_n_Inr_iff decl_myNum_Inr_iff decl_myFloatNum_Inr_iff
  decl_myLetter_Inr_iff decl_myText_Inr_iff decl_myBoolean_Inr_iff print_values_Inr_iff
  decl_x_y_z_Inr_iff print_sum_Inr_iff assign_x_y_z_Inr_iff decl_minutesPerHour_Inr_iff
  print_separator_Inr_iff decl_length_Inr_iff decl_width_Inr_iff decl_area_Inr_iff
  print_length_Inr_iff print_width_Inr_iff print_area_Inr_iff

section \<open>Invariants of statement sequences\<close>

text \<open>
  \<open>preserves P c\<close>: whenever \<open>c\<close> runs to completion from a state with \<open>P\<close>, the state it
  leaves has \<open>P\<close>. A property kept by every statement of a list is kept by the run of
  the list, so an invariant of the body is proved statement by statement.
\<close>

definition preserves :: "(world \<Rightarrow> bool) \<Rightarrow> stmt \<Rightarrow> bool" where
  "preserves P c \<longleftrightarrow> (\<forall>w w'. P w \<longrightarrow> c w = Inr w' \<longrightarrow> P w')"

lemma preservesI: "(\<And>w w'. P w \<Longrightarrow> c w = Inr w' \<Longrightarrow> P w') \<Longrightarrow> preserves P c"
  by (simp add: preserves_def)

lemma preservesD: "preserves P c \<Longrightarrow> P w \<Longrightarrow> c w = Inr w' \<Longrightarrow> P w'"
  by (auto simp: preserves_def)

lemma preserves_exec_seq: "list_all (preserves P) cs \<Longrightarrow> preserves P (exec_seq cs)"
proof (induction cs)
  case Nil
  show ?case by (simp add: preserves_def)
next
  case (Cons c cs)
  then have c: "preserves P c" and cs: "preserves P (exec_seq cs)" by simp_all
  show ?case
  proof (rule preservesI)
    fix w w' assume "P w" and "exec_seq (c # cs) w = Inr w'"
    then obtain u where "c w = Inr u" and "exec_seq cs u = Inr w'"
      by (auto simp: bind_res_Inr_iff)
    with c cs \<open>P w\<close> show "P w'" by (blast dest: preservesD)
  qed
qed

lemma list_all_sublist: "list_all P ys \<Longrightarrow> set xs \<subseteq> set ys \<Longrightarrow> list_all P xs"
  by (auto simp: list_all_iff)

lemma preserves_body_run:
  assumes "list_all (preserves P) main_body" and "set cs \<subseteq> set main_body"
    and "P w" and "exec_seq cs w = Inr w'"
  shows "P w'"
  using assms by (blast intro: preservesD preserves_exec_seq list_all_sublist)

lemmas body_unfold = main_body_def preserves_def stmt_Inr_iffs

lemma body_keeps_const:
  "list_all (preserves (\<lambda>w. minutesPerHour (frame w) = Const v)) main_body"
  by (auto simp: body_unfold)

lemma body_extends_output:
  "list_all (preserves (\<lambda>w. prefix b (buf (cout w)) \<and>
      precision (cout w) = p \<and> boolalpha (cout w) = a)) main_body"
  by (auto simp: body_unfold intro: prefix_trans_append)

section \<open>Variables only move forward\<close>

definition frame_le :: "locals \<Rightarrow> locals \<Rightarrow> bool" where
  "frame_le f g \<longleftrightarrow>
     n f \<le> n g \<and> myNum f \<le> myNum g \<and> myFloatNum f \<le> myFloatNum g \<and>
     myLetter f \<le> myLetter g \<and> myText f \<le> myText g \<and> myBoolean f \<le> myBoolean g \<and>
     x f \<le> x g \<and> y f \<le> y g \<and> z f \<le> z g \<and> minutesPerHour f \<le> minutesPerHour g \<and>
     length_var f \<le> length_var g \<and> width f \<le> width g \<and> area f \<le> area g"

lemma frame_le_refl [simp]: "frame_le f f"
  by (simp add: frame_le_def)

lemma frame_le_trans: "frame_le f g \<Longrightarrow> frame_le g h \<Longrightarrow> frame_le f h"
  unfolding frame_le_def by (blast intro: order_trans)

lemma no_locals_least [simp]: "frame_le no_locals f"
  by (simp add: frame_le_def no_locals_def)

lemmas slot_les = declare_uninit_le declare_init_le declare_const_le assign_le

definition advances :: "stmt \<Rightarrow> bool" where
  "advances c \<longleftrightarrow> (\<forall>w w'. c w = Inr w' \<longrightarrow> frame_le (frame w) (frame w'))"

lemma body_all_advance: "list_all advances main_body"
  unfolding main_body_def advances_def
  by (auto simp: stmt_Inr_iffs frame_le_def in_scope_def is_const_def split: slot.splits)

lemma body_advances:
  "c \<in> set main_body \<Longrightarrow> c w = Inr w' \<Longrightarrow> frame_le (frame w) (frame w')"
  using body_all_advance by (auto simp: list_all_iff advances_def)

lemma body_keeps_frame_le:
  "list_all (preserves (\<lambda>w. frame_le f (frame w))) main_body"
  by (auto simp: list_all_iff preserves_def dest: body_advances intro: frame_le_trans)

section \<open>Names in scope\<close>

text \<open>
  The names a frame has in scope, in declaration order, and those among them that hold a
  value: the view of the frame that a reader of the source has.
\<close>

definition name_if :: "string \<Rightarrow> bool \<Rightarrow> string list" where
  "name_if name b = (if b then [name] else [])"

definition names :: "(bool \<Rightarrow> bool \<Rightarrow> bool) \<Rightarrow> locals \<Rightarrow> string list" where
  "names sel f =
     name_if ''n'' (sel (in_scope (n f)) (readable (n f))) @
     name_if ''myNum'' (sel (in_scope (myNum f)) (readable (myNum f))) @
     name_if ''myFloatNum'' (sel (in_scope (myFloatNum f)) (readable (myFloatNum f))) @
     name_if ''myLetter'' (sel (in_scope (myLetter f)) (readable (myLetter f))) @
     name_if ''myText'' (sel (in_scope (myText f)) (readable (myText f))) @
     name_if ''myBoolean'' (sel (in_scope (myBoolean f)) (readable (myBoolean f))) @
     name_if ''x'' (sel (in_scope (x f)) (readable (x f))) @
     name_if ''y'' (sel (in_scope (y f)) (readable (y f))) @
     name_if ''z'' (sel (in_scope (z f)) (readable (z f))) @
     name_if ''minutesPerHour'' (sel (in_scope (minutesPerHour f)) (readable (minutesPerHour f))) @
     name_if ''length'' (sel (in_scope (length_var f)) (readable (length_var f))) @
     name_if ''width'' (sel (in_scope (width f)) (readable (width f))) @
     name_if ''area'' (sel (in_scope (area f)) (readable (area f)))"

definition declared :: "locals \<Rightarrow> string list" where
  "declared f = names (\<lambda>s r. s) f"

definition initialised :: "locals \<Rightarrow> string list" where
  "initialised f = names (\<lambda>s r. r) f"

lemma name_if_simps [simp]: "name_if name True = [name]" "name_if name False = []"
  by (simp_all add: name_if_def)

lemma in_set_name_if [simp]: "nm \<in> set (name_if name b) \<longleftrightarrow> b \<and> nm = name"
  by (auto simp: name_if_def)

lemma declared_no_locals [simp]: "declared no_locals = []"
  by (simp add: declared_def names_def no_locals_def)

lemma initialised_no_locals [simp]: "initialised no_locals = []"
  by (simp add: initialised_def names_def no_locals_def)

lemma initialised_subset_declared: "set (initialised f) \<subseteq> set (declared f)"
  unfolding initialised_def declared_def names_def
  by (auto dest: readable_in_scope)

lemma frame_le_declared: "frame_le f g \<Longrightarrow> set (declared f) \<subseteq> set (declared g)"
  unfolding declared_def names_def frame_le_def
  by (auto dest: slot_le_in_scope)

lemma frame_le_initialised: "frame_le f g \<Longrightarrow> set (initialised f) \<subseteq> set (initialised g)"
  unfolding initialised_def names_def frame_le_def
  by (auto dest: slot_le_readable)

section \<open>The sum expression\<close>

lemma sum_x_y_z_values:
  assumes "rd (x f) = Inr a" "rd (y f) = Inr b" "rd (z f) = Inr c"
  shows "sum_x_y_z f =
    (if in_int_range (sint a + sint b) \<and> in_int_range (sint a + sint b + sint c)
     then Inr (a + b + c) else Inl SignedOverflow)"
  using assms by (auto simp: sum_x_y_z_def add_int_def sint_plus_in_range)

lemma sum_x_y_z_reads:
  "sum_x_y_z f = Inr s \<Longrightarrow>
   \<exists>a b c. rd (x f) = Inr a \<and> rd (y f) = Inr b \<and> rd (z f) = Inr c"
  by (auto simp: sum_x_y_z_def bind_res_Inr_iff)

lemma sint_sum3:
  "in_int_range (sint a + sint b) \<Longrightarrow> in_int_range (sint a + sint b + sint c) \<Longrightarrow>
   sint (a + b + c :: cint) = sint a + sint b + sint c"
  by (simp add: sint_plus_in_range)

lemma sum_x_y_z_error_kinds:
  "sum_x_y_z f = Inl e \<Longrightarrow> e = SignedOverflow \<or> e = IndeterminateRead \<or> e = NotDeclared"
  by (auto simp: sum_x_y_z_def bind_res_Inl_iff add_int_Inl_iff rd_def split: slot.splits)

section \<open>Sample states\<close>

text \<open>
  Two states at which the statements below are run: the one in which line 19 finds the
  three summands, and one in which line 38 finds a rectangle of given sides. Both start
  from the initial stream.
\<close>

definition sample_xyz :: world where
  "sample_xyz = \<lparr>frame = no_locals\<lparr>x := Holds 4, y := Holds 6, z := Holds 9\<rparr>, cout = cout_init\<rparr>"

definition sample_rect :: "cint \<Rightarrow> cint \<Rightarrow> world" where
  "sample_rect l b =
     \<lparr>frame = no_locals\<lparr>length_var := Holds l, width := Holds b\<rparr>, cout = cout_init\<rparr>"

lemma sample_xyz_simps [simp]:
  "x (frame sample_xyz) = Holds 4" "y (frame sample_xyz) = Holds 6"
  "z (frame sample_xyz) = Holds 9" "cout sample_xyz = cout_init"
  by (simp_all add: sample_xyz_def)

lemma sample_rect_simps [simp]:
  "length_var (frame (sample_rect l b)) = Holds l" "width (frame (sample_rect l b)) = Holds b"
  "area (frame (sample_rect l b)) = Undeclared" "cout (sample_rect l b) = cout_init"
  by (simp_all add: sample_rect_def no_locals_def)

section \<open>The statements that compute\<close>

lemma sum_x_y_z_Inr_iff:
  "sum_x_y_z f = Inr s \<longleftrightarrow>
     (\<exists>a b c. rd (x f) = Inr a \<and> rd (y f) = Inr b \<and> rd (z f) = Inr c \<and>
        in_int_range (sint a + sint b) \<and> in_int_range (sint a + sint b + sint c) \<and>
        s = a + b + c)"
  by (auto simp: sum_x_y_z_def bind_res_Inr_iff add_int_Inr_iff sint_plus_in_range)

text \<open>
  C7. Lines 19 and 23, which print a newline and \<open>x+y+z\<close>: when the three variables hold values
  whose sum, taken left to right, stays within \<open>int\<close>, the statement appends a newline and
  the decimal text of the mathematical sum, and changes nothing else.
\<close>

theorem print_sum_appends_sum:
  assumes "rd (x (frame w)) = Inr a" and "rd (y (frame w)) = Inr b"
    and "rd (z (frame w)) = Inr c"
    and "in_int_range (sint a + sint b)" and "in_int_range (sint a + sint b + sint c)"
  shows "print_sum w =
    Inr (w\<lparr>cout := emit (cout w) (newline @ show_int (sint a + sint b + sint c))\<rparr>)"
  using assms
  by (simp add: print_sum_def sum_x_y_z_def add_int_def sint_plus_in_range put_defs emit_emit)

theorem print_sum_appends_sum_witness:
  "print_sum sample_xyz = Inr (sample_xyz\<lparr>cout := emit cout_init (newline @ ''19'')\<rparr>)"
  using print_sum_appends_sum [of sample_xyz 4 6 9]
  by (simp add: sample_xyz_def no_locals_def int_range_defs)

text \<open>
  C8. The expression \<open>x+y+z\<close> has a value exactly when the three variables can be read and
  \<open>x+y\<close> is within \<open>int\<close>, and the value is then the sum of the three integers: the
  32-bit result never differs from the mathematical one.
\<close>

theorem sum_is_exact_or_overflow:
  "sum_x_y_z f = Inr s \<longleftrightarrow>
     (\<exists>a b c. rd (x f) = Inr a \<and> rd (y f) = Inr b \<and> rd (z f) = Inr c \<and>
        in_int_range (sint a + sint b) \<and> sint s = sint a + sint b + sint c)"
proof -
  have "in_int_range (sint a + sint b + sint c) \<and> s = a + b + c \<longleftrightarrow>
      sint s = sint a + sint b + sint c"
    if ab: "in_int_range (sint a + sint b)" for a b c :: cint
  proof
    assume "in_int_range (sint a + sint b + sint c) \<and> s = a + b + c"
    with ab show "sint s = sint a + sint b + sint c" by (simp add: sint_sum3)
  next
    assume s: "sint s = sint a + sint b + sint c"
    then have "in_int_range (sint a + sint b + sint c)"
      using in_int_range_sint [of s] by simp
    with ab s show "in_int_range (sint a + sint b + sint c) \<and> s = a + b + c"
      by (simp add: sint_sum3 sint_inject_cint [symmetric])
  qed
  then show ?thesis
    unfolding sum_x_y_z_def bind_res_Inr_iff add_int_Inr_iff
    by (auto simp: sint_plus_in_range)
qed

text \<open>
  C9. Line 38, \<open>int area = length * width\<close>: when both sides have values whose product is
  within \<open>int\<close> and \<open>area\<close> is not yet declared, the statement declares \<open>area\<close> with the
  mathematical product and changes nothing else.
\<close>

theorem decl_area_computes_product:
  assumes "rd (length_var (frame w)) = Inr l" and "rd (width (frame w)) = Inr b"
    and "area (frame w) = Undeclared" and "in_int_range (sint l * sint b)"
  shows "\<exists>p. decl_area w = Inr (w\<lparr>frame := (frame w)\<lparr>area := Holds p\<rparr>\<rparr>) \<and>
    sint p = sint l * sint b"
  using assms
  by (intro exI [of _ "l * b"]) (simp add: decl_area_def mul_int_def sint_times_in_range)

theorem decl_area_computes_product_witness:
  "\<exists>p. decl_area (sample_rect 4 6) =
       Inr ((sample_rect 4 6)\<lparr>frame := (frame (sample_rect 4 6))\<lparr>area := Holds p\<rparr>\<rparr>) \<and>
     sint p = 24"
  using decl_area_computes_product [of "sample_rect 4 6" 4 6]
  by (simp add: sample_rect_def no_locals_def int_range_defs)

text \<open>
  C10. Line 22, \<open>x = y = z = 50\<close>: whenever the chained assignment completes, each of the three
  variables holds 50, their sum is 150, and nothing has been written to the stream.
\<close>

theorem chained_assignment_sets_all_three:
  assumes "assign_x_y_z w = Inr w'"
  shows "x (frame w') = Holds 50 \<and> y (frame w') = Holds 50 \<and> z (frame w') = Holds 50 \<and>
    sum_x_y_z (frame w') = Inr 150 \<and> cout w' = cout w"
proof -
  from assms obtain sz vz sy vy sx where
    "assign 50 (z (frame w)) = Inr sz" "rd sz = Inr vz"
    "assign vz (y (frame w)) = Inr sy" "rd sy = Inr vy"
    "assign vy (x (frame w)) = Inr sx"
    and w': "w' = w\<lparr>frame := (frame w)\<lparr>z := sz, y := sy, x := sx\<rparr>\<rparr>"
    by (auto simp: assign_x_y_z_def bind_res_Inr_iff)
  then have "sz = Holds 50" "sy = Holds 50" "sx = Holds 50"
    by (auto simp: slot_Inr_iffs)
  with w' show ?thesis
    by (simp add: sum_x_y_z_def add_int_def int_range_defs)
qed

theorem chained_assignment_sets_all_three_witness:
  "\<exists>w'. assign_x_y_z sample_xyz = Inr w' \<and> sum_x_y_z (frame w') = Inr 150"
proof -
  have "is_ok (assign_x_y_z sample_xyz)"
    by (simp add: sample_xyz_def no_locals_def assign_x_y_z_def)
  then obtain w' where "assign_x_y_z sample_xyz = Inr w'"
    by (auto simp: is_ok_iff)
  with chained_assignment_sets_all_three [OF this] show ?thesis by blast
qed

text \<open>
  C16. Line 38 multiplies at the width of \<open>int\<close>: when the product of the two sides is outside
  the 32-bit range the statement has no defined result, whatever wider type could hold
  the product. The sides 65536 and 65536 are such a pair.
\<close>

theorem decl_area_overflow:
  assumes "rd (length_var (frame w)) = Inr l" and "rd (width (frame w)) = Inr b"
    and "\<not> in_int_range (sint l * sint b)"
  shows "decl_area w = Inl SignedOverflow"
  using assms by (simp add: decl_area_def mul_int_def)

theorem decl_area_overflow_witness:
  "decl_area (sample_rect 65536 65536) = Inl SignedOverflow"
  using decl_area_overflow [of "sample_rect 65536 65536" 65536 65536]
  by (simp add: sample_rect_def no_locals_def int_range_defs)

text \<open>
  The sum \<open>x+y+z\<close> is evaluated left to right, so an overflow of \<open>x+y\<close> is undefined
  even when the sum of all three is within \<open>int\<close>: with \<open>INT_MAX\<close>, 1 and -1 the expression
  has no value, while with \<open>INT_MAX\<close>, -1 and 1 it has the value \<open>INT_MAX\<close>.
\<close>

lemma intermediate_overflow_is_undefined:
  "sum_x_y_z (no_locals\<lparr>x := Holds 2147483647, y := Holds 1, z := Holds (- 1)\<rparr>) =
     Inl SignedOverflow \<and>
   sum_x_y_z (no_locals\<lparr>x := Holds 2147483647, y := Holds (- 1), z := Holds 1\<rparr>) =
     Inr 2147483647"
  by (simp add: sum_x_y_z_def no_locals_def add_int_def int_range_defs)

text \<open>
  C19. What line 19 prints can be read back: the text after the newline that the statement
  appended, parsed as a decimal integer, is the value of \<open>x+y+z\<close>.
\<close>

theorem printed_sum_reads_back:
  assumes "print_sum w = Inr w'"
  shows "Inr (word_of_int (read_int (drop (length (buf (cout w)) + 1) (buf (cout w'))))) =
    sum_x_y_z (frame w)"
  using assms by (auto simp: print_sum_Inr_iff)

theorem printed_sum_reads_back_witness:
  "\<exists>w'. print_sum sample_xyz = Inr w' \<and>
     Inr (word_of_int (read_int (drop 1 (buf (cout w'))))) = sum_x_y_z (frame sample_xyz)"
proof -
  have "is_ok (print_sum sample_xyz)"
    by (simp add: sample_xyz_def no_locals_def stmt_defs add_int_def int_range_defs)
  then obtain w' where "print_sum sample_xyz = Inr w'"
    by (auto simp: is_ok_iff)
  with printed_sum_reads_back [OF this] show ?thesis
    by (auto simp: sample_xyz_def)
qed

text \<open>
  Line 19 appends at most twelve characters: the newline, a sign and the ten digits of
  a 32-bit integer.
\<close>

lemma print_sum_length_bound:
  assumes "print_sum w = Inr w'"
  shows "length (buf (cout w')) \<le> length (buf (cout w)) + 12"
  using assms length_show_int_cint by (auto simp: print_sum_Inr_iff)

lemma print_sum_length_bound_sample:
  "\<exists>w'. print_sum sample_xyz = Inr w' \<and> length (buf (cout w')) \<le> 12"
proof -
  have "is_ok (print_sum sample_xyz)"
    by (simp add: sample_xyz_def no_locals_def stmt_defs add_int_def int_range_defs)
  then obtain w' where "print_sum sample_xyz = Inr w'"
    by (auto simp: is_ok_iff)
  with print_sum_length_bound [OF this] show ?thesis
    by (auto simp: sample_xyz_def)
qed

end
