(* ===== verification/Steps.thy ===== *)
theory Steps
  imports Variables
begin

text \<open>
  The run of \<open>main\<close> statement by statement. A configuration is a program point (the
  number of statements already executed) and the state there; a step executes the
  statement at the point. The theory relates this small-step view to \<open>exec_seq\<close>, and
  annotates every program point with the state the program is in when it gets there:
  the locals (\<open>point_frame\<close>) and the text written so far (\<open>point_text\<close>).
\<close>

section \<open>Configurations and steps\<close>

type_synonym config = "nat \<times> world"

inductive step :: "config \<Rightarrow> config \<Rightarrow> bool" where
  step_stmt: "k < length main_body \<Longrightarrow> (main_body ! k) w = Inr w' \<Longrightarrow> step (k, w) (Suc k, w')"

inductive reach :: "ostream \<Rightarrow> config \<Rightarrow> bool" for os :: ostream where
  reach_entry: "reach os (0, main_entry os)"
| reach_step: "reach os c \<Longrightarrow> step c c' \<Longrightarrow> reach os c'"

code_pred step .

inductive_cases step_cases: "step (k, w) c"

inductive_simps step_iff: "step (k, w) (k', w')"

definition run_to :: "nat \<Rightarrow> ostream \<Rightarrow> error + world" where
  "run_to k os = exec_seq (take k main_body) (main_entry os)"

definition final :: "config \<Rightarrow> bool" where
  "final c \<longleftrightarrow> fst c = length main_body"

section \<open>The state at each program point\<close>

definition point_frame :: "nat \<Rightarrow> locals" where
  "point_frame k =
     \<lparr>n = (if k < 1 then Undeclared else if k < 2 then Indeterminate else Holds 10),
      myNum = (if k < 3 then Undeclared else Holds 5),
      myFloatNum = (if k < 4 then Undeclared else Holds (double_of_rat (599 / 100))),
      myLetter = (if k < 5 then Undeclared else Holds CHR ''D''),
      myText = (if k < 6 then Undeclared else Holds ''Hello''),
      myBoolean = (if k < 7 then Undeclared else Holds True),
      x = (if k < 9 then Undeclared else if k < 11 then Holds 4 else Holds 50),
      y = (if k < 9 then Undeclared else if k < 11 then Holds 6 else Holds 50),
      z = (if k < 9 then Undeclared else if k < 11 then Holds 9 else Holds 50),
      minutesPerHour = (if k < 13 then Undeclared else Const 60),
      length_var = (if k < 15 then Undeclared else Holds 4),
      width = (if k < 16 then Undeclared else Holds 6),
      area = (if k < 17 then Undeclared else Holds 24)\<rparr>"

definition stmt_texts :: "nat \<Rightarrow> bool \<Rightarrow> string list" where
  "stmt_texts p alpha =
     [[], [], [], [], [], [], [],
      show_int 10 @ show_int 5 @ show_double p (double_of_rat (599 / 100)) @ ''D'' @
        ''Hello'' @ show_bool alpha True @ newline,
      [], newline @ show_int 19,
      [], newline @ show_int 150,
      [],
      ''##################################'' @ newline,
      [], [], [],
      ''Length is: '' @ show_int 4 @ newline,
      ''Width is: '' @ show_int 6 @ newline,
      ''Area of the rectangle is: '' @ show_int 24 @ newline]"

definition point_text :: "nat \<Rightarrow> nat \<Rightarrow> bool \<Rightarrow> string" where
  "point_text k p alpha = concat (take k (stmt_texts p alpha))"

definition point_world :: "ostream \<Rightarrow> nat \<Rightarrow> world" where
  "point_world os k =
     \<lparr>frame = point_frame k, cout = emit os (point_text k (precision os) (boolalpha os))\<rparr>"

section \<open>Steps\<close>

lemma length_main_body [simp]: "length main_body = 20"
  by (simp add: main_body_def)

lemma step_deterministic_aux: "step c c1 \<Longrightarrow> step c c2 \<Longrightarrow> c1 = c2"
  by (auto elim!: step.cases)

lemma step_pc: "step (k, w) (k', w') \<Longrightarrow> k' = Suc k \<and> k < 20"
  by (auto simp: step_iff)

lemma final_no_step: "final c \<Longrightarrow> \<not> step c c'"
  by (auto simp: final_def elim!: step.cases)

section \<open>Small steps and runs of prefixes\<close>

lemma exec_seq_single_fun [simp]: "exec_seq [c] = c"
  by (rule ext) simp

lemma exec_seq_take_Suc:
  "k < length cs \<Longrightarrow>
   exec_seq (take (Suc k) cs) w = bind_res (exec_seq (take k cs) w) (cs ! k)"
  by (simp add: take_Suc_conv_app_nth exec_seq_append)

lemma run_to_0 [simp]: "run_to 0 os = Inr (main_entry os)"
  by (simp add: run_to_def)

lemma run_to_Suc:
  "k < 20 \<Longrightarrow> run_to (Suc k) os = bind_res (run_to k os) (main_body ! k)"
  by (simp add: run_to_def exec_seq_take_Suc)

lemma reach_run_to: "reach os c \<Longrightarrow> fst c \<le> 20 \<and> run_to (fst c) os = Inr (snd c)"
proof (induction rule: reach.induct)
  case reach_entry
  show ?case by simp
next
  case (reach_step c c')
  then show ?case
    by (auto simp: run_to_Suc elim!: step.cases)
qed

lemma run_to_reach: "k \<le> 20 \<Longrightarrow> run_to k os = Inr w \<Longrightarrow> reach os (k, w)"
proof (induction k arbitrary: w)
  case 0
  then show ?case by (auto intro: reach_entry)
next
  case (Suc k)
  then obtain u where u: "run_to k os = Inr u" and w: "(main_body ! k) u = Inr w"
    by (auto simp: run_to_Suc bind_res_Inr_iff)
  from Suc u have "reach os (k, u)" by simp
  moreover from Suc.prems w have "step (k, u) (Suc k, w)"
    by (auto intro: step_stmt)
  ultimately show ?case by (rule reach_step)
qed

lemma reach_iff_run_to: "reach os (k, w) \<longleftrightarrow> k \<le> 20 \<and> run_to k os = Inr w"
  by (auto dest: reach_run_to intro: run_to_reach)

section \<open>The annotation is what the program does\<close>

lemma point_world_0: "point_world os 0 = main_entry os"
  by (simp add: point_world_def point_frame_def point_text_def main_entry_def no_locals_def)

lemma upt_0_20: "[0..<20] = [0, 1, 2, 3, 4, 5, 6, 7, 8, 9, 10, 11, 12, 13, 14, 15, 16, 17, 18, 19]"
  by code_simp

lemma point_steps:
  "list_all (\<lambda>k. (main_body ! k) (point_world os k) = Inr (point_world os (Suc k))) [0..<20]"
  by (simp add: upt_0_20 main_body_def point_world_def point_frame_def point_text_def
      stmt_texts_def stmt_defs put_defs add_int_def mul_int_def int_range_defs emit_def)

lemma point_step:
  "k < 20 \<Longrightarrow> (main_body ! k) (point_world os k) = Inr (point_world os (Suc k))"
  using point_steps [of os] by (simp add: list_all_iff)

lemma run_to_point: "k \<le> 20 \<Longrightarrow> run_to k os = Inr (point_world os k)"
  by (induction k) (simp_all add: point_world_0 run_to_Suc point_step)

lemma reach_point: "reach os (k, w) \<longleftrightarrow> k \<le> 20 \<and> w = point_world os k"
  by (auto simp: reach_iff_run_to run_to_point)

lemma frame_point_world [simp]: "frame (point_world os k) = point_frame k"
  by (simp add: point_world_def)

lemma buf_point_world [simp]:
  "buf (cout (point_world os k)) = buf os @ point_text k (precision os) (boolalpha os)"
  by (simp add: point_world_def)

lemma step_point: "k < 20 \<Longrightarrow> step (k, point_world os k) (Suc k, point_world os (Suc k))"
  by (auto intro: step_stmt point_step)

lemma steps_to_final:
  "k \<le> 20 \<Longrightarrow> rtranclp step (k, point_world os k) (20, point_world os 20)"
proof (induction k rule: inc_induct)
  case base
  show ?case by simp
next
  case (step k)
  then have "step (k, point_world os k) (Suc k, point_world os (Suc k))"
    by (auto intro: step_stmt point_step)
  with step show ?case
    by (blast intro: converse_rtranclp_into_rtranclp)
qed

lemma prefix_take_concat: "j \<le> k \<Longrightarrow> prefix (concat (take j xss)) (concat (take k xss))"
proof -
  assume "j \<le> k"
  then have "take j xss = take j (take k xss)" by (simp add: min_def)
  then have "prefix (take j xss) (take k xss)" by (metis take_is_prefix)
  then show ?thesis by (auto simp: prefix_def)
qed

lemma point_text_mono: "j \<le> k \<Longrightarrow> prefix (point_text j p alpha) (point_text k p alpha)"
  unfolding point_text_def by (rule prefix_take_concat)

lemma prefix_point_text:
  "prefix (point_text k p alpha) (point_text 20 p alpha)"
proof (cases "k \<le> 20")
  case True
  then show ?thesis by (rule point_text_mono)
next
  case False
  then show ?thesis by (simp add: point_text_def stmt_texts_def)
qed

lemma step_extends_output:
  assumes "reach os c" and "step c c'"
  shows "prefix (buf (cout (snd c))) (buf (cout (snd c')))"
proof -
  obtain k w k' w' where c: "c = (k, w)" "c' = (k', w')" by (cases c; cases c')
  with assms have "k' = Suc k" and "reach os (k', w')"
    by (auto dest: step_pc intro: reach_step)
  with assms c show ?thesis
    by (simp add: reach_point point_text_mono)
qed

section \<open>Properties of the run, point by point\<close>


text \<open>
  C24. The annotation of the program points is exact: the state in which \<open>main\<close> arrives at
  point \<open>k\<close> is the annotated one, with every local as \<open>point_frame\<close> gives it and the stream
  extended by the text of the statements before \<open>k\<close>, and no other state is reachable there.
\<close>

theorem reachable_states:
  "reach os (k, w) \<longleftrightarrow>
     k \<le> 20 \<and> frame w = point_frame k \<and>
     cout w = emit os (point_text k (precision os) (boolalpha os))"
  by (cases w) (auto simp: reach_iff_run_to run_to_point point_world_def)

text \<open>
  C25. Progress: at every reachable program point before the end, the next statement
  executes without error and leads to the annotated state of the next point.
\<close>

theorem progress:
  assumes "reach os (k, w)" and "k < 20"
  shows "step (k, w) (Suc k, point_world os (Suc k))"
  using assms by (auto simp: reach_point intro: step_stmt point_step)

theorem progress_witness:
  "step (8, point_world cout_init 8) (9, point_world cout_init 9)"
  using progress [of cout_init 8 "point_world cout_init 8"] by (simp add: reach_point)

text \<open>
  C26. Termination: from every reachable configuration the run continues, step by step, to a
  final configuration at the end of the body, from which no further step is possible.
\<close>

theorem run_terminates:
  assumes "reach os c"
  shows "\<exists>c'. rtranclp step c c' \<and> final c' \<and> (\<forall>d. \<not> step c' d)"
proof -
  obtain k w where c: "c = (k, w)" by (cases c)
  with assms have k: "k \<le> 20" and w: "w = point_world os k"
    by (simp_all add: reach_point)
  have "final (20, point_world os 20)"
    by (simp add: final_def)
  with steps_to_final [OF k, of os] c w show ?thesis
    by (blast dest: final_no_step)
qed

theorem run_terminates_witness:
  "\<exists>c'. rtranclp step (0, main_entry cout_init) c' \<and> final c' \<and> (\<forall>d. \<not> step c' d)"
  using run_terminates [of cout_init "(0, main_entry cout_init)"] by (simp add: reach_entry)

text \<open>
  The value of \<open>x+y+z\<close> at every program point: the names are not in scope before the
  declaration of line 18, the sum is 19 from there up to the chained assignment of line
  22, and 150 from then on.
\<close>

lemma sum_at_every_point:
  assumes "reach os (k, w)"
  shows "sum_x_y_z (frame w) =
    (if k < 9 then Inl NotDeclared else if k < 11 then Inr 19 else Inr 150)"
  using assms
  by (simp add: reach_point point_frame_def sum_x_y_z_def add_int_def int_range_defs)

lemma sum_at_every_point_sample:
  "sum_x_y_z (frame (point_world cout_init 10)) = Inr 19"
  using sum_at_every_point [of cout_init 10 "point_world cout_init 10"]
  by (simp add: reach_point)

text \<open>
  C28. The only read-before-write hazard of the program: a variable is in scope without a
  value at exactly one program point, between the declaration of \<open>n\<close> on line 6 and the
  assignment on line 7. At every other point the names in scope are the names with a value.
\<close>

theorem indeterminate_only_after_line_6:
  assumes "reach os (k, w)"
  shows "declared (frame w) = initialised (frame w) \<longleftrightarrow> k \<noteq> 1"
  using assms
  by (auto simp: reach_point point_frame_def declared_def initialised_def names_def)

theorem indeterminate_only_after_line_6_witness:
  "declared (frame (point_world cout_init 1)) \<noteq> initialised (frame (point_world cout_init 1))"
  using indeterminate_only_after_line_6 [of cout_init 1 "point_world cout_init 1"]
  by (simp add: reach_point)

text \<open>
  What has been written at any program point is a prefix of what the program has written
  when it ends: output is never retracted or rewritten.
\<close>

lemma output_is_prefix_of_final:
  assumes "reach os (k, w)"
  shows "prefix (buf (cout w)) (buf (cout (point_world os 20)))"
  using assms by (simp add: reach_point prefix_point_text)

lemma output_is_prefix_of_final_sample:
  "prefix (buf (cout (point_world cout_init 12))) (buf (cout (point_world cout_init 20)))"
  using output_is_prefix_of_final [of cout_init 12 "point_world cout_init 12"]
  by (simp add: reach_point)

end
