(* ===== verification/Process.thy ===== *)
theory Process
  imports Steps
begin

text \<open>
  The program as a process. Before \<open>main\<close> is entered the standard streams are constructed
  (the effect of including \<open><iostream>\<close> on line 1), so \<open>main\<close> starts with \<open>cout\<close> in its
  initial state and nothing on standard output. While \<open>main\<close> runs, the characters given to
  \<open>cout\<close> reach standard output at moments the program does not choose: the stream may pass
  on any part of what it holds at any time. \<open>return 0\<close> on line 45 leaves \<open>main\<close>, and the exit
  that follows writes whatever the stream still holds and gives the operating system the
  low eight bits of the returned value. The theory shows that the moments at which the
  stream writes change nothing of what the process has written when it ends, that what is
  on standard output at any moment is a prefix of that text, and that every run ends.
\<close>

section \<open>States and steps of the process\<close>

datatype proc =
    Startup
  | Running config string
  | Returned cint ostream string
  | Exited nat string

datatype action = Start | Stmt | Flush nat | Return | Exit

definition exit_status :: "cint \<Rightarrow> nat" where
  "exit_status v = unat v mod 256"

definition held :: "ostream \<Rightarrow> string \<Rightarrow> string" where
  "held os out = drop (length out) (buf os)"

fun perform :: "action \<Rightarrow> proc \<Rightarrow> proc option" where
  "perform Start Startup = Some (Running (0, main_entry cout_init) [])"
| "perform Stmt (Running (k, w) out) =
     (if k < length main_body
      then (case (main_body ! k) w of Inl e \<Rightarrow> None | Inr w' \<Rightarrow> Some (Running (Suc k, w') out))
      else None)"
| "perform (Flush j) (Running (k, w) out) =
     (if 0 < j \<and> j \<le> length (held (cout w) out)
      then Some (Running (k, w) (out @ take j (held (cout w) out)))
      else None)"
| "perform Return (Running (k, w) out) =
     (if final (k, w) then Some (Returned 0 (cout w) out) else None)"
| "perform Exit (Returned v os out) = Some (Exited (exit_status v) (out @ held os out))"
| "perform a p = None"

inductive pstep :: "proc \<Rightarrow> proc \<Rightarrow> bool" where
  p_perform: "perform a p = Some q \<Longrightarrow> pstep p q"

fun run_schedule :: "action list \<Rightarrow> proc \<Rightarrow> proc option" where
  "run_schedule [] p = Some p"
| "run_schedule (a # as) p = Option.bind (perform a p) (run_schedule as)"

fun written :: "proc \<Rightarrow> string" where
  "written Startup = []"
| "written (Running c out) = out"
| "written (Returned v os out) = out"
| "written (Exited s out) = out"

fun exited :: "proc \<Rightarrow> bool" where
  "exited (Exited s out) = True"
| "exited p = False"

section \<open>The five kinds of step\<close>

lemma perform_Some_iff:
  "perform a p = Some q \<longleftrightarrow>
     (a = Start \<and> p = Startup \<and> q = Running (0, main_entry cout_init) []) \<or>
     (\<exists>c c' out. a = Stmt \<and> p = Running c out \<and> step c c' \<and> q = Running c' out) \<or>
     (\<exists>j k w out. a = Flush j \<and> p = Running (k, w) out \<and> 0 < j \<and>
        j \<le> length (held (cout w) out) \<and> q = Running (k, w) (out @ take j (held (cout w) out))) \<or>
     (\<exists>c out. a = Return \<and> p = Running c out \<and> final c \<and> q = Returned 0 (cout (snd c)) out) \<or>
     (\<exists>v os out. a = Exit \<and> p = Returned v os out \<and>
        q = Exited (exit_status v) (out @ held os out))"
  by (cases "(a, p)" rule: perform.cases)
    (auto simp: step_iff split: sum.splits)

lemma p_start: "pstep Startup (Running (0, main_entry cout_init) [])"
  by (auto intro: p_perform [of Start])

lemma p_stmt: "step c c' \<Longrightarrow> pstep (Running c out) (Running c' out)"
  by (rule p_perform [of Stmt]) (cases c', simp add: perform_Some_iff)

lemma p_flush:
  "0 < j \<Longrightarrow> j \<le> length (held (cout w) out) \<Longrightarrow>
   pstep (Running (k, w) out) (Running (k, w) (out @ take j (held (cout w) out)))"
  by (auto intro: p_perform [of "Flush j"])

lemma p_return: "final c \<Longrightarrow> pstep (Running c out) (Returned 0 (cout (snd c)) out)"
  by (rule p_perform [of Return]) (cases c, simp add: perform_Some_iff)

lemma p_exit: "pstep (Returned v os out) (Exited (exit_status v) (out @ held os out))"
  by (auto intro: p_perform [of Exit])

lemma pstep_cases [consumes 1, case_names start stmt flush return exit]:
  assumes "pstep p q"
  obtains "p = Startup" and "q = Running (0, main_entry cout_init) []"
  | c c' out where "p = Running c out" and "q = Running c' out" and "step c c'"
  | j c out where "p = Running c out" and "0 < j" and "j \<le> length (held (cout (snd c)) out)"
      and "q = Running c (out @ take j (held (cout (snd c)) out))"
  | c out where "p = Running c out" and "final c" and "q = Returned 0 (cout (snd c)) out"
  | v os out where "p = Returned v os out" and "q = Exited (exit_status v) (out @ held os out)"
  using assms by (auto simp: pstep.simps perform_Some_iff)

lemma held_prefix: "prefix out (buf os) \<Longrightarrow> out @ held os out = buf os"
  by (auto simp: held_def prefix_def)

lemma flush_prefix:
  assumes "prefix out (buf os)" and "j \<le> length (held os out)"
  shows "prefix (out @ take j (held os out)) (buf os)"
proof -
  have "prefix (out @ take j (held os out)) (out @ held os out)"
    by (simp add: take_is_prefix)
  with assms(1) show ?thesis by (simp add: held_prefix)
qed

section \<open>The states a run passes through\<close>

text \<open>
  \<open>proc_inv\<close> describes the states of a run from \<open>Startup\<close>: inside \<open>main\<close> the configuration
  is one that \<open>main\<close> reaches from the initial stream and the output is a prefix of what has
  been given to the stream; after the return the value is 0 and the stream holds the whole
  text; after the exit the status is 0 and the whole text is on standard output.
  \<open>todo\<close> counts what is left to do: statements to execute, characters to write, and the
  two steps that end the process.
\<close>

fun proc_inv :: "proc \<Rightarrow> bool" where
  "proc_inv Startup = True"
| "proc_inv (Running c out) = (reach cout_init c \<and> prefix out (buf (cout (snd c))))"
| "proc_inv (Returned v os out) =
     (v = 0 \<and> os = cout (point_world cout_init 20) \<and> prefix out (buf os))"
| "proc_inv (Exited s out) = (s = 0 \<and> out = point_text 20 6 False)"

fun todo :: "proc \<Rightarrow> nat" where
  "todo Startup = 23 + length (point_text 20 6 False)"
| "todo (Running c out) = 2 + (20 - fst c) + (length (point_text 20 6 False) - length out)"
| "todo (Returned v os out) = 1"
| "todo (Exited s out) = 0"

lemma exit_status_0 [simp]: "exit_status 0 = 0"
  by (simp add: exit_status_def)

lemma exit_status_less: "exit_status v < 256"
  by (simp add: exit_status_def)

lemma reach_buf_prefix:
  "reach cout_init c \<Longrightarrow> prefix (buf (cout (snd c))) (point_text 20 6 False)"
  by (cases c) (simp add: reach_point prefix_point_text)

lemma proc_inv_step:
  assumes "proc_inv p" and "pstep p q"
  shows "proc_inv q"
  using assms(2)
proof (cases rule: pstep_cases)
  case start
  then show ?thesis by (simp add: reach_entry)
next
  case (stmt c c' out)
  with assms(1) have "reach cout_init c'" by (auto intro: reach_step)
  moreover have "prefix (buf (cout (snd c))) (buf (cout (snd c')))"
    using stmt assms(1) by (auto intro: step_extends_output)
  ultimately show ?thesis using stmt assms(1) by auto
next
  case (flush j c out)
  with assms(1) show ?thesis by (simp add: flush_prefix)
next
  case (return c out)
  with assms(1) show ?thesis by (cases c) (simp add: final_def reach_point)
next
  case (exit v os out)
  with assms(1) have "prefix out (buf os)" by auto
  then have "out @ held os out = buf os" by (rule held_prefix)
  with exit assms(1) show ?thesis by simp
qed

lemma proc_inv_reachable: "rtranclp pstep Startup p \<Longrightarrow> proc_inv p"
  by (induction rule: rtranclp_induct) (auto intro: proc_inv_step)

section \<open>Every run ends\<close>

lemma pstep_next:
  assumes "proc_inv p" and "\<not> exited p"
  shows "\<exists>q. pstep p q"
proof (cases p)
  case Startup
  then show ?thesis by (blast intro: p_start)
next
  case (Running c out)
  obtain k w where c: "c = (k, w)" by (cases c)
  with assms Running have k: "k \<le> 20" and w: "w = point_world cout_init k"
    by (simp_all add: reach_point)
  show ?thesis
  proof (cases "k = 20")
    case True
    with c have "final c" by (simp add: final_def)
    with Running show ?thesis by (blast intro: p_return)
  next
    case False
    with k w c have "step c (Suc k, point_world cout_init (Suc k))"
      by (simp add: step_point)
    with Running show ?thesis by (blast intro: p_stmt)
  qed
next
  case (Returned v os out)
  then show ?thesis by (blast intro: p_exit)
next
  case (Exited s out)
  with assms show ?thesis by simp
qed

lemma pstep_todo:
  assumes "proc_inv p" and "pstep p q"
  shows "todo q < todo p"
  using assms(2)
proof (cases rule: pstep_cases)
  case (stmt c c' out)
  then show ?thesis by (cases c; cases c') (auto dest!: step_pc)
next
  case (flush j c out)
  with assms(1) have "prefix (out @ take j (held (cout (snd c)) out)) (point_text 20 6 False)"
    using reach_buf_prefix [of c] by (auto dest: flush_prefix)
  then have "length out + min (length (held (cout (snd c)) out)) j
      \<le> length (point_text 20 6 False)"
    by (auto dest: prefix_length_le)
  with flush show ?thesis by simp
qed simp_all

lemma exit_inevitable:
  assumes "proc_inv p"
  shows "inevitable pstep (\<lambda>q. q = Exited 0 (point_text 20 6 False)) p"
  using assms
proof (rule inevitable_measure [where f = todo and I = proc_inv])
  fix p assume "proc_inv p" and "p \<noteq> Exited 0 (point_text 20 6 False)"
  then have "\<not> exited p" by (cases p) auto
  with \<open>proc_inv p\<close> show "\<exists>q. pstep p q" by (rule pstep_next)
next
  fix p q assume "proc_inv p" and "pstep p q"
  then show "proc_inv q \<and> todo q < todo p"
    by (simp add: proc_inv_step pstep_todo)
qed

lemma exited_no_step: "exited p \<Longrightarrow> \<not> pstep p q"
  by (cases p) (auto elim: pstep_cases)

section \<open>What is on standard output\<close>

lemma written_prefix:
  "rtranclp pstep Startup p \<Longrightarrow> prefix (written p) (point_text 20 6 False)"
proof -
  assume "rtranclp pstep Startup p"
  then have "proc_inv p" by (rule proc_inv_reachable)
  then show ?thesis
    by (cases p) (auto simp: prefix_point_text dest: reach_buf_prefix prefix_order.trans)
qed

lemma written_grows:
  assumes "proc_inv p" and "pstep p q"
  shows "prefix (written p) (written q)"
  using assms(2) by (cases rule: pstep_cases) simp_all

lemma exited_iff:
  "rtranclp pstep Startup (Exited s out) \<longleftrightarrow> s = 0 \<and> out = point_text 20 6 False"
proof
  assume "rtranclp pstep Startup (Exited s out)"
  then show "s = 0 \<and> out = point_text 20 6 False"
    by (auto dest: proc_inv_reachable)
next
  assume "s = 0 \<and> out = point_text 20 6 False"
  moreover have "\<exists>q. rtranclp pstep Startup q \<and> q = Exited 0 (point_text 20 6 False)"
    by (rule inevitable_reachable) (simp add: exit_inevitable)
  ultimately show "rtranclp pstep Startup (Exited s out)" by simp
qed

section \<open>Schedules\<close>

text \<open>
  A schedule is the list of actions of a run. The runs of the step relation are the runs
  of schedules, so a statement about all runs is a statement about all schedules. The
  schedule \<open>late_schedule\<close> writes nothing before the exit.
\<close>

definition late_schedule :: "action list" where
  "late_schedule = Start # replicate 20 Stmt @ [Return, Exit]"

lemma run_schedule_append:
  "run_schedule (as @ bs) p = Option.bind (run_schedule as p) (run_schedule bs)"
  by (induction as arbitrary: p) (auto split: Option.bind_splits)

lemma run_schedule_steps: "run_schedule as p = Some q \<Longrightarrow> rtranclp pstep p q"
proof (induction as arbitrary: p)
  case Nil
  then show ?case by simp
next
  case (Cons a as)
  then obtain u where "perform a p = Some u" and "run_schedule as u = Some q"
    by (auto split: Option.bind_splits)
  with Cons.IH show ?case
    by (blast intro: p_perform converse_rtranclp_into_rtranclp)
qed

lemma steps_run_schedule: "rtranclp pstep p q \<Longrightarrow> \<exists>as. run_schedule as p = Some q"
proof (induction rule: rtranclp_induct)
  case base
  have "run_schedule [] p = Some p" by simp
  then show ?case by blast
next
  case (step u q)
  then obtain as a where "run_schedule as p = Some u" and "perform a u = Some q"
    by (auto simp: pstep.simps)
  then have "run_schedule (as @ [a]) p = Some q"
    by (simp add: run_schedule_append)
  then show ?case by blast
qed

lemma run_stmts:
  "k + j \<le> 20 \<Longrightarrow>
   run_schedule (replicate j Stmt) (Running (k, point_world cout_init k) out) =
     Some (Running (k + j, point_world cout_init (k + j)) out)"
  by (induction j arbitrary: k) (simp_all add: point_step)

lemma run_late_schedule:
  "run_schedule late_schedule Startup = Some (Exited 0 (point_text 20 6 False))"
  using run_stmts [of 0 20 "[]"]
  by (simp add: late_schedule_def run_schedule_append point_world_0 final_def held_def)

lemma run_partial:
  "k \<le> 20 \<Longrightarrow> 0 < j \<Longrightarrow> j \<le> length (point_text k 6 False) \<Longrightarrow>
   run_schedule (Start # replicate k Stmt @ [Flush j]) Startup =
     Some (Running (k, point_world cout_init k) (take j (point_text k 6 False)))"
  using run_stmts [of 0 k "[]"]
  by (simp add: run_schedule_append point_world_0 held_def)

lemma schedule_independent:
  assumes "run_schedule as Startup = Some (Exited s out)"
  shows "run_schedule as Startup = run_schedule late_schedule Startup"
  using proc_inv_reachable [OF run_schedule_steps [OF assms]] assms
  by (simp add: run_late_schedule)

section \<open>Writing early or late\<close>

text \<open>
  A write that is possible before a statement is still possible after it, and the two
  orders lead to the same state: the stream may hold back what it has, but the statement
  does not depend on it.
\<close>

lemma flush_after_stmt:
  assumes "perform (Flush j) (Running c out) = Some (Running c out')" and "step c c'"
    and "proc_inv (Running c out)"
  shows "perform (Flush j) (Running c' out) = Some (Running c' out')"
proof -
  obtain k w k' w' where c: "c = (k, w)" "c' = (k', w')" by (cases c; cases c')
  from assms(3) have out: "prefix out (buf (cout w))" by (simp add: c)
  moreover from assms(2,3) have "prefix (buf (cout w)) (buf (cout w'))"
    using step_extends_output [of cout_init c c'] by (simp add: c)
  ultimately obtain r t where r: "buf (cout w) = out @ r" and t: "buf (cout w') = out @ r @ t"
    by (auto simp: prefix_def)
  from assms(1) have "0 < j" and "j \<le> length r" and "out' = out @ take j r"
    by (auto simp: c held_def r split: if_splits)
  then show ?thesis
    by (simp add: c held_def t)
qed

lemma stmt_after_flush:
  assumes "perform (Flush j) (Running c out) = Some (Running c out')"
    and "perform Stmt (Running c out) = Some (Running c' out)"
  shows "perform Stmt (Running c out') = Some (Running c' out')"
  using assms by (cases c) (auto split: if_splits sum.splits)

end
