(* ===== verification/Identifiers.thy ===== *)
theory Identifiers
  imports Variables
begin

text \<open>
  The rule for names that the comment of line 25 of the source states: a name consists of
  the letters \<open>A-Z\<close> and \<open>a-z\<close>, the digits \<open>0-9\<close> and the underscore, and does not start
  with a digit. The theory states the rule as a predicate on strings and shows that the
  names of the locals of \<open>main\<close> obey it, whichever of them are in scope, and that none of
  them hides a name that \<open>main\<close> takes from the namespace \<open>std\<close> (line 2).
\<close>

section \<open>The rule\<close>

definition is_upper :: "char \<Rightarrow> bool" where
  "is_upper c \<longleftrightarrow> (65 :: nat) \<le> of_char c \<and> of_char c \<le> (90 :: nat)"

definition is_lower :: "char \<Rightarrow> bool" where
  "is_lower c \<longleftrightarrow> (97 :: nat) \<le> of_char c \<and> of_char c \<le> (122 :: nat)"

definition is_ident_char :: "char \<Rightarrow> bool" where
  "is_ident_char c \<longleftrightarrow> is_upper c \<or> is_lower c \<or> is_digit c \<or> c = CHR ''_''"

definition valid_identifier :: "string \<Rightarrow> bool" where
  "valid_identifier s =
     (case s of [] \<Rightarrow> False | c # cs \<Rightarrow> \<not> is_digit c \<and> list_all is_ident_char s)"

definition var_names :: "string list" where
  "var_names =
     [''n'', ''myNum'', ''myFloatNum'', ''myLetter'', ''myText'', ''myBoolean'',
      ''x'', ''y'', ''z'', ''minutesPerHour'', ''length'', ''width'', ''area'']"

definition std_names :: "string list" where
  "std_names = [''cout'', ''string'']"

lemmas char_class_defs = is_upper_def is_lower_def is_digit_def is_ident_char_def

section \<open>Shape of valid names\<close>

lemma valid_identifier_Nil [simp]: "\<not> valid_identifier []"
  by (simp add: valid_identifier_def)

lemma valid_identifier_Cons [simp]:
  "valid_identifier (c # cs) \<longleftrightarrow>
     \<not> is_digit c \<and> is_ident_char c \<and> list_all is_ident_char cs"
  by (simp add: valid_identifier_def)

lemma valid_identifier_start:
  "valid_identifier s \<Longrightarrow> is_upper (hd s) \<or> is_lower (hd s) \<or> hd s = CHR ''_''"
  by (cases s) (auto simp: is_ident_char_def)

lemma valid_identifier_append:
  "valid_identifier s \<Longrightarrow> list_all is_ident_char t \<Longrightarrow> valid_identifier (s @ t)"
  by (cases s) simp_all

lemma valid_identifier_chars: "valid_identifier s \<Longrightarrow> c \<in> set s \<Longrightarrow> is_ident_char c"
  by (cases s) (auto simp: list_all_iff)

lemma minus_not_ident_char [simp]: "\<not> is_ident_char CHR ''-''"
  by (simp add: char_class_defs)

lemma keywords_pass_the_rule:
  "valid_identifier ''int''" "valid_identifier ''const''" "valid_identifier ''double''"
  by (simp_all add: char_class_defs)

section \<open>The names of the program\<close>



lemma subseq_name_if: "subseq xs ys \<Longrightarrow> subseq (name_if nm b @ xs) (nm # ys)"
  by (cases b) (auto intro: list_emb_Cons)

lemma subseq_name_if_last: "subseq (name_if nm b) [nm]"
  by (cases b) simp_all

lemma names_subseq: "subseq (names sel f) var_names"
  unfolding names_def var_names_def
  by (intro subseq_name_if subseq_name_if_last)

section \<open>The names taken from the namespace std\<close>

text \<open>
  The directive \<open>using namespace std\<close> of line 2 lets \<open>main\<close> write \<open>cout\<close> and \<open>string\<close> without
  qualification. A local variable of the same name would hide the name of the library from
  its declaration on; no variable of \<open>main\<close> does.
\<close>

lemma std_names_valid: "list_all valid_identifier std_names"
  by (simp add: std_names_def char_class_defs)

lemma std_names_not_declared: "set var_names \<inter> set std_names = {}"
  by (simp add: var_names_def std_names_def)

lemma std_names_never_hidden: "set (declared f) \<inter> set std_names = {}"
  using names_subseq [of "\<lambda>s r. s" f] std_names_not_declared
  by (auto simp: declared_def dest!: subseq_set_subset)


text \<open>
  The text that \<open>operator<<\<close> writes for an \<open>int\<close> is never a name: it starts with a digit
  or a minus sign.
\<close>

lemma printed_int_is_not_a_name:
  "\<not> valid_identifier (show_int i)"
proof (cases "0 \<le> i")
  case True
  then show ?thesis
    using hd_dec_nat_is_digit [of "nat i"]
    by (cases "dec_nat (nat i)") (simp_all add: show_int_nonneg)
next
  case False
  then show ?thesis
    by (simp add: show_int_neg)
qed

end
