(* ===== verification/Language.thy ===== *)
theory Language
  imports Storage Ostream
begin

text \<open>
  The fragment of C++ in which the program is written, as syntax with its meaning:
  literals, names, \<open>+\<close>, \<open>*\<close> and \<open>=\<close> as expressions; declarations (with and without
  initialiser, several declarators in one declaration, \<open>const\<close>), expression statements,
  output statements \<open>cout << e1 << ... << ek\<close> and \<open>return\<close> as statements. Values carry their
  type; the variables are named objects with a declared type and a slot of theory
  \<open>Storage\<close>. Evaluation goes left to right and threads the variables through, because an
  assignment is an expression. The operators are defined on \<open>int\<close> only, and the only
  conversion is the construction of a \<open>std::string\<close> from a string literal; every other
  combination is the error \<open>IllTyped\<close>, which the checker of theory \<open>Typing\<close> excludes.
  The width of \<open>int\<close> is a parameter \<open>w\<close> of the meaning: an \<open>int\<close> value is a mathematical
  integer within \<open>in_width w\<close>, and an operation whose result leaves that range is a signed
  overflow. This makes it possible to say what the program does on an implementation
  whose \<open>int\<close> does not have 32 bits.
\<close>

section \<open>Types and values\<close>

datatype ty = TInt | TDouble | TChar | TString | TBool | TArray

datatype val =
    VInt int
  | VDouble double
  | VChar char
  | VString string
  | VBool bool
  | VArray char_array

fun type_of :: "val \<Rightarrow> ty" where
  "type_of (VInt i) = TInt"
| "type_of (VDouble d) = TDouble"
| "type_of (VChar c) = TChar"
| "type_of (VString s) = TString"
| "type_of (VBool b) = TBool"
| "type_of (VArray a) = TArray"

section \<open>Syntax\<close>

datatype exp =
    IntLit int
  | FloatLit rat
  | CharLit char
  | StrLit string
  | BoolLit bool
  | Var string
  | Add exp exp
  | Mul exp exp
  | Asg string exp

datatype com =
    Decl ty "(string \<times> exp option) list"
  | ConstDecl ty string exp
  | ExprStmt exp
  | Cout "exp list"
  | Return exp

section \<open>Variables\<close>

record object =
  otype :: ty
  oslot :: "val slot"

type_synonym env = "string \<Rightarrow> object option"

record cstate =
  denv :: env
  dout :: ostream

definition slot_of :: "env \<Rightarrow> string \<Rightarrow> val slot" where
  "slot_of E v = (case E v of None \<Rightarrow> Undeclared | Some ob \<Rightarrow> oslot ob)"

definition set_obj :: "env \<Rightarrow> string \<Rightarrow> ty \<Rightarrow> val slot \<Rightarrow> env" where
  "set_obj E v t s = E(v \<mapsto> \<lparr>otype = t, oslot = s\<rparr>)"

section \<open>Operators and conversions\<close>

fun add_val :: "nat \<Rightarrow> val \<Rightarrow> val \<Rightarrow> error + val" where
  "add_val w (VInt a) (VInt b) =
     (if in_width w (a + b) then Inr (VInt (a + b)) else Inl SignedOverflow)"
| "add_val w a b = Inl IllTyped"

fun mul_val :: "nat \<Rightarrow> val \<Rightarrow> val \<Rightarrow> error + val" where
  "mul_val w (VInt a) (VInt b) =
     (if in_width w (a * b) then Inr (VInt (a * b)) else Inl SignedOverflow)"
| "mul_val w a b = Inl IllTyped"

fun convert :: "ty \<Rightarrow> val \<Rightarrow> error + val" where
  "convert TString (VArray a) = bind_res (string_of_cstr a) (\<lambda>s. Inr (VString s))"
| "convert t a = (if type_of a = t then Inr a else Inl IllTyped)"

fun insert_val :: "ostream \<Rightarrow> val \<Rightarrow> error + ostream" where
  "insert_val os (VInt i) = Inr (emit os (show_int i))"
| "insert_val os (VDouble d) = Inr (put_double os d)"
| "insert_val os (VChar c) = Inr (put_char os c)"
| "insert_val os (VString s) = Inr (put_str os s)"
| "insert_val os (VBool b) = Inr (put_bool os b)"
| "insert_val os (VArray a) = put_cstr os a"

section \<open>Meaning of expressions\<close>

fun eval :: "nat \<Rightarrow> exp \<Rightarrow> env \<Rightarrow> error + (val \<times> env)" where
  "eval w (IntLit i) E =
     (if in_width w i then Inr (VInt i, E) else Inl IllTyped)"
| "eval w (FloatLit q) E = Inr (VDouble (double_of_rat q), E)"
| "eval w (CharLit c) E = Inr (VChar c, E)"
| "eval w (StrLit s) E = Inr (VArray (literal s), E)"
| "eval w (BoolLit b) E = Inr (VBool b, E)"
| "eval w (Var v) E = bind_res (rd (slot_of E v)) (\<lambda>a. Inr (a, E))"
| "eval w (Add e1 e2) E =
     bind_res (eval w e1 E) (\<lambda>(a, E1).
     bind_res (eval w e2 E1) (\<lambda>(b, E2).
     bind_res (add_val w a b) (\<lambda>c. Inr (c, E2))))"
| "eval w (Mul e1 e2) E =
     bind_res (eval w e1 E) (\<lambda>(a, E1).
     bind_res (eval w e2 E1) (\<lambda>(b, E2).
     bind_res (mul_val w a b) (\<lambda>c. Inr (c, E2))))"
| "eval w (Asg v e) E =
     bind_res (eval w e E) (\<lambda>(a, E1).
     case E1 v of
       None \<Rightarrow> Inl NotDeclared
     | Some ob \<Rightarrow>
         bind_res (convert (otype ob) a) (\<lambda>b.
         bind_res (assign b (oslot ob)) (\<lambda>s.
         bind_res (rd s) (\<lambda>r. Inr (r, set_obj E1 v (otype ob) s)))))"

section \<open>Meaning of statements\<close>

fun declarator :: "nat \<Rightarrow> ty \<Rightarrow> string \<times> exp option \<Rightarrow> env \<Rightarrow> error + env" where
  "declarator w t (v, None) E =
     bind_res (declare_uninit (slot_of E v)) (\<lambda>s. Inr (set_obj E v t s))"
| "declarator w t (v, Some e) E =
     bind_res (eval w e E) (\<lambda>(a, E1).
     bind_res (convert t a) (\<lambda>b.
     bind_res (declare_init b (slot_of E1 v)) (\<lambda>s. Inr (set_obj E1 v t s))))"

fun declarators :: "nat \<Rightarrow> ty \<Rightarrow> (string \<times> exp option) list \<Rightarrow> env \<Rightarrow> error + env" where
  "declarators w t [] E = Inr E"
| "declarators w t (d # ds) E = bind_res (declarator w t d E) (declarators w t ds)"

fun insert_all :: "nat \<Rightarrow> exp list \<Rightarrow> cstate \<Rightarrow> error + cstate" where
  "insert_all w [] s = Inr s"
| "insert_all w (e # es) s =
     bind_res (eval w e (denv s)) (\<lambda>(a, E1).
     bind_res (insert_val (dout s) a) (\<lambda>os.
     insert_all w es \<lparr>denv = E1, dout = os\<rparr>))"

fun exec :: "nat \<Rightarrow> com \<Rightarrow> cstate \<Rightarrow> error + (val option \<times> cstate)" where
  "exec w (Decl t ds) s =
     bind_res (declarators w t ds (denv s)) (\<lambda>E. Inr (None, s\<lparr>denv := E\<rparr>))"
| "exec w (ConstDecl t v e) s =
     bind_res (eval w e (denv s)) (\<lambda>(a, E1).
     bind_res (convert t a) (\<lambda>b.
     bind_res (declare_const b (slot_of E1 v)) (\<lambda>c.
     Inr (None, s\<lparr>denv := set_obj E1 v t c\<rparr>))))"
| "exec w (ExprStmt e) s =
     bind_res (eval w e (denv s)) (\<lambda>(a, E1). Inr (None, s\<lparr>denv := E1\<rparr>))"
| "exec w (Cout es) s = bind_res (insert_all w es s) (\<lambda>s'. Inr (None, s'))"
| "exec w (Return e) s =
     bind_res (eval w e (denv s)) (\<lambda>(a, E1). Inr (Some a, s\<lparr>denv := E1\<rparr>))"

fun run :: "nat \<Rightarrow> com list \<Rightarrow> cstate \<Rightarrow> error + (val option \<times> cstate)" where
  "run w [] s = Inr (None, s)"
| "run w (c # cs) s =
     bind_res (exec w c s) (\<lambda>(r, s').
     case r of None \<Rightarrow> run w cs s' | Some a \<Rightarrow> Inr (Some a, s'))"

definition no_vars :: env where
  "no_vars = (\<lambda>v. None)"

definition run_main :: "nat \<Rightarrow> com list \<Rightarrow> ostream \<Rightarrow> error + (int \<times> ostream)" where
  "run_main w p os =
     bind_res (run w p \<lparr>denv = no_vars, dout = os\<rparr>) (\<lambda>(r, s).
     case r of
       None \<Rightarrow> Inr (0, dout s)
     | Some (VInt i) \<Rightarrow> Inr (i, dout s)
     | Some a \<Rightarrow> Inl IllTyped)"

section \<open>Looking up and updating variables\<close>

lemma slot_of_upd:
  "slot_of (E(v := ob)) u =
     (if u = v then (case ob of None \<Rightarrow> Undeclared | Some b \<Rightarrow> oslot b) else slot_of E u)"
  by (simp add: slot_of_def)

lemma set_obj_as_update: "set_obj E v t s = E(v := Some \<lparr>otype = t, oslot = s\<rparr>)"
  by (simp add: set_obj_def)

lemma slot_of_no_vars [simp]: "slot_of no_vars v = Undeclared"
  by (simp add: slot_of_def no_vars_def)

lemma slot_of_set_obj [simp]:
  "slot_of (set_obj E v t s) u = (if u = v then s else slot_of E u)"
  by (simp add: set_obj_as_update slot_of_upd)

section \<open>Runs\<close>

lemma run_append:
  "run w (cs @ ds) s =
     bind_res (run w cs s)
       (\<lambda>(r, s'). case r of None \<Rightarrow> run w ds s' | Some a \<Rightarrow> Inr (Some a, s'))"
proof (induction cs arbitrary: s)
  case Nil
  show ?case by simp
next
  case (Cons c cs)
  show ?case
    by (cases "exec w c s") (auto simp: Cons.IH split: option.splits)
qed

lemma run_single [simp]:
  "run w [c] s = bind_res (exec w c s) (\<lambda>(r, s'). Inr (r, s'))"
  by (cases "exec w c s") (auto split: option.splits)

lemma eval_small_literal:
  "16 \<le> w \<Longrightarrow> - 32768 \<le> i \<Longrightarrow> i \<le> 32767 \<Longrightarrow> eval w (IntLit i) E = Inr (VInt i, E)"
  by (simp add: in_width_small)

section \<open>Variables only move forward\<close>

text \<open>
  \<open>forward E E'\<close>: every variable is at least as far in its life cycle in \<open>E'\<close> as in \<open>E\<close>, in
  the order of theory \<open>Storage\<close>. No expression and no statement of the language takes a
  name out of scope, takes a value away or changes a constant, whatever the text is.
\<close>

definition forward :: "env \<Rightarrow> env \<Rightarrow> bool" where
  "forward E E' \<longleftrightarrow> (\<forall>v. slot_of E v \<le> slot_of E' v)"

lemma forward_refl [simp]: "forward E E"
  by (simp add: forward_def)

lemma forward_trans: "forward E E1 \<Longrightarrow> forward E1 E2 \<Longrightarrow> forward E E2"
  by (auto simp: forward_def intro: order_trans)

lemma forward_set_obj: "slot_of E v \<le> s \<Longrightarrow> forward E (set_obj E v t s)"
  by (simp add: forward_def)

lemma forward_update:
  "forward E E1 \<Longrightarrow> slot_of E1 v \<le> s \<Longrightarrow> forward E (set_obj E1 v t s)"
  by (blast intro: forward_trans forward_set_obj)

lemma forward_then:
  "forward E E1 \<Longrightarrow> returning m (\<lambda>(a, E2). forward E1 E2) \<Longrightarrow>
   returning m (\<lambda>(a, E2). forward E E2)"
  by (erule outcome_mono) (auto intro: forward_trans)

lemmas binop_forward =
  outcome_binop [where X = "\<lambda>e. True" and Pa = "\<lambda>a. True" and Pb = "\<lambda>a. True"
    and R = "\<lambda>a. True" and P = "forward E" and Q = "forward E", simplified] for E

lemma assign_var_forward:
  "returning
    (case E v of
       None \<Rightarrow> Inl NotDeclared
     | Some ob \<Rightarrow>
         bind_res (convert (otype ob) a) (\<lambda>b.
         bind_res (assign b (oslot ob)) (\<lambda>s.
         bind_res (rd s) (\<lambda>r. Inr (r, set_obj E v (otype ob) s)))))
    (\<lambda>(r, E'). forward E E')"
proof (cases "E v")
  case None
  then show ?thesis by simp
next
  case (Some ob)
  then have "slot_of E v = oslot ob"
    by (simp add: slot_of_def)
  then show ?thesis
    by (auto simp: Some outcome_def bind_res_Inr_iff forward_set_obj assign_le
        split: sum.splits)
qed

lemma eval_forward: "returning (eval w e E) (\<lambda>(a, E'). forward E E')"
proof (induction e arbitrary: E)
  case (Var v)
  show ?case by (cases "rd (slot_of E v)") simp_all
next
  case (Add e1 e2)
  show ?case
    unfolding eval.simps
    by (rule binop_forward [OF Add.IH(1)]) (simp_all add: forward_then Add.IH(2))
next
  case (Mul e1 e2)
  show ?case
    unfolding eval.simps
    by (rule binop_forward [OF Mul.IH(1)]) (simp_all add: forward_then Mul.IH(2))
next
  case (Asg v e)
  show ?case
    unfolding eval.simps
    by (rule outcome_bind2 [OF Asg.IH])
      (use forward_then [OF _ assign_var_forward] in simp)
qed simp_all

lemma declarator_forward: "returning (declarator w t d E) (forward E)"
proof (cases d)
  case (Pair v init)
  show ?thesis
  proof (cases init)
    case None
    then show ?thesis
      by (auto simp: Pair outcome_def bind_res_Inr_iff forward_set_obj declare_uninit_le
          split: sum.splits)
  next
    case (Some e)
    have "forward E E1 \<Longrightarrow>
        returning (bind_res (convert t a) (\<lambda>b.
          bind_res (declare_init b (slot_of E1 v)) (\<lambda>s. Inr (set_obj E1 v t s)))) (forward E)"
      for a E1
      by (auto simp: outcome_def bind_res_Inr_iff
          intro!: forward_update declare_init_le split: sum.splits)
    then show ?thesis
      unfolding Pair Some declarator.simps by (intro outcome_bind2 [OF eval_forward])
  qed
qed

lemma declarators_forward: "returning (declarators w t ds E) (forward E)"
proof (induction ds arbitrary: E)
  case Nil
  show ?case by simp
next
  case (Cons d ds)
  show ?case
    unfolding declarators.simps
    by (rule outcome_bind [OF declarator_forward])
      (auto intro: outcome_mono [OF Cons.IH] forward_trans)
qed

lemma insert_all_forward: "returning (insert_all w es s) (\<lambda>s'. forward (denv s) (denv s'))"
proof (induction es arbitrary: s)
  case Nil
  show ?case by simp
next
  case (Cons e es)
  have rest: "returning (insert_all w es \<lparr>denv = E1, dout = os\<rparr>) (\<lambda>s'. forward E1 (denv s'))"
    for E1 os
    using Cons.IH [of "\<lparr>denv = E1, dout = os\<rparr>"] by simp
  have "forward (denv s) E1 \<Longrightarrow>
      returning (bind_res (insert_val (dout s) a) (\<lambda>os. insert_all w es \<lparr>denv = E1, dout = os\<rparr>))
        (\<lambda>s'. forward (denv s) (denv s'))" for a E1
    by (rule outcome_bind [of _ _ "\<lambda>os. True"])
      (auto intro: outcome_mono [OF rest] forward_trans)
  then show ?case
    unfolding insert_all.simps by (intro outcome_bind2 [OF eval_forward])
qed

lemma exec_forward: "returning (exec w c s) (\<lambda>(r, s'). forward (denv s) (denv s'))"
proof (cases c)
  case (Decl t ds)
  show ?thesis
    unfolding Decl exec.simps by (rule outcome_bind [OF declarators_forward]) simp
next
  case (ConstDecl t v e)
  have "forward (denv s) E1 \<Longrightarrow>
      returning (bind_res (convert t a) (\<lambda>b.
        bind_res (declare_const b (slot_of E1 v)) (\<lambda>c.
        Inr (None, s\<lparr>denv := set_obj E1 v t c\<rparr>))))
      (\<lambda>(r, s'). forward (denv s) (denv s'))" for a E1
    by (auto simp: outcome_def bind_res_Inr_iff
        intro!: forward_update declare_const_le split: sum.splits)
  then show ?thesis
    unfolding ConstDecl exec.simps by (intro outcome_bind2 [OF eval_forward])
next
  case (ExprStmt e)
  show ?thesis
    unfolding ExprStmt exec.simps by (rule outcome_bind2 [OF eval_forward]) simp
next
  case (Cout es)
  show ?thesis
    unfolding Cout exec.simps by (rule outcome_bind [OF insert_all_forward]) simp
next
  case (Return e)
  show ?thesis
    unfolding Return exec.simps by (rule outcome_bind2 [OF eval_forward]) simp
qed

lemma run_forward: "returning (run w cs s) (\<lambda>(r, s'). forward (denv s) (denv s'))"
proof (induction cs arbitrary: s)
  case Nil
  show ?case by simp
next
  case (Cons c cs)
  have "forward (denv s) (denv s1) \<Longrightarrow>
      returning (case r of None \<Rightarrow> run w cs s1 | Some a \<Rightarrow> Inr (Some a, s1))
        (\<lambda>(r, s'). forward (denv s) (denv s'))" for r s1
    by (cases r) (auto intro: outcome_mono [OF Cons.IH] forward_trans)
  then show ?case
    unfolding run.simps by (intro outcome_bind2 [OF exec_forward])
qed

text \<open>
  C17. Variables only move forward, in every text. For every width of \<open>int\<close>, every list of
  statements of the language and every state, when the run returns every variable is at
  least as far in its life cycle as before: a name in scope is still in scope, a variable
  with a value still has one, and a constant has the value it had.
\<close>

theorem variables_move_forward_in_every_text:
  assumes "run w cs s = Inr (r, s')"
  shows "slot_of (denv s) v \<le> slot_of (denv s') v \<and>
    (in_scope (slot_of (denv s) v) \<longrightarrow> in_scope (slot_of (denv s') v)) \<and>
    (readable (slot_of (denv s) v) \<longrightarrow> readable (slot_of (denv s') v)) \<and>
    (\<forall>a. slot_of (denv s) v = Const a \<longrightarrow> slot_of (denv s') v = Const a)"
proof -
  have "forward (denv s) (denv s')"
    using returningD [OF run_forward assms] by simp
  then have "slot_of (denv s) v \<le> slot_of (denv s') v"
    by (simp add: forward_def)
  then show ?thesis
    by (auto dest: slot_le_in_scope slot_le_readable)
qed

theorem variables_move_forward_in_every_text_witness:
  "slot_of (set_obj (set_obj no_vars ''c'' TInt (Const (VInt 60))) ''x'' TInt (Holds (VInt 4))) ''c''
     = Const (VInt 60) \<and>
   (\<exists>r s'. run 32 [ExprStmt (Asg ''x'' (IntLit 50)), Decl TInt [(''y'', Some (Var ''c''))]]
       \<lparr>denv = set_obj (set_obj no_vars ''c'' TInt (Const (VInt 60))) ''x'' TInt (Holds (VInt 4)),
        dout = cout_init\<rparr> = Inr (r, s') \<and>
     slot_of (denv s') ''c'' = Const (VInt 60))"
proof -
  let ?s = "\<lparr>denv = set_obj (set_obj no_vars ''c'' TInt (Const (VInt 60))) ''x'' TInt (Holds (VInt 4)),
    dout = cout_init\<rparr>"
  let ?cs = "[ExprStmt (Asg ''x'' (IntLit 50)), Decl TInt [(''y'', Some (Var ''c''))]]"
  have "\<exists>r s'. run 32 ?cs ?s = Inr (r, s')"
    by (simp add: set_obj_def slot_of_def no_vars_def in_width_32 int_range_defs)
  then obtain r s' where run: "run 32 ?cs ?s = Inr (r, s')"
    by blast
  from variables_move_forward_in_every_text [OF run, of "''c''"] run show ?thesis
    by simp
qed

end
