(* ===== verification/Typing.thy ===== *)
theory Typing
  imports Language
begin

text \<open>
  What the compiler checks, and what that leaves to the run. The checker assigns a type to
  every expression under the declared types of the names; it rejects a use of an undeclared
  name, a second declaration, an assignment to a \<open>const\<close> object, and an operand or
  initialiser of the wrong type. It does not look at values, so it accepts a read of a
  variable that has no value yet and an addition that overflows. The theory proves that
  this division is exact: a text that passes the checker can only fail with one of the two
  undefined behaviours \<open>IndeterminateRead\<close> and \<open>SignedOverflow\<close>, never with one of the
  errors of the checker, and the variables keep the declared types throughout. The width
  \<open>w\<close> of \<open>int\<close> is a parameter of the checker as it is of the meaning: an integer literal
  has type \<open>int\<close> when it fits the width, and a value has type \<open>int\<close> when it lies within
  \<open>in_width w\<close>, so soundness also says that no \<open>int\<close> value ever leaves the range.
\<close>

section \<open>The checker\<close>

type_synonym tyenv = "string \<Rightarrow> (ty \<times> bool) option"

fun converts :: "ty \<Rightarrow> ty \<Rightarrow> bool" where
  "converts TArray TString = True"
| "converts s t = (s = t)"

fun type_exp :: "nat \<Rightarrow> tyenv \<Rightarrow> exp \<Rightarrow> ty option" where
  "type_exp w G (IntLit i) = (if in_width w i then Some TInt else None)"
| "type_exp w G (FloatLit q) = Some TDouble"
| "type_exp w G (CharLit c) = Some TChar"
| "type_exp w G (StrLit s) = Some TArray"
| "type_exp w G (BoolLit b) = Some TBool"
| "type_exp w G (Var v) = map_option fst (G v)"
| "type_exp w G (Add e1 e2) =
     (if type_exp w G e1 = Some TInt \<and> type_exp w G e2 = Some TInt then Some TInt else None)"
| "type_exp w G (Mul e1 e2) =
     (if type_exp w G e1 = Some TInt \<and> type_exp w G e2 = Some TInt then Some TInt else None)"
| "type_exp w G (Asg v e) =
     (case type_exp w G e of
        None \<Rightarrow> None
      | Some s \<Rightarrow>
          (case G v of
             None \<Rightarrow> None
           | Some (t, c) \<Rightarrow> if \<not> c \<and> converts s t then Some t else None))"

definition initialiser_ok :: "nat \<Rightarrow> tyenv \<Rightarrow> ty \<Rightarrow> exp \<Rightarrow> bool" where
  "initialiser_ok w G t e = (case type_exp w G e of None \<Rightarrow> False | Some s \<Rightarrow> converts s t)"

fun check_declarator :: "nat \<Rightarrow> ty \<Rightarrow> string \<times> exp option \<Rightarrow> tyenv \<Rightarrow> tyenv option" where
  "check_declarator w t (v, None) G = (if G v = None then Some (G(v \<mapsto> (t, False))) else None)"
| "check_declarator w t (v, Some e) G =
     (if G v = None \<and> initialiser_ok w G t e then Some (G(v \<mapsto> (t, False))) else None)"

fun check_declarators :: "nat \<Rightarrow> ty \<Rightarrow> (string \<times> exp option) list \<Rightarrow> tyenv \<Rightarrow> tyenv option" where
  "check_declarators w t [] G = Some G"
| "check_declarators w t (d # ds) G =
     Option.bind (check_declarator w t d G) (check_declarators w t ds)"

fun check_com :: "nat \<Rightarrow> com \<Rightarrow> tyenv \<Rightarrow> tyenv option" where
  "check_com w (Decl t ds) G = check_declarators w t ds G"
| "check_com w (ConstDecl t v e) G =
     (if G v = None \<and> initialiser_ok w G t e then Some (G(v \<mapsto> (t, True))) else None)"
| "check_com w (ExprStmt e) G = (if type_exp w G e = None then None else Some G)"
| "check_com w (Cout es) G = (if list_all (\<lambda>e. type_exp w G e \<noteq> None) es then Some G else None)"
| "check_com w (Return e) G = (if type_exp w G e = Some TInt then Some G else None)"

fun check :: "nat \<Rightarrow> com list \<Rightarrow> tyenv \<Rightarrow> tyenv option" where
  "check w [] G = Some G"
| "check w (c # cs) G = Option.bind (check_com w c G) (check w cs)"

definition no_names :: tyenv where
  "no_names = (\<lambda>v. None)"

section \<open>Values and variables of the declared types\<close>

definition has_type :: "nat \<Rightarrow> val \<Rightarrow> ty \<Rightarrow> bool" where
  "has_type w a t \<longleftrightarrow>
     type_of a = t \<and>
     (case a of VInt i \<Rightarrow> in_width w i | VArray arr \<Rightarrow> terminated arr | _ \<Rightarrow> True)"

fun slot_ok :: "nat \<Rightarrow> ty \<Rightarrow> bool \<Rightarrow> val slot \<Rightarrow> bool" where
  "slot_ok w t c Undeclared = False"
| "slot_ok w t c Indeterminate = (\<not> c)"
| "slot_ok w t c (Holds a) = (\<not> c \<and> has_type w a t)"
| "slot_ok w t c (Const a) = (c \<and> has_type w a t)"

definition var_ok :: "nat \<Rightarrow> (ty \<times> bool) option \<Rightarrow> object option \<Rightarrow> bool" where
  "var_ok w g ob =
     (case g of
        None \<Rightarrow> ob = None
      | Some (t, c) \<Rightarrow> (\<exists>b. ob = Some b \<and> otype b = t \<and> slot_ok w t c (oslot b)))"

definition conforms :: "nat \<Rightarrow> tyenv \<Rightarrow> env \<Rightarrow> bool" where
  "conforms w G E \<longleftrightarrow> (\<forall>v. var_ok w (G v) (E v))"

text \<open>
  \<open>sound r P\<close>: the result \<open>r\<close> is a value with \<open>P\<close>, or one of the two undefined behaviours
  that the checker leaves to the run.
\<close>

abbreviation sound :: "error + 'a \<Rightarrow> ('a \<Rightarrow> bool) \<Rightarrow> bool" where
  "sound \<equiv> outcome (\<lambda>e. e = IndeterminateRead \<or> e = SignedOverflow)"

lemmas sound_bind = outcome_bind [where X = "\<lambda>e. e = IndeterminateRead \<or> e = SignedOverflow"]
lemmas sound_bind2 = outcome_bind2 [where X = "\<lambda>e. e = IndeterminateRead \<or> e = SignedOverflow"]

section \<open>Values\<close>

lemma has_type_simps [simp]:
  "has_type w (VInt i) t \<longleftrightarrow> t = TInt \<and> in_width w i"
  "has_type w (VDouble d) t \<longleftrightarrow> t = TDouble"
  "has_type w (VChar c) t \<longleftrightarrow> t = TChar"
  "has_type w (VString s) t \<longleftrightarrow> t = TString"
  "has_type w (VBool b) t \<longleftrightarrow> t = TBool"
  "has_type w (VArray arr) t \<longleftrightarrow> t = TArray \<and> terminated arr"
  by (auto simp: has_type_def)

lemma has_type_TInt: "has_type w a TInt \<Longrightarrow> \<exists>i. a = VInt i \<and> in_width w i"
  by (cases a) simp_all

lemma convert_sound:
  assumes "has_type w a s" and "converts s t"
  shows "\<exists>b. convert t a = Inr b \<and> has_type w b t"
proof (cases "s = t")
  case True
  with assms(1) show ?thesis
    by (cases a; cases t) (auto simp: string_of_cstr_eq)
next
  case False
  with assms(2) have "s = TArray" and "t = TString"
    by (cases s; cases t; simp)+
  with assms(1) show ?thesis
    by (cases a) (auto simp: string_of_cstr_eq)
qed

lemma add_val_sound:
  "has_type w a TInt \<Longrightarrow> has_type w b TInt \<Longrightarrow> sound (add_val w a b) (\<lambda>c. has_type w c TInt)"
  by (auto dest!: has_type_TInt)

lemma mul_val_sound:
  "has_type w a TInt \<Longrightarrow> has_type w b TInt \<Longrightarrow> sound (mul_val w a b) (\<lambda>c. has_type w c TInt)"
  by (auto dest!: has_type_TInt)

lemma insert_val_sound: "has_type w a t \<Longrightarrow> \<exists>os'. insert_val os a = Inr os'"
  by (cases a) (auto simp: put_cstr_Inr_iff)

section \<open>Variables\<close>

lemma var_ok_simps [simp]:
  "var_ok w None ob \<longleftrightarrow> ob = None"
  "var_ok w (Some (t, c)) ob \<longleftrightarrow> (\<exists>b. ob = Some b \<and> otype b = t \<and> slot_ok w t c (oslot b))"
  by (simp_all add: var_ok_def)

lemma conforms_no_names [simp]: "conforms w no_names no_vars"
  by (simp add: conforms_def no_names_def no_vars_def)

lemma conformsD: "conforms w G E \<Longrightarrow> var_ok w (G v) (E v)"
  by (simp add: conforms_def)

lemma conforms_lookup:
  "conforms w G E \<Longrightarrow> G v = Some (t, c) \<Longrightarrow>
   \<exists>ob. E v = Some ob \<and> otype ob = t \<and> slot_ok w t c (oslot ob)"
  using conformsD [of w G E v] by simp

lemma conforms_undeclared: "conforms w G E \<Longrightarrow> G v = None \<Longrightarrow> slot_of E v = Undeclared"
  using conformsD [of w G E v] by (simp add: slot_of_def)

lemma conforms_update:
  "conforms w G E \<Longrightarrow> G v = Some (t, c) \<Longrightarrow> slot_ok w t c s \<Longrightarrow> conforms w G (set_obj E v t s)"
  by (simp add: conforms_def set_obj_def)

lemma conforms_declare:
  "conforms w G E \<Longrightarrow> slot_ok w t c s \<Longrightarrow> conforms w (G(v \<mapsto> (t, c))) (set_obj E v t s)"
  by (simp add: conforms_def set_obj_def)

lemma rd_sound: "slot_ok w t c s \<Longrightarrow> sound (rd s) (\<lambda>a. has_type w a t)"
  by (cases s) simp_all

section \<open>Expressions\<close>

lemmas binop_sound =
  outcome_binop [where X = "\<lambda>e. e = IndeterminateRead \<or> e = SignedOverflow"
    and Pa = "\<lambda>a. has_type w a TInt" and Pb = "\<lambda>a. has_type w a TInt"
    and R = "\<lambda>a. has_type w a TInt" and P = "conforms w G" and Q = "conforms w G"] for w G

lemma assign_sound:
  assumes a: "has_type w a s" and conv: "converts s t" and G: "G v = Some (t, False)"
    and E: "conforms w G E"
  shows "sound
    (case E v of
       None \<Rightarrow> Inl NotDeclared
     | Some ob \<Rightarrow>
         bind_res (convert (otype ob) a) (\<lambda>b.
         bind_res (assign b (oslot ob)) (\<lambda>s.
         bind_res (rd s) (\<lambda>r. Inr (r, set_obj E v (otype ob) s)))))
    (\<lambda>(r, E'). has_type w r t \<and> conforms w G E')"
proof -
  from conforms_lookup [OF E G] obtain ob where
    ob: "E v = Some ob" "otype ob = t" "slot_ok w t False (oslot ob)" by blast
  from convert_sound [OF a conv] obtain b where b: "convert t a = Inr b" "has_type w b t"
    by blast
  have "conforms w G (set_obj E v t (Holds b))"
    using E G b(2) by (intro conforms_update [where c = False]) simp_all
  with ob b show ?thesis
    by (cases "oslot ob") simp_all
qed

lemma eval_sound:
  assumes "type_exp w G e = Some t" and "conforms w G E"
  shows "sound (eval w e E) (\<lambda>(a, E'). has_type w a t \<and> conforms w G E')"
  using assms
proof (induction e arbitrary: E t)
  case (Var v)
  then obtain c where G: "G v = Some (t, c)" by auto
  from conforms_lookup [OF Var.prems(2) G] obtain ob where
    "E v = Some ob" and "slot_ok w t c (oslot ob)" by blast
  then have "sound (rd (slot_of E v)) (\<lambda>a. has_type w a t)"
    by (simp add: slot_of_def rd_sound)
  then show ?case
    using Var.prems(2) by (auto intro: sound_bind)
next
  case (Add e1 e2)
  then have t: "t = TInt" and t1: "type_exp w G e1 = Some TInt"
    and t2: "type_exp w G e2 = Some TInt"
    by (auto split: if_splits)
  show ?case
    unfolding eval.simps t
    by (rule binop_sound [OF Add.IH(1) [OF t1 Add.prems(2)] Add.IH(2) [OF t2] add_val_sound])
next
  case (Mul e1 e2)
  then have t: "t = TInt" and t1: "type_exp w G e1 = Some TInt"
    and t2: "type_exp w G e2 = Some TInt"
    by (auto split: if_splits)
  show ?case
    unfolding eval.simps t
    by (rule binop_sound [OF Mul.IH(1) [OF t1 Mul.prems(2)] Mul.IH(2) [OF t2] mul_val_sound])
next
  case (Asg v e)
  then obtain s where s: "type_exp w G e = Some s" and G: "G v = Some (t, False)"
    and conv: "converts s t"
    by (auto split: option.splits if_splits)
  show ?case
    unfolding eval.simps
  proof (rule sound_bind2 [OF Asg.IH [OF s Asg.prems(2)]])
    fix a E1 assume "has_type w a s \<and> conforms w G E1"
    then show "sound
      (case E1 v of
         None \<Rightarrow> Inl NotDeclared
       | Some ob \<Rightarrow>
           bind_res (convert (otype ob) a) (\<lambda>b.
           bind_res (assign b (oslot ob)) (\<lambda>s.
           bind_res (rd s) (\<lambda>r. Inr (r, set_obj E1 v (otype ob) s)))))
      (\<lambda>(r, E'). has_type w r t \<and> conforms w G E')"
      using conv G by (intro assign_sound) simp_all
  qed
qed (auto split: if_splits)

section \<open>Statements\<close>

lemma initialiser_sound:
  assumes "initialiser_ok w G t e" and "conforms w G E"
  shows "sound (bind_res (eval w e E) (\<lambda>(a, E1). bind_res (convert t a) (\<lambda>b. Inr (b, E1))))
    (\<lambda>(b, E1). has_type w b t \<and> conforms w G E1)"
proof -
  from assms(1) obtain s where s: "type_exp w G e = Some s" and conv: "converts s t"
    by (auto simp: initialiser_ok_def split: option.splits)
  show ?thesis
  proof (rule sound_bind2 [OF eval_sound [OF s assms(2)]])
    fix a E1 assume "has_type w a s \<and> conforms w G E1"
    with convert_sound [OF _ conv, where a = a and w = w]
    show "sound (bind_res (convert t a) (\<lambda>b. Inr (b, E1)))
        (\<lambda>(b, E1). has_type w b t \<and> conforms w G E1)"
      by auto
  qed
qed

lemma declarator_sound:
  assumes "check_declarator w t d G = Some G'" and "conforms w G E"
  shows "sound (declarator w t d E) (conforms w G')"
proof (cases d)
  case (Pair v init)
  show ?thesis
  proof (cases init)
    case None
    with Pair assms show ?thesis
      by (auto simp: conforms_undeclared [of w G] conforms_declare split: if_splits)
  next
    case (Some e)
    with Pair assms(1) have G: "G v = None" and ok: "initialiser_ok w G t e"
      and G': "G' = G(v \<mapsto> (t, False))"
      by (auto split: if_splits)
    have "sound
      (bind_res (bind_res (eval w e E) (\<lambda>(a, E1). bind_res (convert t a) (\<lambda>b. Inr (b, E1))))
        (\<lambda>(b, E1). bind_res (declare_init b (slot_of E1 v)) (\<lambda>s. Inr (set_obj E1 v t s))))
      (conforms w G')"
      using initialiser_sound [OF ok assms(2)]
      by (rule sound_bind2) (simp add: G G' conforms_undeclared [of w G] conforms_declare)
    then show ?thesis
      by (cases "eval w e E") (simp_all add: Pair Some bind_res_assoc split: prod.splits)
  qed
qed

lemma declarators_sound:
  assumes "check_declarators w t ds G = Some G'" and "conforms w G E"
  shows "sound (declarators w t ds E) (conforms w G')"
  using assms
proof (induction ds arbitrary: G E)
  case Nil
  then show ?case by simp
next
  case (Cons d ds)
  then obtain G1 where d: "check_declarator w t d G = Some G1"
    and ds: "check_declarators w t ds G1 = Some G'"
    by (auto split: Option.bind_splits)
  show ?case
    unfolding declarators.simps
    by (rule sound_bind [OF declarator_sound [OF d Cons.prems(2)]]) (rule Cons.IH [OF ds])
qed

lemma insert_all_sound:
  assumes "list_all (\<lambda>e. type_exp w G e \<noteq> None) es" and "conforms w G (denv s)"
  shows "sound (insert_all w es s) (\<lambda>s'. conforms w G (denv s'))"
  using assms
proof (induction es arbitrary: s)
  case Nil
  then show ?case by simp
next
  case (Cons e es)
  then obtain t where t: "type_exp w G e = Some t" and es: "list_all (\<lambda>e. type_exp w G e \<noteq> None) es"
    by auto
  show ?case
    unfolding insert_all.simps
  proof (rule sound_bind2 [OF eval_sound [OF t Cons.prems(2)]])
    fix a E1 assume a: "has_type w a t \<and> conforms w G E1"
    then obtain os where "insert_val (dout s) a = Inr os"
      using insert_val_sound [of w a t "dout s"] by blast
    with a show "sound
        (bind_res (insert_val (dout s) a) (\<lambda>os. insert_all w es \<lparr>denv = E1, dout = os\<rparr>))
        (\<lambda>s'. conforms w G (denv s'))"
      by (simp add: Cons.IH [OF es])
  qed
qed

definition returns_int :: "nat \<Rightarrow> val option \<Rightarrow> bool" where
  "returns_int w r = (case r of None \<Rightarrow> True | Some a \<Rightarrow> has_type w a TInt)"

lemma exec_sound:
  assumes "check_com w c G = Some G'" and "conforms w G (denv s)"
  shows "sound (exec w c s) (\<lambda>(r, s'). returns_int w r \<and> conforms w G' (denv s'))"
proof (cases c)
  case (Decl t ds)
  with assms(1) have "check_declarators w t ds G = Some G'" by simp
  then have "sound (declarators w t ds (denv s)) (conforms w G')"
    using assms(2) by (rule declarators_sound)
  then show ?thesis
    unfolding Decl exec.simps by (rule sound_bind) (simp add: returns_int_def)
next
  case (ConstDecl t v e)
  with assms(1) have G: "G v = None" and ok: "initialiser_ok w G t e"
    and G': "G' = G(v \<mapsto> (t, True))"
    by (simp_all split: if_splits)
  have "sound
    (bind_res (bind_res (eval w e (denv s)) (\<lambda>(a, E1). bind_res (convert t a) (\<lambda>b. Inr (b, E1))))
      (\<lambda>(b, E1). bind_res (declare_const b (slot_of E1 v))
         (\<lambda>c. Inr (None, s\<lparr>denv := set_obj E1 v t c\<rparr>))))
    (\<lambda>(r, s'). returns_int w r \<and> conforms w G' (denv s'))"
    using initialiser_sound [OF ok assms(2)]
    by (rule sound_bind2)
      (simp add: G G' conforms_undeclared [of w G] conforms_declare returns_int_def)
  then show ?thesis
    by (cases "eval w e (denv s)") (simp_all add: ConstDecl bind_res_assoc split: prod.splits)
next
  case (ExprStmt e)
  with assms(1) have "type_exp w G e \<noteq> None" and G': "G' = G"
    by (simp_all split: if_splits)
  then obtain t where t: "type_exp w G e = Some t" by blast
  show ?thesis
    unfolding ExprStmt exec.simps G'
    by (rule sound_bind2 [OF eval_sound [OF t assms(2)]]) (simp add: returns_int_def)
next
  case (Cout es)
  with assms(1) have es: "list_all (\<lambda>e. type_exp w G e \<noteq> None) es" and G': "G' = G"
    by (simp_all split: if_splits)
  show ?thesis
    unfolding Cout exec.simps G'
    by (rule sound_bind [OF insert_all_sound [OF es assms(2)]]) (simp add: returns_int_def)
next
  case (Return e)
  with assms(1) have t: "type_exp w G e = Some TInt" and G': "G' = G"
    by (simp_all split: if_splits)
  show ?thesis
    unfolding Return exec.simps G'
    by (rule sound_bind2 [OF eval_sound [OF t assms(2)]]) (simp add: returns_int_def)
qed

lemma run_sound:
  assumes "check w cs G = Some G'" and "conforms w G (denv s)"
  shows "sound (run w cs s) (\<lambda>(r, s'). returns_int w r)"
  using assms
proof (induction cs arbitrary: G s)
  case Nil
  then show ?case by (simp add: returns_int_def)
next
  case (Cons c cs)
  then obtain G1 where c: "check_com w c G = Some G1" and cs: "check w cs G1 = Some G'"
    by (auto split: Option.bind_splits)
  show ?case
    unfolding run.simps
  proof (rule sound_bind2 [OF exec_sound [OF c Cons.prems(2)]])
    fix r and s' :: cstate
    assume "returns_int w r \<and> conforms w G1 (denv s')"
    then show "sound (case r of None \<Rightarrow> run w cs s' | Some a \<Rightarrow> Inr (Some a, s'))
        (\<lambda>(r, s'). returns_int w r)"
      using Cons.IH [OF cs, of s'] by (cases r) simp_all
  qed
qed

lemma run_main_sound:
  assumes "check w p no_names = Some G"
  shows "sound (run_main w p os) (\<lambda>(i, os'). in_width w i)"
proof -
  have "sound (run w p \<lparr>denv = no_vars, dout = os\<rparr>) (\<lambda>(r, s'). returns_int w r)"
    using assms by (rule run_sound) simp
  then show ?thesis
    unfolding run_main_def
    by (rule sound_bind2)
      (auto simp: returns_int_def in_width_def split: option.splits val.splits)
qed

end
