(* ===== verification/Definite_Init.thy ===== *)
theory Definite_Init
  imports Typing
begin

text \<open>
  Definite initialisation: the analysis behind the warning a compiler gives for a variable
  that is used before it has a value. It follows the text in evaluation order with the set
  of names that certainly have a value; a read of a name outside the set is rejected, an
  initialiser and an assignment add their name. The analysis looks at no value and no
  type. It is proved sound for the meaning of theory \<open>Language\<close>: a text that passes never
  reads an indeterminate value, whatever else may go wrong. Together with the checker of
  theory \<open>Typing\<close> this leaves signed overflow as the only way a run can fail.
\<close>

section \<open>The analysis\<close>

fun dexp :: "string set \<Rightarrow> exp \<Rightarrow> string set option" where
  "dexp A (Var v) = (if v \<in> A then Some A else None)"
| "dexp A (Add e1 e2) = Option.bind (dexp A e1) (\<lambda>B. dexp B e2)"
| "dexp A (Mul e1 e2) = Option.bind (dexp A e1) (\<lambda>B. dexp B e2)"
| "dexp A (Asg v e) = map_option (insert v) (dexp A e)"
| "dexp A e = Some A"

fun dexps :: "string set \<Rightarrow> exp list \<Rightarrow> string set option" where
  "dexps A [] = Some A"
| "dexps A (e # es) = Option.bind (dexp A e) (\<lambda>B. dexps B es)"

fun ddeclarator :: "string \<times> exp option \<Rightarrow> string set \<Rightarrow> string set option" where
  "ddeclarator (v, None) A = Some A"
| "ddeclarator (v, Some e) A = map_option (insert v) (dexp A e)"

fun ddeclarators :: "(string \<times> exp option) list \<Rightarrow> string set \<Rightarrow> string set option" where
  "ddeclarators [] A = Some A"
| "ddeclarators (d # ds) A = Option.bind (ddeclarator d A) (ddeclarators ds)"

fun dcom :: "com \<Rightarrow> string set \<Rightarrow> string set option" where
  "dcom (Decl t ds) A = ddeclarators ds A"
| "dcom (ConstDecl t v e) A = map_option (insert v) (dexp A e)"
| "dcom (ExprStmt e) A = dexp A e"
| "dcom (Cout es) A = dexps A es"
| "dcom (Return e) A = dexp A e"

fun dprog :: "com list \<Rightarrow> string set \<Rightarrow> string set option" where
  "dprog [] A = Some A"
| "dprog (c # cs) A = Option.bind (dcom c A) (dprog cs)"

section \<open>Names with a value\<close>

definition assigned :: "string set \<Rightarrow> env \<Rightarrow> bool" where
  "assigned A E \<longleftrightarrow> (\<forall>v \<in> A. readable (slot_of E v))"

abbreviation reads_ok :: "error + 'a \<Rightarrow> ('a \<Rightarrow> bool) \<Rightarrow> bool" where
  "reads_ok \<equiv> outcome (\<lambda>e. e \<noteq> IndeterminateRead)"

lemma assigned_empty [simp]: "assigned {} E"
  by (simp add: assigned_def)

lemma assigned_rd: "assigned A E \<Longrightarrow> v \<in> A \<Longrightarrow> \<exists>a. rd (slot_of E v) = Inr a"
  by (cases "slot_of E v") (auto simp: assigned_def)

lemma assigned_insert:
  "assigned A E \<Longrightarrow> readable s \<Longrightarrow> assigned (insert v A) (set_obj E v t s)"
  by (simp add: assigned_def)

lemma assigned_new:
  "assigned A E \<Longrightarrow> slot_of E v = Undeclared \<Longrightarrow> assigned A (set_obj E v t s)"
  by (auto simp: assigned_def)

section \<open>The operations that cannot read\<close>

lemma add_val_reads_ok: "reads_ok (add_val w a b) (\<lambda>c. True)"
  by (cases "(w, a, b)" rule: add_val.cases) simp_all

lemma mul_val_reads_ok: "reads_ok (mul_val w a b) (\<lambda>c. True)"
  by (cases "(w, a, b)" rule: mul_val.cases) simp_all

lemma convert_reads_ok: "reads_ok (convert t a) (\<lambda>b. True)"
  by (cases "(t, a)" rule: convert.cases) (auto simp: string_of_cstr_eq)

lemma insert_val_reads_ok: "reads_ok (insert_val os a) (\<lambda>os'. True)"
  by (cases a) (auto simp: put_cstr_eq string_of_cstr_eq)

lemma assign_reads_ok: "reads_ok (assign b s) (\<lambda>s'. s' = Holds b)"
  by (cases s) simp_all

lemma declare_init_reads_ok:
  "reads_ok (declare_init b s) (\<lambda>s'. s = Undeclared \<and> s' = Holds b)"
  by (cases s) simp_all

lemma declare_const_reads_ok:
  "reads_ok (declare_const b s) (\<lambda>s'. s = Undeclared \<and> s' = Const b)"
  by (cases s) simp_all

lemma declare_uninit_reads_ok:
  "reads_ok (declare_uninit s) (\<lambda>s'. s = Undeclared)"
  by (cases s) simp_all

section \<open>Soundness\<close>

lemmas binop_reads_ok =
  outcome_binop [where X = "\<lambda>e. e \<noteq> IndeterminateRead" and Pa = "\<lambda>a. True"
    and Pb = "\<lambda>a. True" and R = "\<lambda>a. True", simplified]

lemma assign_var_reads_ok:
  assumes "assigned B E"
  shows "reads_ok
    (case E v of
       None \<Rightarrow> Inl NotDeclared
     | Some ob \<Rightarrow>
         bind_res (convert (otype ob) a) (\<lambda>b.
         bind_res (assign b (oslot ob)) (\<lambda>s.
         bind_res (rd s) (\<lambda>r. Inr (r, set_obj E v (otype ob) s)))))
    (\<lambda>(r, E'). assigned (insert v B) E')"
proof (cases "E v")
  case None
  then show ?thesis by simp
next
  case (Some ob)
  have "reads_ok (bind_res (assign b (oslot ob))
      (\<lambda>s. bind_res (rd s) (\<lambda>r. Inr (r, set_obj E v (otype ob) s))))
    (\<lambda>(r, E'). assigned (insert v B) E')" for b
    by (rule outcome_bind [OF assign_reads_ok]) (simp add: assigned_insert assms)
  then show ?thesis
    unfolding Some option.case by (intro outcome_bind [OF convert_reads_ok])
qed

lemma dexp_sound:
  assumes "dexp A e = Some B" and "assigned A E"
  shows "reads_ok (eval w e E) (\<lambda>(a, E'). assigned B E')"
  using assms
proof (induction e arbitrary: A B E)
  case (Var v)
  then have "v \<in> A" and "B = A"
    by (simp_all split: if_splits)
  with assigned_rd [OF Var.prems(2), of v] Var.prems(2) show ?case
    by auto
next
  case (Add e1 e2)
  then obtain C where e1: "dexp A e1 = Some C" and e2: "dexp C e2 = Some B"
    by (auto split: Option.bind_splits)
  show ?case
    unfolding eval.simps
    by (rule binop_reads_ok [OF Add.IH(1) [OF e1 Add.prems(2)] Add.IH(2) [OF e2]
          add_val_reads_ok])
next
  case (Mul e1 e2)
  then obtain C where e1: "dexp A e1 = Some C" and e2: "dexp C e2 = Some B"
    by (auto split: Option.bind_splits)
  show ?case
    unfolding eval.simps
    by (rule binop_reads_ok [OF Mul.IH(1) [OF e1 Mul.prems(2)] Mul.IH(2) [OF e2]
          mul_val_reads_ok])
next
  case (Asg v e)
  then obtain C where e: "dexp A e = Some C" and B: "B = insert v C"
    by auto
  show ?case
    unfolding eval.simps B
    by (rule outcome_bind2 [OF Asg.IH [OF e Asg.prems(2)]]) (rule assign_var_reads_ok)
qed auto

lemma initialiser_reads_ok:
  assumes "dexp A e = Some B" and "assigned A E"
  shows "reads_ok (bind_res (eval w e E) (\<lambda>(a, E1). bind_res (convert t a) (\<lambda>b. Inr (b, E1))))
    (\<lambda>(b, E1). assigned B E1)"
  by (rule outcome_bind2 [OF dexp_sound [OF assms]])
    (auto intro: outcome_bind [OF convert_reads_ok])

lemma ddeclarator_sound:
  assumes "ddeclarator d A = Some B" and "assigned A E"
  shows "reads_ok (declarator w t d E) (assigned B)"
proof (cases d)
  case (Pair v init)
  show ?thesis
  proof (cases init)
    case None
    with Pair assms show ?thesis
      by (auto intro!: outcome_bind [OF declare_uninit_reads_ok] simp: assigned_new)
  next
    case (Some e)
    with Pair assms(1) obtain C where e: "dexp A e = Some C" and B: "B = insert v C"
      by auto
    have "reads_ok
      (bind_res (bind_res (eval w e E) (\<lambda>(a, E1). bind_res (convert t a) (\<lambda>b. Inr (b, E1))))
        (\<lambda>(b, E1). bind_res (declare_init b (slot_of E1 v)) (\<lambda>s. Inr (set_obj E1 v t s))))
      (assigned B)"
      using initialiser_reads_ok [OF e assms(2)]
      by (rule outcome_bind2)
        (auto intro!: outcome_bind [OF declare_init_reads_ok] simp: B assigned_insert)
    then show ?thesis
      by (cases "eval w e E") (simp_all add: Pair Some bind_res_assoc split: prod.splits)
  qed
qed

lemma ddeclarators_sound:
  assumes "ddeclarators ds A = Some B" and "assigned A E"
  shows "reads_ok (declarators w t ds E) (assigned B)"
  using assms
proof (induction ds arbitrary: A E)
  case Nil
  then show ?case by simp
next
  case (Cons d ds)
  then obtain C where d: "ddeclarator d A = Some C" and ds: "ddeclarators ds C = Some B"
    by (auto split: Option.bind_splits)
  show ?case
    unfolding declarators.simps
    by (rule outcome_bind [OF ddeclarator_sound [OF d Cons.prems(2)]]) (rule Cons.IH [OF ds])
qed

lemma dexps_sound:
  assumes "dexps A es = Some B" and "assigned A (denv s)"
  shows "reads_ok (insert_all w es s) (\<lambda>s'. assigned B (denv s'))"
  using assms
proof (induction es arbitrary: A s)
  case Nil
  then show ?case by simp
next
  case (Cons e es)
  then obtain C where e: "dexp A e = Some C" and es: "dexps C es = Some B"
    by (auto split: Option.bind_splits)
  show ?case
    unfolding insert_all.simps
  proof (rule outcome_bind2 [OF dexp_sound [OF e Cons.prems(2)]])
    fix a E1 assume "assigned C E1"
    then show "reads_ok
        (bind_res (insert_val (dout s) a) (\<lambda>os. insert_all w es \<lparr>denv = E1, dout = os\<rparr>))
        (\<lambda>s'. assigned B (denv s'))"
      by (intro outcome_bind [OF insert_val_reads_ok]) (simp add: Cons.IH [OF es])
  qed
qed

lemma dcom_sound:
  assumes "dcom c A = Some B" and "assigned A (denv s)"
  shows "reads_ok (exec w c s) (\<lambda>(r, s'). assigned B (denv s'))"
proof (cases c)
  case (Decl t ds)
  with assms(1) have "ddeclarators ds A = Some B" by simp
  then have "reads_ok (declarators w t ds (denv s)) (assigned B)"
    using assms(2) by (rule ddeclarators_sound)
  then show ?thesis
    unfolding Decl exec.simps by (rule outcome_bind) simp
next
  case (ConstDecl t v e)
  with assms(1) obtain C where e: "dexp A e = Some C" and B: "B = insert v C"
    by auto
  have "reads_ok
    (bind_res (bind_res (eval w e (denv s)) (\<lambda>(a, E1). bind_res (convert t a) (\<lambda>b. Inr (b, E1))))
      (\<lambda>(b, E1). bind_res (declare_const b (slot_of E1 v))
         (\<lambda>c. Inr (None, s\<lparr>denv := set_obj E1 v t c\<rparr>))))
    (\<lambda>(r, s'). assigned B (denv s'))"
    using initialiser_reads_ok [OF e assms(2)]
    by (rule outcome_bind2)
      (auto intro!: outcome_bind [OF declare_const_reads_ok] simp: B assigned_insert)
  then show ?thesis
    by (cases "eval w e (denv s)") (simp_all add: ConstDecl bind_res_assoc split: prod.splits)
next
  case (ExprStmt e)
  with assms(1) have e: "dexp A e = Some B" by simp
  show ?thesis
    unfolding ExprStmt exec.simps
    by (rule outcome_bind2 [OF dexp_sound [OF e assms(2)]]) simp
next
  case (Cout es)
  with assms(1) have es: "dexps A es = Some B" by simp
  show ?thesis
    unfolding Cout exec.simps
    by (rule outcome_bind [OF dexps_sound [OF es assms(2)]]) simp
next
  case (Return e)
  with assms(1) have e: "dexp A e = Some B" by simp
  show ?thesis
    unfolding Return exec.simps
    by (rule outcome_bind2 [OF dexp_sound [OF e assms(2)]]) simp
qed

lemma dprog_sound:
  assumes "dprog cs A = Some B" and "assigned A (denv s)"
  shows "reads_ok (run w cs s) (\<lambda>r. True)"
  using assms
proof (induction cs arbitrary: A s)
  case Nil
  then show ?case by simp
next
  case (Cons c cs)
  then obtain C where c: "dcom c A = Some C" and cs: "dprog cs C = Some B"
    by (auto split: Option.bind_splits)
  show ?case
    unfolding run.simps
  proof (rule outcome_bind2 [OF dcom_sound [OF c Cons.prems(2)]])
    fix r and s' :: cstate
    assume "assigned C (denv s')"
    then show "reads_ok (case r of None \<Rightarrow> run w cs s' | Some a \<Rightarrow> Inr (Some a, s'))
        (\<lambda>r. True)"
      using Cons.IH [OF cs, of s'] by (cases r) simp_all
  qed
qed

lemma run_main_reads_ok:
  assumes "dprog p {} = Some B"
  shows "run_main w p os \<noteq> Inl IndeterminateRead"
proof -
  have "reads_ok (run w p \<lparr>denv = no_vars, dout = os\<rparr>) (\<lambda>r. True)"
    using assms by (rule dprog_sound) simp
  then have "reads_ok (run_main w p os) (\<lambda>r. True)"
    unfolding run_main_def
    by (rule outcome_bind) (auto split: option.splits val.splits)
  then show ?thesis
    by (cases "run_main w p os") auto
qed

end
