(* ===== verification/Program_Text.thy ===== *)
theory Program_Text
  imports Definite_Init Variables
begin

text \<open>
  The text of \<open>main\<close> in the syntax of theory \<open>Language\<close>, statement by statement as the
  source has it, and the proof that the statement definitions of theory \<open>Variables\<close> are
  what the meaning of that text is. The locals of \<open>Variables\<close> are a record with one typed
  slot per variable; \<open>env_of\<close> reads it as an environment of named objects. Each statement
  of \<open>main_body\<close> then does on the record what the corresponding statement of \<open>program\<close>
  does on the environment, in every state and including the error when there is one.
  The statement definitions work on 32-bit words; \<open>vint\<close> reads such a word as the integer
  value of the language, and the agreement is with the meaning at width 32.
  The text also passes the checker of theory \<open>Typing\<close>, and so does the text without the
  assignment of line 7: that a variable is read before it has a value is not something the
  types can show; the analysis of theory \<open>Definite_Init\<close> does show it. The last section runs the text at other widths of \<open>int\<close>: the largest
  value the program computes is 150, so nine bits are enough and fewer are not.
\<close>

section \<open>The text of main\<close>

definition sum_exp :: exp where
  "sum_exp = Add (Add (Var ''x'') (Var ''y'')) (Var ''z'')"

definition body_text :: "com list" where
  "body_text =
     [Decl TInt [(''n'', None)],
      ExprStmt (Asg ''n'' (IntLit 10)),
      Decl TInt [(''myNum'', Some (IntLit 5))],
      Decl TDouble [(''myFloatNum'', Some (FloatLit (599 / 100)))],
      Decl TChar [(''myLetter'', Some (CharLit CHR ''D''))],
      Decl TString [(''myText'', Some (StrLit ''Hello''))],
      Decl TBool [(''myBoolean'', Some (BoolLit True))],
      Cout [Var ''n'', Var ''myNum'', Var ''myFloatNum'', Var ''myLetter'', Var ''myText'',
        Var ''myBoolean'', StrLit newline],
      Decl TInt [(''x'', Some (IntLit 4)), (''y'', Some (IntLit 6)), (''z'', Some (IntLit 9))],
      Cout [StrLit newline, sum_exp],
      ExprStmt (Asg ''x'' (Asg ''y'' (Asg ''z'' (IntLit 50)))),
      Cout [StrLit newline, sum_exp],
      ConstDecl TInt ''minutesPerHour'' (IntLit 60),
      Cout [StrLit (''##################################'' @ newline)],
      Decl TInt [(''length'', Some (IntLit 4))],
      Decl TInt [(''width'', Some (IntLit 6))],
      Decl TInt [(''area'', Some (Mul (Var ''length'') (Var ''width'')))],
      Cout [StrLit ''Length is: '', Var ''length'', StrLit newline],
      Cout [StrLit ''Width is: '', Var ''width'', StrLit newline],
      Cout [StrLit ''Area of the rectangle is: '', Var ''area'', StrLit newline]]"

definition program :: "com list" where
  "program = body_text @ [Return (IntLit 0)]"

section \<open>The record of locals as an environment\<close>

definition vint :: "cint \<Rightarrow> val" where
  "vint c = VInt (sint c)"

definition obj :: "ty \<Rightarrow> ('a \<Rightarrow> val) \<Rightarrow> 'a slot \<Rightarrow> object option" where
  "obj t mk s =
     (if s = Undeclared then None else Some \<lparr>otype = t, oslot = map_slot mk s\<rparr>)"

definition env_of :: "locals \<Rightarrow> env" where
  "env_of f = (\<lambda>v. Option.bind (map_of
       [(''n'', obj TInt vint (n f)), (''myNum'', obj TInt vint (myNum f)),
        (''myFloatNum'', obj TDouble VDouble (myFloatNum f)),
        (''myLetter'', obj TChar VChar (myLetter f)),
        (''myText'', obj TString VString (myText f)),
        (''myBoolean'', obj TBool VBool (myBoolean f)),
        (''x'', obj TInt vint (x f)), (''y'', obj TInt vint (y f)), (''z'', obj TInt vint (z f)),
        (''minutesPerHour'', obj TInt vint (minutesPerHour f)),
        (''length'', obj TInt vint (length_var f)), (''width'', obj TInt vint (width f)),
        (''area'', obj TInt vint (area f))] v) id)"

definition state_of :: "world \<Rightarrow> cstate" where
  "state_of w = \<lparr>denv = env_of (frame w), dout = cout w\<rparr>"

definition goes_on :: "error + world \<Rightarrow> error + (val option \<times> cstate)" where
  "goes_on r = bind_res r (\<lambda>w. Inr (None, state_of w))"

section \<open>Reading and updating the environment of a record\<close>

lemma slot_of_obj [simp]:
  "(case obj t mk s of None \<Rightarrow> Undeclared | Some ob \<Rightarrow> oslot ob) = map_slot mk s"
  by (cases s) (simp_all add: obj_def)

lemma env_of_simps:
  "env_of f ''n'' = obj TInt vint (n f)"
  "env_of f ''myNum'' = obj TInt vint (myNum f)"
  "env_of f ''myFloatNum'' = obj TDouble VDouble (myFloatNum f)"
  "env_of f ''myLetter'' = obj TChar VChar (myLetter f)"
  "env_of f ''myText'' = obj TString VString (myText f)"
  "env_of f ''myBoolean'' = obj TBool VBool (myBoolean f)"
  "env_of f ''x'' = obj TInt vint (x f)"
  "env_of f ''y'' = obj TInt vint (y f)"
  "env_of f ''z'' = obj TInt vint (z f)"
  "env_of f ''minutesPerHour'' = obj TInt vint (minutesPerHour f)"
  "env_of f ''length'' = obj TInt vint (length_var f)"
  "env_of f ''width'' = obj TInt vint (width f)"
  "env_of f ''area'' = obj TInt vint (area f)"
  by (simp_all add: env_of_def)

lemma slot_of_env_of:
  "slot_of (env_of f) ''n'' = map_slot vint (n f)"
  "slot_of (env_of f) ''myNum'' = map_slot vint (myNum f)"
  "slot_of (env_of f) ''myFloatNum'' = map_slot VDouble (myFloatNum f)"
  "slot_of (env_of f) ''myLetter'' = map_slot VChar (myLetter f)"
  "slot_of (env_of f) ''myText'' = map_slot VString (myText f)"
  "slot_of (env_of f) ''myBoolean'' = map_slot VBool (myBoolean f)"
  "slot_of (env_of f) ''x'' = map_slot vint (x f)"
  "slot_of (env_of f) ''y'' = map_slot vint (y f)"
  "slot_of (env_of f) ''z'' = map_slot vint (z f)"
  "slot_of (env_of f) ''minutesPerHour'' = map_slot vint (minutesPerHour f)"
  "slot_of (env_of f) ''length'' = map_slot vint (length_var f)"
  "slot_of (env_of f) ''width'' = map_slot vint (width f)"
  "slot_of (env_of f) ''area'' = map_slot vint (area f)"
  by (simp_all add: slot_of_def env_of_simps)

lemma env_of_update:
  fixes f :: locals
  shows
    "env_of (f\<lparr>n := si\<rparr>) = (env_of f)(''n'' := obj TInt vint si)"
    "env_of (f\<lparr>myNum := si\<rparr>) = (env_of f)(''myNum'' := obj TInt vint si)"
    "env_of (f\<lparr>myFloatNum := sd\<rparr>) = (env_of f)(''myFloatNum'' := obj TDouble VDouble sd)"
    "env_of (f\<lparr>myLetter := sc\<rparr>) = (env_of f)(''myLetter'' := obj TChar VChar sc)"
    "env_of (f\<lparr>myText := ss\<rparr>) = (env_of f)(''myText'' := obj TString VString ss)"
    "env_of (f\<lparr>myBoolean := sb\<rparr>) = (env_of f)(''myBoolean'' := obj TBool VBool sb)"
    "env_of (f\<lparr>x := si\<rparr>) = (env_of f)(''x'' := obj TInt vint si)"
    "env_of (f\<lparr>y := si\<rparr>) = (env_of f)(''y'' := obj TInt vint si)"
    "env_of (f\<lparr>z := si\<rparr>) = (env_of f)(''z'' := obj TInt vint si)"
    "env_of (f\<lparr>minutesPerHour := si\<rparr>) = (env_of f)(''minutesPerHour'' := obj TInt vint si)"
    "env_of (f\<lparr>length_var := si\<rparr>) = (env_of f)(''length'' := obj TInt vint si)"
    "env_of (f\<lparr>width := si\<rparr>) = (env_of f)(''width'' := obj TInt vint si)"
    "env_of (f\<lparr>area := si\<rparr>) = (env_of f)(''area'' := obj TInt vint si)"
  by (rule ext, simp add: env_of_def)+

lemma env_of_no_locals: "env_of no_locals = no_vars"
  by (rule ext) (simp add: env_of_def no_locals_def obj_def no_vars_def)

lemma state_of_entry: "state_of (main_entry os) = \<lparr>denv = no_vars, dout = os\<rparr>"
  by (simp add: state_of_def main_entry_def env_of_no_locals)

section \<open>Values of type int\<close>

lemma add_val_vint:
  "add_val 32 (vint a) (vint b) = bind_res (add_int a b) (\<lambda>c. Inr (vint c))"
  by (simp add: vint_def add_int_def in_width_32 sint_plus_in_range)

lemma mul_val_vint:
  "mul_val 32 (vint a) (vint b) = bind_res (mul_int a b) (\<lambda>c. Inr (vint c))"
  by (simp add: vint_def mul_int_def in_width_32 sint_times_in_range)

lemma insert_val_vint: "insert_val os (vint i) = Inr (put_int os i)"
  by (simp add: vint_def put_int_def)

lemma vint_numeral:
  "in_int_range (numeral k) \<Longrightarrow> vint (numeral k) = VInt (numeral k)"
  using sint_word_of_int_in_range [of "numeral k"] by (simp add: vint_def)

lemma type_of_vint [simp]: "type_of (vint a) = TInt"
  by (simp add: vint_def)

lemmas text_defs = slot_of_upd state_of_def goes_on_def slot_of_env_of env_of_simps
  env_of_update set_obj_as_update obj_def int_range_defs rd_map_slot bind_res_assoc
  add_val_vint mul_val_vint insert_val_vint in_width_32 vint_numeral

section \<open>Statement by statement\<close>

text \<open>
  For each statement of the source, the meaning of its text on the environment of a state
  is the statement definition on the state: the same next state when it completes, the
  same error when it does not.
\<close>

lemma text_decl_n:
  "exec 32 (Decl TInt [(''n'', None)]) (state_of w) = goes_on (decl_n w)"
  by (cases "n (frame w)"; simp add: text_defs decl_n_def)

lemma text_assign_n:
  "exec 32 (ExprStmt (Asg ''n'' (IntLit 10))) (state_of w) = goes_on (assign_n w)"
  by (cases "n (frame w)"; simp add: text_defs assign_n_def)

lemma text_decl_myNum:
  "exec 32 (Decl TInt [(''myNum'', Some (IntLit 5))]) (state_of w) = goes_on (decl_myNum w)"
  by (cases "myNum (frame w)"; simp add: text_defs decl_myNum_def)

lemma text_decl_myFloatNum:
  "exec 32 (Decl TDouble [(''myFloatNum'', Some (FloatLit (599 / 100)))]) (state_of w) = goes_on (decl_myFloatNum w)"
  by (cases "myFloatNum (frame w)"; simp add: text_defs decl_myFloatNum_def)

lemma text_decl_myLetter:
  "exec 32 (Decl TChar [(''myLetter'', Some (CharLit CHR ''D''))]) (state_of w) = goes_on (decl_myLetter w)"
  by (cases "myLetter (frame w)"; simp add: text_defs decl_myLetter_def)

lemma text_decl_myText:
  "exec 32 (Decl TString [(''myText'', Some (StrLit ''Hello''))]) (state_of w) = goes_on (decl_myText w)"
  by (cases "myText (frame w)"; simp add: text_defs decl_myText_def)

lemma text_decl_myBoolean:
  "exec 32 (Decl TBool [(''myBoolean'', Some (BoolLit True))]) (state_of w) = goes_on (decl_myBoolean w)"
  by (cases "myBoolean (frame w)"; simp add: text_defs decl_myBoolean_def)

lemma text_print_values:
  "exec 32 (Cout [Var ''n'', Var ''myNum'', Var ''myFloatNum'', Var ''myLetter'', Var ''myText'',
       Var ''myBoolean'', StrLit newline]) (state_of w) = goes_on (print_values w)"
  by (simp add: text_defs print_values_def put_defs)

lemma text_decl_x_y_z:
  "exec 32 (Decl TInt [(''x'', Some (IntLit 4)), (''y'', Some (IntLit 6)), (''z'', Some (IntLit 9))]) (state_of w) = goes_on (decl_x_y_z w)"
  by (cases "x (frame w)"; cases "y (frame w)"; cases "z (frame w)";
      simp add: text_defs decl_x_y_z_def)

lemma text_print_sum:
  "exec 32 (Cout [StrLit newline, sum_exp]) (state_of w) = goes_on (print_sum w)"
  by (simp add: text_defs sum_exp_def print_sum_def sum_x_y_z_def put_defs)

lemma text_assign_x_y_z:
  "exec 32 (ExprStmt (Asg ''x'' (Asg ''y'' (Asg ''z'' (IntLit 50))))) (state_of w) = goes_on (assign_x_y_z w)"
  by (cases "z (frame w)"; cases "y (frame w)"; cases "x (frame w)";
      simp add: text_defs assign_x_y_z_def)

lemma text_decl_minutesPerHour:
  "exec 32 (ConstDecl TInt ''minutesPerHour'' (IntLit 60)) (state_of w) = goes_on (decl_minutesPerHour w)"
  by (cases "minutesPerHour (frame w)"; simp add: text_defs decl_minutesPerHour_def)

lemma text_print_separator:
  "exec 32 (Cout [StrLit (''##################################'' @ newline)]) (state_of w) = goes_on (print_separator w)"
  by (simp add: text_defs print_separator_def put_defs)

lemma text_decl_length:
  "exec 32 (Decl TInt [(''length'', Some (IntLit 4))]) (state_of w) = goes_on (decl_length w)"
  by (cases "length_var (frame w)"; simp add: text_defs decl_length_def)

lemma text_decl_width:
  "exec 32 (Decl TInt [(''width'', Some (IntLit 6))]) (state_of w) = goes_on (decl_width w)"
  by (cases "width (frame w)"; simp add: text_defs decl_width_def)

lemma text_decl_area:
  "exec 32 (Decl TInt [(''area'', Some (Mul (Var ''length'') (Var ''width'')))]) (state_of w) = goes_on (decl_area w)"
  by (cases "length_var (frame w)"; cases "width (frame w)"; cases "area (frame w)";
      simp add: text_defs decl_area_def)

lemma text_print_length:
  "exec 32 (Cout [StrLit ''Length is: '', Var ''length'', StrLit newline]) (state_of w) = goes_on (print_length w)"
  by (simp add: text_defs print_length_def put_defs)

lemma text_print_width:
  "exec 32 (Cout [StrLit ''Width is: '', Var ''width'', StrLit newline]) (state_of w) = goes_on (print_width w)"
  by (simp add: text_defs print_width_def put_defs)

lemma text_print_area:
  "exec 32 (Cout [StrLit ''Area of the rectangle is: '', Var ''area'', StrLit newline]) (state_of w) = goes_on (print_area w)"
  by (simp add: text_defs print_area_def put_defs)

lemmas stmt_texts_agree =
  text_decl_n text_assign_n text_decl_myNum text_decl_myFloatNum
  text_decl_myLetter text_decl_myText text_decl_myBoolean text_print_values
  text_decl_x_y_z text_print_sum text_assign_x_y_z text_decl_minutesPerHour
  text_print_separator text_decl_length text_decl_width text_decl_area
  text_print_length text_print_width text_print_area

section \<open>The whole body\<close>

definition agrees :: "com \<Rightarrow> stmt \<Rightarrow> bool" where
  "agrees c st \<longleftrightarrow> (\<forall>w. exec 32 c (state_of w) = goes_on (st w))"

lemma body_agrees: "list_all2 agrees body_text main_body"
  unfolding body_text_def main_body_def
  by (intro list.rel_intros) (simp_all only: agrees_def stmt_texts_agree simp_thms)

lemma run_agrees:
  assumes "list_all2 agrees cs sts"
  shows "run 32 cs (state_of w) = goes_on (exec_seq sts w)"
  using assms
proof (induction arbitrary: w rule: list_all2_induct)
  case Nil
  show ?case by (simp add: goes_on_def)
next
  case (Cons c cs st sts)
  then have "exec 32 c (state_of w) = goes_on (st w)"
    by (simp add: agrees_def)
  with Cons.IH show ?case
    by (cases "st w") (simp_all add: goes_on_def)
qed

lemma run_program:
  "run 32 program (state_of w) =
     bind_res (exec_seq main_body w) (\<lambda>w'. Inr (Some (VInt 0), state_of w'))"
proof -
  have "run 32 body_text (state_of w) = goes_on (exec_seq main_body w)"
    using body_agrees by (rule run_agrees)
  then show ?thesis
    by (cases "exec_seq main_body w")
      (simp_all add: program_def run_append goes_on_def in_width_32 int_range_defs)
qed

text \<open>
  C22. The statement definitions are the meaning of the program text. Running the text of
  \<open>main\<close>, written in the syntax of the language and given its meaning by the evaluator of
  expressions and statements at the width of 32 bits, returns the value that \<open>main\<close> returns,
  read as a signed integer, with the same stream, or fails with the same error, for every
  initial state of the stream.
\<close>

theorem program_text_means_main:
  "run_main 32 program os = bind_res (main os) (\<lambda>(v, os'). Inr (sint v, os'))"
proof -
  have "run 32 program \<lparr>denv = no_vars, dout = os\<rparr> =
      bind_res (exec_seq main_body (main_entry os)) (\<lambda>w'. Inr (Some (VInt 0), state_of w'))"
    using run_program [of "main_entry os"] by (simp only: state_of_entry)
  then show ?thesis
    by (cases "exec_seq main_body (main_entry os)")
      (simp_all add: run_main_def main_def state_of_def)
qed

section \<open>The text passes the checker\<close>

definition program_types :: tyenv where
  "program_types =
     no_names(''n'' \<mapsto> (TInt, False), ''myNum'' \<mapsto> (TInt, False),
       ''myFloatNum'' \<mapsto> (TDouble, False), ''myLetter'' \<mapsto> (TChar, False),
       ''myText'' \<mapsto> (TString, False), ''myBoolean'' \<mapsto> (TBool, False),
       ''x'' \<mapsto> (TInt, False), ''y'' \<mapsto> (TInt, False), ''z'' \<mapsto> (TInt, False),
       ''minutesPerHour'' \<mapsto> (TInt, True), ''length'' \<mapsto> (TInt, False),
       ''width'' \<mapsto> (TInt, False), ''area'' \<mapsto> (TInt, False))"

lemma check_program: "9 \<le> w \<Longrightarrow> check w program no_names = Some program_types"
  by (simp add: program_def body_text_def sum_exp_def program_types_def no_names_def
      initialiser_ok_def in_width_from_9)

lemma check_without_line_7:
  "check 32 (body_text ! 0 # drop 2 program) no_names = Some program_types"
  by (simp add: program_def body_text_def sum_exp_def program_types_def no_names_def
      initialiser_ok_def in_width_32 int_range_defs)

lemma run_without_line_7:
  "run_main 32 (body_text ! 0 # drop 2 program) os = Inl IndeterminateRead"
  by (simp add: program_def body_text_def run_main_def slot_of_def set_obj_def no_vars_def
      in_width_32 int_range_defs)

text \<open>
  C29. A text that passes the checker can only fail by undefined behaviour. For every width
  of \<open>int\<close>, every text in the syntax of the language that the checker accepts at that
  width, and every initial stream, the run returns a value within the range of \<open>int\<close> or
  stops with a read of an indeterminate value or a signed overflow: a use of an undeclared
  name, a second declaration, an assignment to a constant and an operand of the wrong type
  are excluded by the checker, for every text and not only for that of \<open>main\<close>.
\<close>

theorem checked_text_fails_only_by_undefined_behaviour:
  assumes "check w p no_names = Some G"
  shows "(\<exists>i os'. run_main w p os = Inr (i, os') \<and> in_width w i) \<or>
    run_main w p os = Inl IndeterminateRead \<or> run_main w p os = Inl SignedOverflow"
  using run_main_sound [OF assms, of os] by (cases "run_main w p os") auto

theorem checked_text_fails_only_by_undefined_behaviour_witness:
  "(\<exists>i os'. run_main 32 program cout_init = Inr (i, os') \<and> in_width 32 i) \<or>
   run_main 32 program cout_init = Inl IndeterminateRead \<or>
   run_main 32 program cout_init = Inl SignedOverflow"
  using checked_text_fails_only_by_undefined_behaviour [of 32 program program_types cout_init]
  by (simp add: check_program)

section \<open>The text gives every variable a value before it reads it\<close>

lemma program_initialises:
  "dprog program {} =
     Some {''n'', ''myNum'', ''myFloatNum'', ''myLetter'', ''myText'', ''myBoolean'', ''x'', ''y'',
       ''z'', ''minutesPerHour'', ''length'', ''width'', ''area''}"
  by (auto simp: program_def body_text_def sum_exp_def)

lemma reads_without_line_7: "dprog (body_text ! 0 # drop 2 program) {} = None"
  by (simp add: program_def body_text_def)

text \<open>
  C21. A text that passes the checker and the analysis of definite initialisation can only
  fail by signed overflow. For every width of \<open>int\<close>, every text in the syntax of the language
  that both accept, and every initial stream, the run returns a value within the range of
  \<open>int\<close> or stops with a signed overflow; it never reads a variable that has no value. The
  text of \<open>main\<close> passes both; without the assignment of line 7 it passes the checker only.
\<close>

theorem initialised_text_fails_only_by_overflow:
  assumes "check w p no_names = Some G" and "dprog p {} = Some A"
  shows "(\<exists>i os'. run_main w p os = Inr (i, os') \<and> in_width w i) \<or>
    run_main w p os = Inl SignedOverflow"
  using run_main_sound [OF assms(1), of os] run_main_reads_ok [OF assms(2), of w os]
  by (cases "run_main w p os") auto

theorem initialised_text_fails_only_by_overflow_witness:
  "(\<exists>i os'. run_main 32 program cout_init = Inr (i, os') \<and> in_width 32 i) \<or>
   run_main 32 program cout_init = Inl SignedOverflow"
  using initialised_text_fails_only_by_overflow [of 32 program program_types _ cout_init]
  by (simp add: check_program program_initialises)

section \<open>Other widths of int\<close>

text \<open>
  The language leaves the width of \<open>int\<close> to the implementation and requires at least 16
  bits. The text of \<open>main\<close> behaves in the same way at every width from 9 bits on. With 7
  or 8 bits its literals still fit but \<open>x+y+z\<close> after the chained assignment overflows;
  with fewer bits the literal 50 does not fit, and below 5 bits not even the 10 of line 7.
\<close>

lemmas run_text_defs = program_def body_text_def sum_exp_def run_main_def slot_of_def
  set_obj_def no_vars_def

lemma run_text_width: "9 \<le> w \<Longrightarrow> run_main w program os = run_main 9 program os"
  by (simp add: run_text_defs in_width_from_9)

lemma run_text_returns: "\<exists>os'. run_main 9 program os = Inr (0, os')"
  by (simp add: run_text_defs in_width_9)

lemma run_text_width_8: "run_main 8 program os = Inl SignedOverflow"
  by (simp add: run_text_defs in_width_8)

lemma check_text_width_8: "check 8 program no_names = Some program_types"
  by (simp add: run_text_defs program_types_def no_names_def initialiser_ok_def in_width_8)

lemma run_text_narrow:
  assumes "w \<le> 8"
  shows "\<exists>e. run_main w program os = Inl e"
proof -
  from assms have "w \<in> {0, 1, 2, 3, 4, 5, 6, 7, 8}"
    by auto
  then show ?thesis
    by (elim insertE emptyE) (simp_all add: run_text_defs in_width_def)
qed

text \<open>
  C27. The program does not depend on \<open>int\<close> having 32 bits. Running the text of \<open>main\<close>
  with an \<open>int\<close> of \<open>w\<close> bits gives the result of the run with 32 bits, the same return
  value and the same characters on the stream, exactly when \<open>w\<close> is at least 9. Every
  implementation of the language has at least 16 bits, so the output is the same on all
  of them; with fewer than 9 bits the run stops with an error.
\<close>

theorem text_runs_the_same_at_every_width:
  "run_main w program os = run_main 32 program os \<longleftrightarrow> 9 \<le> w"
proof
  assume eq: "run_main w program os = run_main 32 program os"
  show "9 \<le> w"
  proof (rule ccontr)
    assume "\<not> 9 \<le> w"
    then obtain e where "run_main w program os = Inl e"
      using run_text_narrow [of w os] by auto
    with eq run_text_width [of 32 os] run_text_returns [of os] show False
      by auto
  qed
next
  assume "9 \<le> w"
  then show "run_main w program os = run_main 32 program os"
    using run_text_width [of w os] run_text_width [of 32 os] by simp
qed

theorem text_runs_the_same_at_every_width_witness:
  "run_main 64 program cout_init = run_main 32 program cout_init"
  using text_runs_the_same_at_every_width [of 64 cout_init] by simp

end
