(* ===== verification/Spec2Isabelle.thy ===== *)
theory Spec2Isabelle
  imports Prelude CInt Storage Strings Decimal Double Double_Rounding Float_Text
    Literal_Printing Ostream Text_Shape Variables Steps Process Identifiers Language Typing
    Definite_Init Program_Text
begin

text \<open>
  \<^bold>\<open>The program.\<close> The repository holds one C++ translation unit,
  \<open>src/CPP/3_variables.cpp\<close>: a \<open>main\<close> of twenty statements without input, branches
  or loops. It declares one variable of each primitive kind (\<open>int\<close>, \<open>double\<close>, \<open>char\<close>,
  \<open>string\<close>, \<open>bool\<close>) and prints them on one line; declares three integers in one
  declaration and prints their sum; assigns 50 to all three in one chained assignment and
  prints the sum again; declares a constant; prints a line of 34 hash characters; and
  computes and prints the area of a 4 by 6 rectangle. It returns 0. What can be said of
  it is what it prints, that every step of it is defined (no read before initialisation,
  no signed overflow, no assignment to the constant), how each of its statements
  behaves in states other than the ones this run meets, and that the process which runs
  it ends with status 0 and the whole text on standard output, whenever the stream
  chooses to write.

  \<^bold>\<open>Theories.\<close>

  \<^item> \<open>Prelude\<close>: the errors a step can end in (\<open>error\<close>), results \<open>error + 'a\<close> with their
    sequencing \<open>bind_res\<close>, the newline, the collections \<open>stmt_defs\<close>, \<open>put_defs\<close> and
    \<open>slot_defs\<close> that unfold the statements, the inserters and the slot operations,
    lemmas on prefixes and subsequences of lists, and \<open>inevitable r P x\<close>: every run of a step
    relation \<open>r\<close> from \<open>x\<close> meets a state with \<open>P\<close>, with the rule that proves it from a
    measure which every step lowers.
  \<^item> \<open>CInt\<close>: the type \<open>int\<close> as a 32-bit word read by \<open>sint\<close>, with the \<open>+\<close> of line 19 and
    the \<open>*\<close> of line 38 as \<open>add_int\<close> and \<open>mul_int\<close>. Both compute at the width of the
    word and return \<open>SignedOverflow\<close> when the mathematical result is outside the range,
    which is where C++ leaves the behaviour undefined. The lemmas say that a returned
    result is the mathematical one, characterise success, and show that chained addition
    is not associative as far as definedness goes. \<open>in_width w\<close> is the range of an \<open>int\<close>
    of \<open>w\<close> bits, for the theories that do not fix the width.
  \<^item> \<open>Storage\<close>: the life of one local variable as a \<open>slot\<close> (not yet declared, declared
    without a value as by \<open>int n;\<close>, holding a value, a constant), and the four
    things the program does with a variable: \<open>declare_uninit\<close> (line 6), \<open>declare_init\<close>
    (lines 9 to 13, 18, 34 to 38), \<open>declare_const\<close> (line 28), \<open>assign\<close> (lines 7 and 22)
    and \<open>rd\<close> (every use of a name in an expression). A second declaration, an
    assignment to a constant and a read of an indeterminate value are errors. The slots
    are a \<open>preorder\<close>: \<open>s \<le> t\<close> when a variable in state \<open>s\<close> can later be in state \<open>t\<close>,
    and every operation moves a slot upwards.
  \<^item> \<open>Strings\<close>: a string literal as an array of characters that ends with the null
    character (\<open>literal\<close>), the walk to the first null character that the library uses to
    find its length (\<open>strlen\<close>, an error on an array without one), and the construction of
    a \<open>std::string\<close> from an array (\<open>string_of_cstr\<close>, line 12). The lemmas characterise
    \<open>strlen\<close> by the position of the first null character and show that a literal gives a
    string with the literal's text exactly when the text has no null character in it.
  \<^item> \<open>Decimal\<close>: the decimal text of an integer (\<open>dec_nat\<close>, \<open>show_int\<close>), as \<open>operator<<\<close>
    writes an \<open>int\<close> with the default flags, the parser \<open>read_int\<close>, the round trip between
    them, injectivity, and the number of digits.
  \<^item> \<open>Double\<close>: IEEE 754 binary64 as a 64-bit word with its fields, the rational a finite
    double denotes (\<open>dbl_val\<close>), and \<open>double_of_rat\<close>, the conversion of a decimal literal
    by rounding to nearest with ties to even (with subnormals and overflow to infinity).
    It gives the literal \<open>5.99\<close> of line 10 the bit pattern \<open>0x4017F5C28F5C28F6\<close>.
  \<^item> \<open>Double_Rounding\<close>: what \<open>double_of_rat\<close> guarantees for every rational in the normal
    range, not only for the literal of the program: \<open>ilog\<close> is the binary exponent, the
    result is a normal number within half a unit in the last place of the literal, the
    conversion is monotone and symmetric in the sign, and \<open>double_of_rat (dbl_val d) = d\<close>
    for every positive normal double below the top binade.
  \<^item> \<open>Float_Text\<close>: the text of a double under the default float format, which is the
    \<open>%g\<close> conversion of \<open>printf\<close> at the precision of the stream: \<open>fmt_fixed\<close>, \<open>fmt_exp\<close>,
    the choice between them by the decimal exponent, and the removal of trailing zeros
    (\<open>fmt_g\<close>, \<open>show_double\<close>). Staged evaluation lemmas show that the double of line 10
    prints as \<open>5.99\<close> at precision 6 and as \<open>5.9900000000000002\<close> at precision 17.
  \<^item> \<open>Literal_Printing\<close>: the two previous theories together. A decimal literal with at
    most fifteen significant digits in the normal range, converted to a double and
    written at a precision of that many digits, gives the text of the literal itself:
    the conversion error is below half a unit of the last digit, so the digits that
    \<open>exp_digits\<close> and \<open>fmt_fixed\<close> find for the double are those of the literal. This is
    why line 15 prints \<open>5.99\<close> although \<open>myFloatNum\<close> does not hold 5.99.
  \<^item> \<open>Ostream\<close>: the stream \<open>cout\<close> as a record of the characters inserted so far and
    the two flags that decide the text of a value (\<open>precision\<close>, \<open>boolalpha\<close>), with one
    inserter per operand type of \<open><<\<close> in the source: \<open>put_cstr\<close> for a string literal,
    \<open>put_str\<close> for a \<open>std::string\<close>, \<open>put_char\<close>, \<open>put_int\<close>, \<open>put_double\<close>, \<open>put_bool\<close>.
  \<^item> \<open>Text_Shape\<close>: the characters the inserters can write, for every value and every
    setting of the flags: digits and a minus sign for an \<open>int\<close>; digits, the point, the
    exponent mark and the letters of \<open>inf\<close> and \<open>nan\<close> for a \<open>double\<close>. All are printable, so
    a line break or a null character in the output can only come from a literal of the
    source.
  \<^item> \<open>Variables\<close>: the program. The record \<open>locals\<close> has one slot per variable of \<open>main\<close>
    (the variable \<open>length\<close> is the field \<open>length_var\<close>); a \<open>world\<close> is the locals and the
    stream. Each statement of the source is one definition of type
    \<open>world \<Rightarrow> error + world\<close>, named after what it does (\<open>decl_n\<close> is line 6, \<open>assign_n\<close>
    line 7, \<open>print_values\<close> line 15, \<open>decl_x_y_z\<close> line 18, \<open>print_sum\<close> lines 19 and 23,
    \<open>assign_x_y_z\<close> line 22, \<open>decl_area\<close> line 38, and so on); \<open>main_body\<close> is the list of
    them in source order, \<open>exec_seq\<close> runs a list and stops at the first error, and
    \<open>main\<close> runs the body from \<open>main_entry\<close> and returns 0 with the stream. The theory
    characterises the successful runs of every statement (\<open>stmt_Inr_iffs\<close>), proves that
    an invariant of every statement is an invariant of every run (\<open>preserves\<close>), and
    derives the invariants of the body: the constant keeps its value, the output only
    grows, and variables only move upwards in the life cycle (\<open>frame_le\<close>).
  \<^item> \<open>Steps\<close>: the run statement by statement. A configuration is a program point (the
    number of statements executed) with the state there; \<open>step\<close> executes the statement at
    the point and \<open>reach\<close> collects the configurations reached from the entry of \<open>main\<close>.
    Every program point is annotated with the state the program is in when it arrives
    there (\<open>point_frame\<close> for the locals, \<open>point_text\<close> for the output). The theory proves
    that reachability by steps is the same as running a prefix of the body with
    \<open>exec_seq\<close>, that the annotation is exact, that every reachable configuration before
    the end can step, and that every run ends after the twentieth statement.
  \<^item> \<open>Process\<close>: the program as a process. Its states are \<open>Startup\<close>, \<open>Running\<close> (a
    configuration of \<open>main\<close> and the characters already on standard output), \<open>Returned\<close>
    and \<open>Exited\<close>; its actions are the construction of the streams before \<open>main\<close> (the
    effect of line 1), a statement of \<open>main\<close>, a write by the stream of some of the
    characters it holds, \<open>return 0\<close> (line 45), and the exit, which writes what is left
    and reports the low eight bits of the returned value. \<open>perform\<close> executes one action,
    \<open>pstep\<close> is a step by some action, \<open>run_schedule\<close> a run by a list of actions. When the
    stream writes is not decided by the program, so a property of the process is proved
    for every schedule: the invariant \<open>proc_inv\<close>, the measure \<open>todo\<close> that every step
    lowers, and from them that the exit with the whole text is inevitable and is the
    only way a run can end.
  \<^item> \<open>Identifiers\<close>: the rule for names in the comment of line 25 (letters, digits and
    underscore, not starting with a digit) as the predicate \<open>valid_identifier\<close>, and the
    names of the thirteen locals (\<open>var_names\<close>). The names in scope are always a
    subsequence of them, distinct and valid, and none of them hides \<open>cout\<close> or \<open>string\<close>,
    the names that the directive of line 2 lets \<open>main\<close> take from \<open>std\<close> (\<open>std_names\<close>).
  \<^item> \<open>Language\<close>: the fragment of C++ the source is written in, as syntax with its
    meaning. Expressions \<open>exp\<close> are literals, names, \<open>+\<close>, \<open>*\<close> and \<open>=\<close>; statements \<open>com\<close> are
    declarations (one or several declarators, with or without initialiser, \<open>const\<close>),
    expression statements, output statements and \<open>return\<close>. Values carry their type; a
    variable is an object with a declared type and a slot of \<open>Storage\<close>. \<open>eval\<close> evaluates an
    expression left to right and threads the variables through (an assignment is an
    expression), \<open>exec\<close> executes a statement, \<open>run\<close> a list of statements up to the first
    \<open>return\<close>, and \<open>run_main\<close> a body from the state in which \<open>main\<close> is entered. The
    width of \<open>int\<close> is the first argument of all of them: an \<open>int\<close> value is an integer
    within \<open>in_width w\<close>, and \<open>+\<close> and \<open>*\<close> are a signed overflow when the result is not.
    In every run of every text the variables only move forward in the life cycle of
    \<open>Storage\<close> (\<open>forward\<close>): a constant keeps its value whatever the statements are.
  \<^item> \<open>Typing\<close>: the checks of the compiler for that fragment (\<open>type_exp\<close>, \<open>check_com\<close>,
    \<open>check\<close>) and their soundness: the variables of a checked text keep their declared
    types (\<open>conforms\<close>) and every \<open>int\<close> value stays within the width, and a run of it can
    only stop with a read of an indeterminate value or a signed overflow.
  \<^item> \<open>Definite_Init\<close>: the analysis of definite initialisation for that fragment (\<open>dexp\<close>,
    \<open>dcom\<close>, \<open>dprog\<close>), which follows the text with the set of names that certainly have a
    value, and its soundness: a run of a text that passes never reads an indeterminate
    value. The soundness proofs of both checks are instances of \<open>outcome\<close> of \<open>Prelude\<close>.
  \<^item> \<open>Program_Text\<close>: the text of \<open>main\<close> in that syntax (\<open>body_text\<close> for lines 6 to 43,
    \<open>program\<close> with the \<open>return 0\<close> of line 45), and the proof that each statement
    definition of \<open>Variables\<close> is the meaning of the corresponding statement of the text,
    in every state and error included: the record of locals is read as an environment
    by \<open>env_of\<close>, a 32-bit word as an integer by \<open>vint\<close>. Hence \<open>run_main 32 program\<close> is
    \<open>main\<close>. The text passes the checker and the analysis of definite initialisation;
    without line 7 it passes the checker only. Its run is the same at every width of \<open>int\<close>
    from 9 bits on and an error below.
  \<^item> This theory: the expected text (\<open>expected_output\<close>, and \<open>main_text\<close> for arbitrary
    flags), the locals at exit (\<open>final_locals\<close>), splitting of text into lines
    (\<open>lines_of\<close>), and the properties of the whole run and of the process.

  \<^bold>\<open>Correspondence with the code.\<close> A declaration with an initialiser reads its
  initialiser and then declares; \<open>x = y = z = 50\<close> is right-associative, so the model
  assigns to \<open>z\<close>, reads it back, assigns to \<open>y\<close>, reads it back, and assigns to \<open>x\<close>;
  \<open>x+y+z\<close> is \<open>(x+y)+z\<close>; one statement with several \<open><<\<close> reads all its operands and
  then inserts them left to right. The operands of these statements have no side
  effects, so the order in which they are read cannot be observed. A string literal in
  the source is \<open>literal\<close> of its text in the model, so that the statements go through
  the same search for the terminating null character as the library does; the simp
  rules of \<open>Strings\<close> and \<open>Ostream\<close> remove it for a text without null characters. The
  statement definitions of \<open>Variables\<close> are written by hand, one per line of the source;
  \<open>Program_Text\<close> holds the same lines as syntax and proves that their meaning under the
  evaluator of \<open>Language\<close> is that of the definitions. In an output statement the
  evaluator inserts each operand as soon as it is evaluated, as C++17 orders it, while
  the definitions read all operands first; the two agree because an insertion changes
  no variable and cannot fail.

  \<^bold>\<open>Assumptions.\<close> \<open>int\<close> has 32 bits and \<open>double\<close> is binary64, as on the mainstream
  ABIs (for \<open>int\<close> the assumption is needed only for the statements with other values
  than the source has: the run of the text as written is the same at every width that the
  language allows); literals are converted with round-to-nearest-even; the stream starts with the
  flags the standard gives \<open>cout\<close> (precision 6, \<open>boolalpha\<close> off, decimal base, no field
  width) in the classic locale. The properties of \<open>main\<close> that do not depend on the flags
  are stated for an arbitrary stream. For the process: standard output accepts every
  write (a write never fails and never blocks for ever), and the exit status is the
  value of \<open>main\<close> modulo 256 as on POSIX systems.

  \<^bold>\<open>Not modelled.\<close> The error state of the stream and failing writes, field width and
  fill, numeric bases other than ten, locales, the size of the stream's buffer (any
  write of held characters is allowed instead), signals, and the operations of
  \<open>std::string\<close> that the program does not use. The language of \<open>Language\<close> has the
  constructs of the source and no others: no control flow, no functions, no conversions
  between arithmetic types. The library code behind \<open>operator<<\<close>,
  the constructor of \<open>std::string\<close>, the conversion of the literal \<open>5.99\<close> and the runtime
  around \<open>main\<close> is not in the repository; \<open>Strings\<close>, \<open>Decimal\<close>, \<open>Double\<close>, \<open>Float_Text\<close>,
  \<open>Ostream\<close> and \<open>Process\<close> model it from the C++, IEEE 754 and POSIX standards. No
  function here needs fuel: the only recursions are structural or, for the digit loops
  \<open>dec_nat\<close> and \<open>ilen\<close>, proved terminating; the runs of the process are proved finite by
  the measure \<open>todo\<close>, which starts at 23 plus the length of the output.
\<close>

section \<open>What the program is expected to print\<close>

definition main_text :: "nat \<Rightarrow> bool \<Rightarrow> string" where
  "main_text p alpha =
     show_int 10 @ show_int 5 @ show_double p (double_of_rat (599 / 100)) @ ''D'' @
     ''Hello'' @ show_bool alpha True @ newline @
     newline @ show_int 19 @
     newline @ show_int 150 @
     ''##################################'' @ newline @
     ''Length is: '' @ show_int 4 @ newline @
     ''Width is: '' @ show_int 6 @ newline @
     ''Area of the rectangle is: '' @ show_int 24 @ newline"

definition expected_output :: string where
  "expected_output =
     ''1055.99DHello1'' @ newline @
     newline @ ''19'' @
     newline @ ''150'' @ ''##################################'' @ newline @
     ''Length is: 4'' @ newline @
     ''Width is: 6'' @ newline @
     ''Area of the rectangle is: 24'' @ newline"

definition final_locals :: locals where
  "final_locals =
     \<lparr>n = Holds 10, myNum = Holds 5, myFloatNum = Holds (double_of_rat (599 / 100)),
      myLetter = Holds CHR ''D'', myText = Holds ''Hello'', myBoolean = Holds True,
      x = Holds 50, y = Holds 50, z = Holds 50, minutesPerHour = Const 60,
      length_var = Holds 4, width = Holds 6, area = Holds 24\<rparr>"

definition after_const :: world where
  "after_const = \<lparr>frame = no_locals\<lparr>minutesPerHour := Const 60\<rparr>, cout = cout_init\<rparr>"

section \<open>Lines of a text\<close>

fun lines_of :: "string \<Rightarrow> string list" where
  "lines_of [] = [[]]"
| "lines_of (c # cs) =
     (if c = CHR 0x0A then [] # lines_of cs
      else (case lines_of cs of [] \<Rightarrow> [[c]] | l # ls \<Rightarrow> (c # l) # ls))"

fun unlines :: "string list \<Rightarrow> string" where
  "unlines [] = []"
| "unlines [l] = l"
| "unlines (l # m # ls) = l @ newline @ unlines (m # ls)"

lemma lines_of_not_Nil [simp]: "lines_of s \<noteq> []"
  by (induction s) (auto split: list.splits)

lemma unlines_cons_char [simp]: "unlines ((c # l) # ls) = c # unlines (l # ls)"
  by (cases ls) simp_all

lemma unlines_cons_empty [simp]: "unlines ([] # l # ls) = newline @ unlines (l # ls)"
  by simp

lemma unlines_lines_of [simp]: "unlines (lines_of s) = s"
proof (induction s)
  case (Cons c cs)
  then show ?case
    by (cases "lines_of cs") (auto simp: newline_def)
qed simp

lemma lines_of_no_newline: "l \<in> set (lines_of s) \<Longrightarrow> CHR 0x0A \<notin> set l"
  by (induction s arbitrary: l) (auto split: if_splits list.splits)

lemma length_lines_of: "length (lines_of s) = Suc (count_list s CHR 0x0A)"
  by (induction s) (auto split: list.splits)

section \<open>The run of the body\<close>

lemmas run_defs = main_body_def main_entry_def no_locals_def add_int_def mul_int_def
  int_range_defs stmt_defs put_defs

lemma point_frame_final: "point_frame 20 = final_locals"
  by (simp add: point_frame_def final_locals_def)

lemma point_text_final: "point_text 20 p alpha = main_text p alpha"
  by (simp add: point_text_def stmt_texts_def main_text_def)

lemma run_body:
  "exec_seq main_body (main_entry os) =
     Inr \<lparr>frame = final_locals, cout = emit os (main_text (precision os) (boolalpha os))\<rparr>"
  using run_to_point [of 20 os]
  by (simp add: run_to_def point_world_def point_frame_final point_text_final)

lemma main_result:
  "main os = Inr (0, emit os (main_text (precision os) (boolalpha os)))"
  by (simp add: main_def run_body)

lemma main_text_default: "main_text 6 False = expected_output"
  by (simp add: main_text_def expected_output_def show_double_5_99)

lemma after_const_simps [simp]:
  "minutesPerHour (frame after_const) = Const 60" "cout after_const = cout_init"
  by (simp_all add: after_const_def)

section \<open>The whole program\<close>

text \<open>
  C1. Started with the stream in its initial state, \<open>main\<close> completes without an undefined
  step, returns 0, and has written exactly the expected text: the six values run together
  on the first line, an empty line, 19, then 150 followed on the same line by the 34 hash
  characters, and the three lines of the rectangle.
\<close>

theorem main_prints_expected_output:
  "main cout_init = Inr (0, cout_init\<lparr>buf := expected_output\<rparr>)"
  by (simp add: main_def run_defs cout_init_def expected_output_def show_double_5_99 emit_def)

text \<open>
  C2. For every state of the stream, \<open>main\<close> returns 0 and appends to what the stream already
  holds the text determined by the stream's precision and \<open>boolalpha\<close> flag; it changes
  neither flag. The program is therefore deterministic and cannot fail.
\<close>

theorem main_appends_main_text:
  "main os = Inr (0, emit os (main_text (precision os) (boolalpha os)))"
  by (simp add: main_def run_defs main_text_def emit_def)

text \<open>
  C3. Every program point of \<open>main\<close> is reached without an error: for every \<open>k\<close>, the first \<open>k\<close>
  statements of the body run to completion from the entry state. No variable is read
  before it has a value, none is declared twice, the constant is never assigned to, and
  no addition or multiplication overflows.
\<close>

theorem every_program_point_is_reached:
  "is_ok (exec_seq (take k main_body) (main_entry os))"
  by (rule exec_seq_take_ok) (simp add: run_defs)

text \<open>
  C4. After the declaration of line 18 the expression \<open>x+y+z\<close> has the value 19.
\<close>

theorem sum_after_declarations:
  "bind_res (exec_seq (take 9 main_body) (main_entry os)) (\<lambda>w. sum_x_y_z (frame w)) = Inr 19"
  by (simp add: run_defs)

text \<open>
  C5. After the chained assignment of line 22 each of \<open>x\<close>, \<open>y\<close> and \<open>z\<close> holds 50 and the
  expression \<open>x+y+z\<close> has the value 150.
\<close>

theorem sum_after_chained_assignment:
  "bind_res (exec_seq (take 11 main_body) (main_entry os))
     (\<lambda>w. Inr (x (frame w), y (frame w), z (frame w), sum_x_y_z (frame w))) =
   Inr (Holds 50, Holds 50, Holds 50, Inr 150)"
  by (simp add: run_defs)

text \<open>
  C6. After line 38 the variable \<open>length\<close> holds 4, \<open>width\<close> holds 6 and \<open>area\<close> holds 24, their
  product.
\<close>

theorem area_after_declarations:
  "bind_res (exec_seq (take 17 main_body) (main_entry os))
     (\<lambda>w. Inr (length_var (frame w), width (frame w), area (frame w))) =
   Inr (Holds 4, Holds 6, Holds 24)"
  by (simp add: run_defs)

section \<open>Invariants of the body\<close>



text \<open>
  C12. At the end of \<open>main\<close> an assignment of any value to \<open>minutesPerHour\<close> is rejected as an
  assignment to a constant.
\<close>

theorem constant_rejects_assignment:
  "bind_res (exec_seq main_body (main_entry os))
     (\<lambda>w. assign v (minutesPerHour (frame w))) = Inl AssignToConst"
  by (simp add: run_body final_locals_def)

text \<open>
  C13. Output is only appended: after any run of statements of the body the text written
  before the run is a prefix of the text written after it, and the precision and the
  \<open>boolalpha\<close> flag of the stream are unchanged.
\<close>

theorem output_only_grows:
  assumes "set cs \<subseteq> set main_body" and "exec_seq cs w = Inr w'"
  shows "prefix (buf (cout w)) (buf (cout w')) \<and> precision (cout w') = precision (cout w) \<and>
    boolalpha (cout w') = boolalpha (cout w)"
  using preserves_body_run [OF body_extends_output assms(1) _ assms(2),
      of "buf (cout w)" "precision (cout w)" "boolalpha (cout w)"]
  by simp

theorem output_only_grows_witness:
  "\<exists>w'. exec_seq [print_separator, decl_length] after_const = Inr w' \<and>
     prefix (buf (cout after_const)) (buf (cout w')) \<and> precision (cout w') = 6"
proof -
  let ?cs = "[print_separator, decl_length]"
  have "is_ok (exec_seq ?cs after_const)"
    by (simp add: after_const_def run_defs)
  then obtain w' where run: "exec_seq ?cs after_const = Inr w'"
    by (auto simp: is_ok_iff)
  have "set ?cs \<subseteq> set main_body"
    by (simp add: main_body_def)
  from output_only_grows [OF this run] run show ?thesis
    by auto
qed

text \<open>
  C14. Variables only move forward: after any run of statements of the body every variable is
  at least as far in its life cycle as before (in scope stays in scope, a value is never
  taken away, a constant keeps its value), so the names in scope and the names with a
  value only grow.
\<close>

theorem variables_only_move_forward:
  assumes "set cs \<subseteq> set main_body" and "exec_seq cs w = Inr w'"
  shows "frame_le (frame w) (frame w') \<and> set (declared (frame w)) \<subseteq> set (declared (frame w')) \<and>
    set (initialised (frame w)) \<subseteq> set (initialised (frame w'))"
proof -
  have "frame_le (frame w) (frame w')"
    using preserves_body_run [OF body_keeps_frame_le assms(1) _ assms(2), of "frame w"]
    by simp
  then show ?thesis
    by (simp add: frame_le_declared frame_le_initialised)
qed

theorem variables_only_move_forward_witness:
  "\<exists>w'. exec_seq [decl_length, decl_width] after_const = Inr w' \<and>
     set (declared (frame after_const)) \<subseteq> set (declared (frame w'))"
proof -
  let ?cs = "[decl_length, decl_width]"
  have "is_ok (exec_seq ?cs after_const)"
    by (simp add: after_const_def run_defs)
  then obtain w' where run: "exec_seq ?cs after_const = Inr w'"
    by (auto simp: is_ok_iff)
  have "set ?cs \<subseteq> set main_body"
    by (simp add: main_body_def)
  from variables_only_move_forward [OF this run] run show ?thesis
    by blast
qed

section \<open>What the statements depend on\<close>



text \<open>
  C20. The literal of line 10 is not representable: the double that \<open>myFloatNum\<close> holds differs
  from 5.99, by less than one part in \<open>10^15\<close>. At the default precision of six digits it prints as
  5.99 all the same; at seventeen digits the difference shows.
\<close>

theorem literal_5_99_is_rounded:
  "\<exists>w d. decl_myFloatNum (main_entry os) = Inr w \<and> myFloatNum (frame w) = Holds d \<and>
     dbl_val d \<noteq> 599 / 100 \<and> \<bar>dbl_val d - 599 / 100\<bar> < 1 / 10 ^ 15 \<and>
     show_double 6 d = ''5.99'' \<and> show_double 17 d = ''5.9900000000000002''"
  using dbl_val_5_99_inexact show_double_5_99 show_double_5_99_at_17
  by (simp add: decl_myFloatNum_def main_entry_def no_locals_def)

text \<open>
  At the end of \<open>main\<close> the thirteen variables of the source are in scope, in the order of
  their declarations, and each of them has a value.
\<close>

lemma all_variables_declared_at_exit:
  "bind_res (exec_seq main_body (main_entry os))
     (\<lambda>w. Inr (declared (frame w), initialised (frame w))) = Inr (var_names, var_names)"
  by (simp add: run_body final_locals_def declared_def initialised_def names_def var_names_def)

section \<open>The characters of the output\<close>

lemma main_text_plain: "list_all plain (main_text p alpha)"
  by (simp add: main_text_def printable_plain show_double_printable show_bool_printable
      plain_def printable_def)

lemma main_text_newlines: "count_list (main_text p alpha) CHR 0x0A = 7"
  by (simp add: main_text_def count_list_append_eq printable_no_newline show_int_printable
      show_double_printable show_bool_printable)

text \<open>
  C31. The output is plain text, whatever the flags of the stream. For every precision and
  either setting of \<open>boolalpha\<close>, what \<open>main\<close> appends to the stream consists of printable
  characters and newlines only, and of exactly seven newlines: the text of no value
  (in particular not that of the double, which depends on the precision) brings in a null
  character, a control character or a line break of its own.
\<close>

theorem output_is_plain_text:
  "\<exists>os'. main os = Inr (0, os') \<and>
     list_all plain (drop (length (buf os)) (buf os')) \<and>
     length (lines_of (drop (length (buf os)) (buf os'))) = 8"
  by (simp add: main_result main_text_plain length_lines_of main_text_newlines)

section \<open>The program as a process\<close>

lemma final_text: "point_text 20 6 False = expected_output"
  by (simp add: point_text_final main_text_default)

text \<open>
  C37. The complete output is inevitable. From every state that a run of the process can be
  in, whatever the stream has written or held back so far, every continuation of the run
  arrives at the exit with status 0 and with exactly the expected text on standard output:
  no run stops earlier, and none goes on forever.
\<close>

theorem output_is_eventually_complete:
  assumes "rtranclp pstep Startup p"
  shows "inevitable pstep (\<lambda>q. q = Exited 0 expected_output) p"
  using exit_inevitable [OF proc_inv_reachable [OF assms]] by (simp add: final_text)

theorem output_is_eventually_complete_witness:
  "inevitable pstep (\<lambda>q. q = Exited 0 expected_output) Startup"
  using output_is_eventually_complete [of Startup] by simp

text \<open>
  C38. The process implements \<open>main\<close>. A run of the process can end with a status and a text
  on standard output exactly when they are the low eight bits of the value that \<open>main\<close>
  returns from the initial stream and the characters \<open>main\<close> has given to that stream: when
  the stream writes, early, late or in pieces, cannot be observed in the result.
\<close>

theorem process_result_is_main_result:
  "rtranclp pstep Startup (Exited s out) \<longleftrightarrow>
     (\<exists>v os. main cout_init = Inr (v, os) \<and> s = exit_status v \<and> out = buf os)"
  by (simp add: exited_iff main_result point_text_final)

text \<open>
  C40. Nothing else is ever written. At every moment of every run of the process, whatever the
  stream has chosen to write so far, what is on standard output is a prefix of the expected
  text; and once the process has exited it is the whole of it.
\<close>

theorem standard_output_is_a_prefix:
  assumes "rtranclp pstep Startup p"
  shows "prefix (written p) expected_output \<and> (exited p \<longrightarrow> written p = expected_output)"
  using written_prefix [OF assms] proc_inv_reachable [OF assms]
  by (cases p) (simp_all add: final_text)

theorem standard_output_is_a_prefix_witness:
  "prefix (take 11 (point_text 8 6 False)) expected_output"
  using standard_output_is_a_prefix [OF run_schedule_steps [OF run_partial [of 8 11]]]
  by (simp add: point_text_def stmt_texts_def show_double_5_99 newline_def)

end
